theory Spec2Isabelle
  imports Complex_Main "HOL-Library.Product_Lexorder" "HOL-Library.Option_ord"
    "HOL-Library.Char_ord" "HOL-Library.List_Lexorder"
begin

section \<open>SQL values and errors\<close>

text \<open>
  The stored procedures of the LoveCakes backend run on SQL Server. Their columns and
  parameters are modelled as follows.
  \<^item> \<open>INT\<close> is an \<open>int\<close>; where a procedure computes with its parameters the range of
    the 32-bit type is checked and leaving it raises an arithmetic overflow, as the
    engine does. Identity columns are taken unbounded.
  \<^item> \<open>NUMERIC(18, 6)\<close> is the integer number of millionths; a value assigned to a
    variable or column of that type must lie strictly between \<open>-10^18\<close> and \<open>10^18\<close>
    millionths, otherwise the engine raises an arithmetic overflow.
  \<^item> \<open>NUMERIC(3, 1)\<close> (ratings) is the integer number of tenths.
  \<^item> \<open>BIT\<close> is a \<open>bool\<close>, \<open>DATETIME2\<close> an \<open>int\<close> (a tick count), \<open>NVARCHAR\<close> a \<open>string\<close>.
  \<^item> A nullable column or parameter is an \<open>option\<close>, \<open>None\<close> being \<open>NULL\<close>.
  \<^item> A parameter is compared with the string literals of a procedure letter by letter
    (a case-insensitive collation would accept other spellings of the same word).
\<close>

datatype sql_error =
    THROW_51000 string
  | ArithmeticOverflow
  | NotNullViolation string
  | CheckViolation string
  | ForeignKeyViolation string
  | ConversionFailed
  | TopNegative
  | InvalidObjectName string

definition ISNULL :: "'a option \<Rightarrow> 'a \<Rightarrow> 'a" where
  "ISNULL v d = (case v of None \<Rightarrow> d | Some x \<Rightarrow> x)"

definition INT_range :: "int \<Rightarrow> sql_error + int" where
  "INT_range v = (if - 2147483648 \<le> v \<and> v \<le> 2147483647 then Inr v else Inl ArithmeticOverflow)"

definition fits_NUMERIC_18_6 :: "int \<Rightarrow> bool" where
  "fits_NUMERIC_18_6 v = (- 1000000000000000000 < v \<and> v < 1000000000000000000)"

text \<open>
  \<open>SELECT @v = e FROM ... WHERE ...\<close> assigns once per row of the result: with no row
  the variable keeps its value, with several the last one processed stays.
\<close>

definition select_into :: "'a option \<Rightarrow> 'a list \<Rightarrow> 'a option" where
  "select_into v rows = (if rows = [] then v else Some (last rows))"

section \<open>The schema (\<open>_structure.sql\<close>)\<close>

text \<open>Every table is the list of its rows; the record of a table is named by its alias.\<close>

record cat =
  idCategory :: int
  idAccount :: int
  name :: string
  description :: string
  dateCreated :: int
  dateModified :: int
  deleted :: bool

record flv =
  idFlavor :: int
  idAccount :: int
  name :: string
  description :: string
  dateCreated :: int
  dateModified :: int
  deleted :: bool

record siz =
  idSize :: int
  idAccount :: int
  name :: string
  description :: string
  priceModifier :: int
  dateCreated :: int
  dateModified :: int
  deleted :: bool

record cnf =
  idConfectioner :: int
  idAccount :: int
  name :: string
  photo :: "string option"
  averageRating :: int
  totalProductsSold :: int
  dateCreated :: int
  dateModified :: int
  deleted :: bool

record prd =
  idProduct :: int
  idAccount :: int
  idCategory :: int
  idConfectioner :: int
  name :: string
  description :: string
  ingredients :: string
  nutritionalInfo :: "string option"
  basePrice :: int
  promotionalPrice :: "int option"
  mainImage :: string
  imageGallery :: "string option"
  averageRating :: int
  totalReviews :: int
  preparationTime :: string
  available :: bool
  active :: bool
  dateCreated :: int
  dateModified :: int
  deleted :: bool

record prdFlv =
  idAccount :: int
  idProduct :: int
  idFlavor :: int

record prdSiz =
  idAccount :: int
  idProduct :: int
  idSize :: int

record rev =
  idReview :: int
  idAccount :: int
  idProduct :: int
  customerName :: string
  rating :: int
  comment :: string
  dateCreated :: int
  deleted :: bool

record crt =
  idCart :: int
  idAccount :: int
  idUser :: int
  dateCreated :: int
  dateModified :: int

record crtItm =
  idCartItem :: int
  idAccount :: int
  idCart :: int
  idProduct :: int
  idFlavor :: int
  idSize :: int
  quantity :: int
  unitPrice :: int
  totalPrice :: int
  observations :: "string option"
  dateCreated :: int

text \<open>
  The database: the ten tables of schema \<open>functional\<close> and the last identity value
  given out by the two tables the procedures insert into (\<open>IDENTITY(1, 1)\<close>: the next
  row gets the last value plus one).
\<close>

record database =
  category :: "cat list"
  flavor :: "flv list"
  size_tbl :: "siz list"
  confectioner :: "cnf list"
  product :: "prd list"
  productFlavor :: "prdFlv list"
  productSize :: "prdSiz list"
  review :: "rev list"
  cart :: "crt list"
  cartItem :: "crtItm list"
  cartIdentity :: int
  cartItemIdentity :: int

text \<open>\<open>chkCartItem_Quantity\<close>: \<open>CHECK ([quantity] > 0 AND [quantity] <= 10)\<close>.\<close>

definition chkCartItem_Quantity :: "int \<Rightarrow> bool" where
  "chkCartItem_Quantity q = (q > 0 \<and> q \<le> 10)"

section \<open>\<open>spCartItemAdd\<close>\<close>

text \<open>The one row of the result set \<open>CartItemAdded\<close>.\<close>

record CartItemAdded =
  idCartItem :: int
  idCart :: int
  quantity :: int
  unitPrice :: int
  totalPrice :: int
  success :: bool

text \<open>
  The parameter and availability validations, in the order of the procedure; the result
  is the error of the first \<open>THROW\<close> reached, or \<open>None\<close> when all pass.
\<close>

definition spCartItemAdd_validation ::
  "int option \<Rightarrow> int option \<Rightarrow> int option \<Rightarrow> int option \<Rightarrow> int option \<Rightarrow> int option
    \<Rightarrow> database \<Rightarrow> sql_error option" where
  "spCartItemAdd_validation pAccount pUser pProduct pFlavor pSize pQuantity db =
    (if pAccount = None then Some (THROW_51000 ''accountRequired'')
     else if pUser = None then Some (THROW_51000 ''userRequired'')
     else if pProduct = None then Some (THROW_51000 ''productRequired'')
     else if pFlavor = None then Some (THROW_51000 ''flavorRequired'')
     else if pSize = None then Some (THROW_51000 ''sizeRequired'')
     else if (case pQuantity of None \<Rightarrow> True | Some q \<Rightarrow> q < 1)
       then Some (THROW_51000 ''quantityRequired'')
     else if (case pQuantity of None \<Rightarrow> False | Some q \<Rightarrow> q > 10)
       then Some (THROW_51000 ''quantityExceedsMaximum'')
     else if \<not> (\<exists>p \<in> set (product db).
         Some (prd.idProduct p) = pProduct \<and> Some (prd.idAccount p) = pAccount
         \<and> \<not> prd.deleted p \<and> prd.active p \<and> prd.available p)
       then Some (THROW_51000 ''productNotAvailable'')
     else if \<not> (\<exists>pf \<in> set (productFlavor db).
         Some (prdFlv.idProduct pf) = pProduct \<and> Some (prdFlv.idAccount pf) = pAccount
         \<and> Some (prdFlv.idFlavor pf) = pFlavor)
       then Some (THROW_51000 ''flavorNotAvailable'')
     else if \<not> (\<exists>ps \<in> set (productSize db).
         Some (prdSiz.idProduct ps) = pProduct \<and> Some (prdSiz.idAccount ps) = pAccount
         \<and> Some (prdSiz.idSize ps) = pSize)
       then Some (THROW_51000 ''sizeNotAvailable'')
     else None)"

text \<open>
  ``Ensure cart exists or create new one'': the \<open>SELECT @idCart = ...\<close> and, when it
  left \<open>@idCart\<close> \<open>NULL\<close>, the \<open>INSERT\<close> followed by \<open>SCOPE_IDENTITY()\<close>. The new row
  takes \<open>GETUTCDATE()\<close> (the argument \<open>now\<close>) for both date columns.
\<close>

definition ensure_cart :: "int \<Rightarrow> int \<Rightarrow> int \<Rightarrow> database \<Rightarrow> int \<times> database" where
  "ensure_cart A U now db =
    (case select_into None
        (map crt.idCart (filter (\<lambda>c. crt.idAccount c = A \<and> crt.idUser c = U) (cart db))) of
      Some c \<Rightarrow> (c, db)
    | None \<Rightarrow>
        (cartIdentity db + 1,
         db\<lparr>cart := cart db @
              [\<lparr>crt.idCart = cartIdentity db + 1, crt.idAccount = A, crt.idUser = U,
                crt.dateCreated = now, crt.dateModified = now\<rparr>],
            cartIdentity := cartIdentity db + 1\<rparr>))"

text \<open>
  Rule br-013: \<open>SELECT @unitPrice = ISNULL(promotionalPrice, basePrice) + priceModifier\<close>
  over \<open>product JOIN size ON (siz.idSize = @idSize)\<close>, restricted to the product of the
  account. The join condition names the size only. The sum is assigned to a
  \<open>NUMERIC(18, 6)\<close> variable; with no row the variable stays \<open>NULL\<close>.
\<close>

definition unitPrice_rows :: "int \<Rightarrow> int \<Rightarrow> int \<Rightarrow> database \<Rightarrow> (prd \<times> siz) list" where
  "unitPrice_rows A P S db =
    filter (\<lambda>(p, s). siz.idSize s = S \<and> prd.idProduct p = P \<and> prd.idAccount p = A)
      (List.product (product db) (size_tbl db))"

definition calc_unitPrice :: "int \<Rightarrow> int \<Rightarrow> int \<Rightarrow> database \<Rightarrow> sql_error + int option" where
  "calc_unitPrice A P S db =
    (let vals = map (\<lambda>(p, s). ISNULL (prd.promotionalPrice p) (prd.basePrice p) + siz.priceModifier s)
                  (unitPrice_rows A P S db)
     in if \<exists>v \<in> set vals. \<not> fits_NUMERIC_18_6 v then Inl ArithmeticOverflow
        else Inr (select_into None vals))"

text \<open>\<open>@unitPrice * n\<close> stored in a \<open>NUMERIC(18, 6)\<close>; \<open>NULL\<close> times anything is \<open>NULL\<close>.\<close>

definition times_quantity :: "int option \<Rightarrow> int \<Rightarrow> sql_error + int option" where
  "times_quantity u n =
    (case u of
      None \<Rightarrow> Inr None
    | Some v \<Rightarrow> if fits_NUMERIC_18_6 (v * n) then Inr (Some (v * n)) else Inl ArithmeticOverflow)"

text \<open>
  Rule br-020: the lookup of the item in the cart. \<open>@idCartItem\<close> starts \<open>NULL\<close>; the
  pair is the item's identifier and quantity.
\<close>

definition find_cartItem :: "int \<Rightarrow> int \<Rightarrow> int \<Rightarrow> int \<Rightarrow> int \<Rightarrow> database \<Rightarrow> (int \<times> int) option" where
  "find_cartItem A C P F S db =
    select_into None
      (map (\<lambda>i. (crtItm.idCartItem i, crtItm.quantity i))
        (filter (\<lambda>i. crtItm.idCart i = C \<and> crtItm.idAccount i = A \<and> crtItm.idProduct i = P
                  \<and> crtItm.idFlavor i = F \<and> crtItm.idSize i = S) (cartItem db)))"

text \<open>
  The \<open>UPDATE\<close> of the merge branch, reached with the new quantity at most ten. The
  columns \<open>totalPrice\<close> and \<open>quantity\<close> are \<open>NOT NULL\<close>, of type \<open>NUMERIC(18, 6)\<close> and
  under \<open>chkCartItem_Quantity\<close>.
\<close>

definition update_cartItem ::
  "int \<Rightarrow> int \<Rightarrow> int option \<Rightarrow> string option \<Rightarrow> database \<Rightarrow> sql_error + database" where
  "update_cartItem I newQuantity u obs db =
    (case times_quantity u newQuantity of
      Inl e \<Rightarrow> Inl e
    | Inr None \<Rightarrow> Inl (NotNullViolation ''totalPrice'')
    | Inr (Some t) \<Rightarrow>
        if \<not> chkCartItem_Quantity newQuantity then Inl (CheckViolation ''chkCartItem_Quantity'')
        else Inr (db\<lparr>cartItem :=
          map (\<lambda>i. if crtItm.idCartItem i = I
                   then i\<lparr>crtItm.quantity := newQuantity, crtItm.totalPrice := t,
                          crtItm.observations :=
                            (case obs of None \<Rightarrow> crtItm.observations i | Some v \<Rightarrow> Some v)\<rparr>
                   else i)
            (cartItem db)\<rparr>))"

text \<open>
  Rule br-018: the \<open>INSERT\<close> of a new item, followed by \<open>SCOPE_IDENTITY()\<close>. The row is
  refused when a \<open>NOT NULL\<close> price is \<open>NULL\<close>, when the quantity breaks the check
  constraint, or when the flavor is no row of table \<open>flavor\<close> (\<open>fkCartItem_Flavor\<close>). The
  other foreign keys hold where the insert is reached: the product was found by the
  validation, the cart by \<open>ensure_cart\<close>, and a size row gave the unit price.
\<close>

definition insert_cartItem ::
  "int \<Rightarrow> int \<Rightarrow> int \<Rightarrow> int \<Rightarrow> int \<Rightarrow> int \<Rightarrow> int option \<Rightarrow> int option \<Rightarrow> string option \<Rightarrow> int
    \<Rightarrow> database \<Rightarrow> sql_error + int \<times> database" where
  "insert_cartItem A C P F S q u t obs now db =
    (case (u, t) of
      (None, _) \<Rightarrow> Inl (NotNullViolation ''unitPrice'')
    | (Some _, None) \<Rightarrow> Inl (NotNullViolation ''totalPrice'')
    | (Some uv, Some tv) \<Rightarrow>
        if \<not> chkCartItem_Quantity q then Inl (CheckViolation ''chkCartItem_Quantity'')
        else if \<not> (\<exists>f \<in> set (flavor db). flv.idFlavor f = F)
          then Inl (ForeignKeyViolation ''fkCartItem_Flavor'')
        else Inr (cartItemIdentity db + 1,
          db\<lparr>cartItem := cartItem db @
               [\<lparr>crtItm.idCartItem = cartItemIdentity db + 1, crtItm.idAccount = A,
                 crtItm.idCart = C, crtItm.idProduct = P, crtItm.idFlavor = F,
                 crtItm.idSize = S, crtItm.quantity = q, crtItm.unitPrice = uv,
                 crtItm.totalPrice = tv, crtItm.observations = obs,
                 crtItm.dateCreated = now\<rparr>],
             cartItemIdentity := cartItemIdentity db + 1\<rparr>))"

text \<open>\<open>UPDATE cart SET dateModified = GETUTCDATE() WHERE idCart = @idCart\<close>.\<close>

definition touch_cart :: "int \<Rightarrow> int \<Rightarrow> database \<Rightarrow> database" where
  "touch_cart C now db =
    db\<lparr>cart := map (\<lambda>c. if crt.idCart c = C then c\<lparr>crt.dateModified := now\<rparr> else c) (cart db)\<rparr>"

text \<open>
  The statements between \<open>BEGIN TRAN\<close> and \<open>COMMIT TRAN\<close>. The result carries the
  database as the statements left it: after an error, the state the \<open>CATCH\<close> block finds.
\<close>

definition cart_transaction ::
  "int \<Rightarrow> int \<Rightarrow> int \<Rightarrow> int \<Rightarrow> int \<Rightarrow> int \<Rightarrow> string option \<Rightarrow> int \<Rightarrow> database
    \<Rightarrow> (sql_error + CartItemAdded) \<times> database" where
  "cart_transaction A U P F S q obs now db =
    (let (C, db1) = ensure_cart A U now db in
     case calc_unitPrice A P S db1 of
       Inl e \<Rightarrow> (Inl e, db1)
     | Inr u \<Rightarrow>
        (case times_quantity u q of
          Inl e \<Rightarrow> (Inl e, db1)
        | Inr t \<Rightarrow>
           (case find_cartItem A C P F S db1 of
             Some (I, existingQuantity) \<Rightarrow>
               (let newQuantity = existingQuantity + q in
                if newQuantity > 10 then (Inl (THROW_51000 ''quantityExceedsMaximum''), db1)
                else case update_cartItem I newQuantity u obs db1 of
                  Inl e \<Rightarrow> (Inl e, db1)
                | Inr db2 \<Rightarrow>
                    (Inr \<lparr>CartItemAdded.idCartItem = I, idCart = C, quantity = q,
                          unitPrice = the u, totalPrice = the t, success = True\<rparr>,
                     touch_cart C now db2))
           | None \<Rightarrow>
               (case insert_cartItem A C P F S q u t obs now db1 of
                 Inl e \<Rightarrow> (Inl e, db1)
               | Inr (I, db2) \<Rightarrow>
                   (Inr \<lparr>CartItemAdded.idCartItem = I, idCart = C, quantity = q,
                         unitPrice = the u, totalPrice = the t, success = True\<rparr>,
                    touch_cart C now db2)))))"

text \<open>
  \<open>ROLLBACK TRAN\<close> puts the tables back as \<open>BEGIN TRAN\<close> found them. Identity values
  handed out inside the transaction are not given back.
\<close>

definition rollback :: "database \<Rightarrow> database \<Rightarrow> database" where
  "rollback snapshot dirty =
    snapshot\<lparr>cartIdentity := cartIdentity dirty, cartItemIdentity := cartItemIdentity dirty\<rparr>"

text \<open>
  The procedure: the validations, then the transaction inside \<open>TRY\<close>; the \<open>CATCH\<close> block
  rolls back and throws the error again.
\<close>

definition spCartItemAdd ::
  "int option \<Rightarrow> int option \<Rightarrow> int option \<Rightarrow> int option \<Rightarrow> int option \<Rightarrow> int option
    \<Rightarrow> string option \<Rightarrow> int \<Rightarrow> database \<Rightarrow> (sql_error + CartItemAdded) \<times> database" where
  "spCartItemAdd pAccount pUser pProduct pFlavor pSize pQuantity obs now db =
    (case spCartItemAdd_validation pAccount pUser pProduct pFlavor pSize pQuantity db of
      Some e \<Rightarrow> (Inl e, db)
    | None \<Rightarrow>
        (case cart_transaction (the pAccount) (the pUser) (the pProduct) (the pFlavor)
                (the pSize) (the pQuantity) obs now db of
          (Inl e, dirty) \<Rightarrow> (Inl e, rollback db dirty)
        | (Inr r, db') \<Rightarrow> (Inr r, db')))"

section \<open>What the procedures take from the engine\<close>

text \<open>
  Three built-ins of SQL Server depend on the collation and the conversion rules of the
  server, not on this repository; the procedures are modelled over any choice of them.
  \<^item> \<open>LIKE eng s pat\<close>: \<open>s LIKE pat\<close>;
  \<^item> \<open>CAST_INT eng s\<close>: \<open>CAST(s AS INT)\<close>, \<open>None\<close> when the conversion fails;
  \<^item> \<open>collate eng s\<close>: the key by which \<open>ORDER BY\<close> compares the string \<open>s\<close>.
\<close>

record engine =
  LIKE :: "string \<Rightarrow> string \<Rightarrow> bool"
  CAST_INT :: "string \<Rightarrow> int option"
  collate :: "string \<Rightarrow> string"

text \<open>\<open>STRING_SPLIT(s, sep)\<close>: the substrings between the separators, empty ones too.\<close>

fun STRING_SPLIT :: "string \<Rightarrow> char \<Rightarrow> string list" where
  "STRING_SPLIT [] sep = [[]]"
| "STRING_SPLIT (c # cs) sep =
    (if c = sep then [] # STRING_SPLIT cs sep
     else (case STRING_SPLIT cs sep of [] \<Rightarrow> [[c]] | w # ws \<Rightarrow> (c # w) # ws))"

text \<open>
  \<open>SELECT CAST([value] AS INT) FROM STRING_SPLIT(@list, ',')\<close>. The model evaluates
  the subquery of a list that is not \<open>NULL\<close> once, before any row is filtered; an
  element that does not convert raises the conversion error.
\<close>

definition id_list :: "engine \<Rightarrow> string option \<Rightarrow> sql_error + int list option" where
  "id_list eng l =
    (case l of
      None \<Rightarrow> Inr None
    | Some s \<Rightarrow>
        (let vs = map (CAST_INT eng) (STRING_SPLIT s CHR '','')
         in if None \<in> set vs then Inl ConversionFailed else Inr (Some (map the vs))))"

text \<open>\<open>(@list IS NULL) OR (x IN (SELECT ... FROM STRING_SPLIT(@list, ',')))\<close>.\<close>

definition null_or_in :: "int list option \<Rightarrow> int \<Rightarrow> bool" where
  "null_or_in l x = (case l of None \<Rightarrow> True | Some ids \<Rightarrow> x \<in> set ids)"

section \<open>\<open>spProductGet\<close>\<close>

record ProductDetails =
  idProduct :: int
  name :: string
  description :: string
  ingredients :: string
  nutritionalInfo :: "string option"
  basePrice :: int
  promotionalPrice :: "int option"
  currentPrice :: int
  hasPromotion :: bool
  mainImage :: string
  imageGallery :: "string option"
  averageRating :: int
  totalReviews :: int
  preparationTime :: string
  available :: bool
  idConfectioner :: int
  confectionerName :: string
  confectionerPhoto :: "string option"
  confectionerRating :: int
  confectionerProductsSold :: int

record AvailableFlavors =
  idFlavor :: int
  name :: string
  description :: string

record AvailableSizes =
  idSize :: int
  name :: string
  description :: string
  priceModifier :: int

record ProductReviews =
  idReview :: int
  customerName :: string
  rating :: int
  comment :: string
  dateCreated :: int

definition spProductGet_validation :: "int option \<Rightarrow> int option \<Rightarrow> database \<Rightarrow> sql_error option" where
  "spProductGet_validation pAccount pProduct db =
    (if pAccount = None then Some (THROW_51000 ''accountRequired'')
     else if pProduct = None then Some (THROW_51000 ''productRequired'')
     else if \<not> (\<exists>p \<in> set (product db).
         Some (prd.idProduct p) = pProduct \<and> Some (prd.idAccount p) = pAccount
         \<and> \<not> prd.deleted p \<and> prd.active p)
       then Some (THROW_51000 ''productDoesntExist'')
     else None)"

text \<open>The first result set: \<open>product JOIN confectioner\<close>, one row per pair that joins.\<close>

definition ProductDetails_row :: "prd \<times> cnf \<Rightarrow> ProductDetails" where
  "ProductDetails_row = (\<lambda>(p, c).
    \<lparr>ProductDetails.idProduct = prd.idProduct p, name = prd.name p,
      description = prd.description p, ingredients = prd.ingredients p,
      nutritionalInfo = prd.nutritionalInfo p, basePrice = prd.basePrice p,
      promotionalPrice = prd.promotionalPrice p,
      currentPrice = ISNULL (prd.promotionalPrice p) (prd.basePrice p),
      hasPromotion = (prd.promotionalPrice p \<noteq> None),
      mainImage = prd.mainImage p, imageGallery = prd.imageGallery p,
      averageRating = prd.averageRating p, totalReviews = prd.totalReviews p,
      preparationTime = prd.preparationTime p, available = prd.available p,
      idConfectioner = cnf.idConfectioner c, confectionerName = cnf.name c,
      confectionerPhoto = cnf.photo c, confectionerRating = cnf.averageRating c,
      confectionerProductsSold = cnf.totalProductsSold c\<rparr>)"

definition select_ProductDetails :: "int \<Rightarrow> int \<Rightarrow> database \<Rightarrow> ProductDetails list" where
  "select_ProductDetails A P db =
    map ProductDetails_row
      (filter (\<lambda>(p, c). cnf.idAccount c = prd.idAccount p \<and> cnf.idConfectioner c = prd.idConfectioner p
                 \<and> prd.idProduct p = P \<and> prd.idAccount p = A \<and> \<not> prd.deleted p \<and> \<not> cnf.deleted c)
        (List.product (product db) (confectioner db)))"

definition select_AvailableFlavors :: "engine \<Rightarrow> int \<Rightarrow> int \<Rightarrow> database \<Rightarrow> AvailableFlavors list" where
  "select_AvailableFlavors eng A P db =
    map (\<lambda>(pf, f). \<lparr>AvailableFlavors.idFlavor = flv.idFlavor f, name = flv.name f,
                    description = flv.description f\<rparr>)
      (sort_key (\<lambda>(pf, f). collate eng (flv.name f))
        (filter (\<lambda>(pf, f). flv.idAccount f = prdFlv.idAccount pf \<and> flv.idFlavor f = prdFlv.idFlavor pf
                   \<and> prdFlv.idProduct pf = P \<and> prdFlv.idAccount pf = A \<and> \<not> flv.deleted f)
          (List.product (productFlavor db) (flavor db))))"

definition select_AvailableSizes :: "int \<Rightarrow> int \<Rightarrow> database \<Rightarrow> AvailableSizes list" where
  "select_AvailableSizes A P db =
    map (\<lambda>(ps, s). \<lparr>AvailableSizes.idSize = siz.idSize s, name = siz.name s,
                    description = siz.description s, priceModifier = siz.priceModifier s\<rparr>)
      (sort_key (\<lambda>(ps, s). siz.priceModifier s)
        (filter (\<lambda>(ps, s). siz.idAccount s = prdSiz.idAccount ps \<and> siz.idSize s = prdSiz.idSize ps
                   \<and> prdSiz.idProduct ps = P \<and> prdSiz.idAccount ps = A \<and> \<not> siz.deleted s)
          (List.product (productSize db) (size_tbl db))))"

text \<open>\<open>ORDER BY dateCreated DESC\<close> is the ascending order of the negated tick count.\<close>

definition select_ProductReviews :: "int \<Rightarrow> int \<Rightarrow> database \<Rightarrow> ProductReviews list" where
  "select_ProductReviews A P db =
    map (\<lambda>r. \<lparr>ProductReviews.idReview = rev.idReview r, customerName = rev.customerName r,
              rating = rev.rating r, comment = rev.comment r, dateCreated = rev.dateCreated r\<rparr>)
      (sort_key (\<lambda>r. - rev.dateCreated r)
        (filter (\<lambda>r. rev.idProduct r = P \<and> rev.idAccount r = A \<and> \<not> rev.deleted r) (review db)))"

definition spProductGet ::
  "engine \<Rightarrow> int option \<Rightarrow> int option \<Rightarrow> database
    \<Rightarrow> sql_error + ProductDetails list \<times> AvailableFlavors list \<times> AvailableSizes list \<times> ProductReviews list" where
  "spProductGet eng pAccount pProduct db =
    (case spProductGet_validation pAccount pProduct db of
      Some e \<Rightarrow> Inl e
    | None \<Rightarrow>
        (let A = the pAccount; P = the pProduct
         in Inr (select_ProductDetails A P db, select_AvailableFlavors eng A P db,
                 select_AvailableSizes A P db, select_ProductReviews A P db)))"

section \<open>\<open>spProductRelated\<close>\<close>

record RelatedProducts =
  idProduct :: int
  name :: string
  mainImage :: string
  basePrice :: int
  promotionalPrice :: "int option"
  currentPrice :: int
  averageRating :: int
  totalReviews :: int
  confectionerName :: string

definition spProductRelated_validation ::
  "int option \<Rightarrow> int option \<Rightarrow> string \<Rightarrow> database \<Rightarrow> sql_error option" where
  "spProductRelated_validation pAccount pProduct criteria db =
    (if pAccount = None then Some (THROW_51000 ''accountRequired'')
     else if pProduct = None then Some (THROW_51000 ''productRequired'')
     else if criteria \<notin> set [''categoria'', ''sabor'', ''confeiteiro'', ''popularidade'']
       then Some (THROW_51000 ''criteriaInvalidValue'')
     else if \<not> (\<exists>p \<in> set (product db).
         Some (prd.idProduct p) = pProduct \<and> Some (prd.idAccount p) = pAccount \<and> \<not> prd.deleted p)
       then Some (THROW_51000 ''productDoesntExist'')
     else None)"

text \<open>
  Rule br-025: \<open>@idCategory\<close> and \<open>@idConfectioner\<close> of the reference product, both
  \<open>NULL\<close> until the \<open>SELECT\<close> assigns them.
\<close>

definition reference_product :: "int \<Rightarrow> int \<Rightarrow> database \<Rightarrow> (int \<times> int) option" where
  "reference_product A P db =
    select_into None
      (map (\<lambda>p. (prd.idCategory p, prd.idConfectioner p))
        (filter (\<lambda>p. prd.idProduct p = P \<and> prd.idAccount p = A) (product db)))"

text \<open>
  The \<open>CASE\<close> of the common table expression: column \<open>matchesCriteria\<close> of the
  candidate \<open>p\<close>. A comparison with a variable that is \<open>NULL\<close> is not true.
\<close>

definition matchesCriteria ::
  "string \<Rightarrow> int \<Rightarrow> int \<Rightarrow> (int \<times> int) option \<Rightarrow> database \<Rightarrow> prd \<Rightarrow> int" where
  "matchesCriteria criteria A P ref db p =
    (if criteria = ''categoria'' \<and> Some (prd.idCategory p) = map_option fst ref then 1
     else if criteria = ''confeiteiro'' \<and> Some (prd.idConfectioner p) = map_option snd ref then 1
     else if criteria = ''sabor'' \<and>
        (\<exists>f1 \<in> set (productFlavor db). prdFlv.idProduct f1 = P \<and> prdFlv.idAccount f1 = A \<and>
          (\<exists>f2 \<in> set (productFlavor db). prdFlv.idProduct f2 = prd.idProduct p
              \<and> prdFlv.idAccount f2 = prd.idAccount p \<and> prdFlv.idFlavor f2 = prdFlv.idFlavor f1))
       then 1
     else 0)"

text \<open>
  The rows of the common table expression \<open>RelatedProducts\<close>, each kept as the joined
  pair of product and confectioner of which the expression selects columns.
\<close>

definition RelatedProducts_cte :: "int \<Rightarrow> int \<Rightarrow> database \<Rightarrow> (prd \<times> cnf) list" where
  "RelatedProducts_cte A P db =
    filter (\<lambda>(p, c). cnf.idAccount c = prd.idAccount p \<and> cnf.idConfectioner c = prd.idConfectioner p
               \<and> prd.idAccount p = A \<and> prd.idProduct p \<noteq> P \<and> \<not> prd.deleted p \<and> prd.active p
               \<and> prd.available p \<and> \<not> cnf.deleted c)
      (List.product (product db) (confectioner db))"

text \<open>
  \<open>ORDER BY matchesCriteria DESC, popularity DESC, averageRating DESC, idProduct\<close>:
  the lexicographic order of the key below, a descending column being negated. Column
  \<open>popularity\<close> is \<open>totalReviews\<close>.
\<close>

definition related_order :: "(prd \<Rightarrow> int) \<Rightarrow> prd \<times> cnf \<Rightarrow> int \<times> int \<times> int \<times> int" where
  "related_order m = (\<lambda>(p, c). (- m p, - prd.totalReviews p, - prd.averageRating p, prd.idProduct p))"

definition RelatedProducts_row :: "prd \<times> cnf \<Rightarrow> RelatedProducts" where
  "RelatedProducts_row = (\<lambda>(p, c).
    \<lparr>RelatedProducts.idProduct = prd.idProduct p, name = prd.name p, mainImage = prd.mainImage p,
      basePrice = prd.basePrice p, promotionalPrice = prd.promotionalPrice p,
      currentPrice = ISNULL (prd.promotionalPrice p) (prd.basePrice p),
      averageRating = prd.averageRating p, totalReviews = prd.totalReviews p,
      confectionerName = cnf.name c\<rparr>)"

text \<open>
  The ranked rows \<open>SELECT TOP (@limit) ... ORDER BY ...\<close> keeps, before the select list
  is applied.
\<close>

definition related_ranked :: "int \<Rightarrow> int \<Rightarrow> int \<Rightarrow> string \<Rightarrow> database \<Rightarrow> (prd \<times> cnf) list" where
  "related_ranked A P limit criteria db =
    take (nat limit)
      (sort_key (related_order (matchesCriteria criteria A P (reference_product A P db) db))
        (RelatedProducts_cte A P db))"

text \<open>A negative \<open>TOP\<close> value is refused by the engine.\<close>

definition spProductRelated ::
  "int option \<Rightarrow> int option \<Rightarrow> int \<Rightarrow> string \<Rightarrow> database \<Rightarrow> sql_error + RelatedProducts list" where
  "spProductRelated pAccount pProduct limit criteria db =
    (case spProductRelated_validation pAccount pProduct criteria db of
      Some e \<Rightarrow> Inl e
    | None \<Rightarrow>
        if limit < 0 then Inl TopNegative
        else Inr (map RelatedProducts_row
                    (related_ranked (the pAccount) (the pProduct) limit criteria db)))"

section \<open>\<open>spProductList\<close>\<close>

text \<open>
  The parameters after \<open>@idAccount\<close>. The optional filters are \<open>NULL\<close> when absent;
  \<open>@page\<close>, \<open>@pageSize\<close>, \<open>@sortBy\<close> and \<open>@availability\<close> always carry a value, as the
  service binds one to each of them.
\<close>

record ProductListParams =
  page :: int
  pageSize :: int
  sortBy :: string
  categories :: "string option"
  flavors :: "string option"
  sizes :: "string option"
  minPrice :: "int option"
  maxPrice :: "int option"
  confectioners :: "string option"
  availability :: string
  searchTerm :: "string option"

record ProductList =
  idProduct :: int
  name :: string
  mainImage :: string
  basePrice :: int
  promotionalPrice :: "int option"
  currentPrice :: int
  hasPromotion :: bool
  averageRating :: int
  totalReviews :: int
  confectionerName :: string
  available :: bool
  preparationTime :: string
  categoryName :: string

record Pagination =
  totalItems :: int
  totalPages :: int
  currentPage :: int
  pageSize :: int

definition spProductList_validation :: "int option \<Rightarrow> ProductListParams \<Rightarrow> sql_error option" where
  "spProductList_validation pAccount a =
    (if pAccount = None then Some (THROW_51000 ''accountRequired'')
     else if page a < 1 then Some (THROW_51000 ''pageMinimumValue'')
     else if ProductListParams.pageSize a \<notin> set [12, 24, 36]
       then Some (THROW_51000 ''pageSizeInvalidValue'')
     else if sortBy a \<notin> set [''relevancia'', ''preco_menor'', ''preco_maior'', ''mais_vendidos'',
                               ''melhor_avaliados'', ''mais_recentes'']
       then Some (THROW_51000 ''sortByInvalidValue'')
     else if availability a \<notin> set [''disponivel'', ''indisponivel'', ''todos'']
       then Some (THROW_51000 ''availabilityInvalidValue'')
     else if (case (minPrice a, maxPrice a) of (Some lo, Some hi) \<Rightarrow> lo > hi | _ \<Rightarrow> False)
       then Some (THROW_51000 ''priceRangeInvalid'')
     else None)"

text \<open>
  The \<open>WHERE\<close> clause of the common table expression \<open>FilteredProducts\<close> on a joined row
  of product, category and confectioner; the four identifier lists arrive converted.
\<close>

definition FilteredProducts_where ::
  "engine \<Rightarrow> int \<Rightarrow> ProductListParams \<Rightarrow> int list option \<Rightarrow> int list option \<Rightarrow> int list option
    \<Rightarrow> int list option \<Rightarrow> database \<Rightarrow> prd \<times> cat \<times> cnf \<Rightarrow> bool" where
  "FilteredProducts_where eng A a cats cnfs flvs szs db = (\<lambda>(p, c, f).
    cat.idAccount c = prd.idAccount p \<and> cat.idCategory c = prd.idCategory p
    \<and> cnf.idAccount f = prd.idAccount p \<and> cnf.idConfectioner f = prd.idConfectioner p
    \<and> prd.idAccount p = A \<and> \<not> prd.deleted p \<and> prd.active p \<and> \<not> cat.deleted c \<and> \<not> cnf.deleted f
    \<and> ((availability a = ''disponivel'' \<and> prd.available p)
        \<or> (availability a = ''indisponivel'' \<and> \<not> prd.available p)
        \<or> availability a = ''todos'')
    \<and> (case searchTerm a of
          None \<Rightarrow> True
        | Some t \<Rightarrow> LIKE eng (prd.name p) (''%'' @ t @ ''%'')
            \<or> LIKE eng (prd.description p) (''%'' @ t @ ''%'')
            \<or> LIKE eng (prd.ingredients p) (''%'' @ t @ ''%''))
    \<and> null_or_in cats (prd.idCategory p)
    \<and> null_or_in cnfs (prd.idConfectioner p)
    \<and> ((case minPrice a of None \<Rightarrow> True
          | Some lo \<Rightarrow> ISNULL (prd.promotionalPrice p) (prd.basePrice p) \<ge> lo)
        \<and> (case maxPrice a of None \<Rightarrow> True
          | Some hi \<Rightarrow> ISNULL (prd.promotionalPrice p) (prd.basePrice p) \<le> hi))
    \<and> (case flvs of None \<Rightarrow> True
        | Some ids \<Rightarrow> \<exists>pf \<in> set (productFlavor db). prdFlv.idAccount pf = prd.idAccount p
            \<and> prdFlv.idProduct pf = prd.idProduct p \<and> prdFlv.idFlavor pf \<in> set ids)
    \<and> (case szs of None \<Rightarrow> True
        | Some ids \<Rightarrow> \<exists>ps \<in> set (productSize db). prdSiz.idAccount ps = prd.idAccount p
            \<and> prdSiz.idProduct ps = prd.idProduct p \<and> prdSiz.idSize ps \<in> set ids))"

definition FilteredProducts ::
  "engine \<Rightarrow> int \<Rightarrow> ProductListParams \<Rightarrow> int list option \<Rightarrow> int list option \<Rightarrow> int list option
    \<Rightarrow> int list option \<Rightarrow> database \<Rightarrow> (prd \<times> cat \<times> cnf) list" where
  "FilteredProducts eng A a cats cnfs flvs szs db =
    filter (FilteredProducts_where eng A a cats cnfs flvs szs db)
      (List.product (product db) (List.product (category db) (confectioner db)))"

text \<open>
  The \<open>ORDER BY\<close> of the first statement. A \<open>CASE\<close> without \<open>ELSE\<close> is \<open>NULL\<close> on
  every row when its \<open>WHEN\<close> does not name the requested order; a descending column is
  negated; \<open>idProduct\<close> comes last. There is a \<open>CASE\<close> for four of the six values of
  \<open>@sortBy\<close>.
\<close>

definition list_order :: "string \<Rightarrow> prd \<times> cat \<times> cnf \<Rightarrow> int option \<times> int option \<times> int option \<times> int option \<times> int" where
  "list_order sb = (\<lambda>(p, c, f).
    (if sb = ''preco_menor'' then Some (ISNULL (prd.promotionalPrice p) (prd.basePrice p)) else None,
     if sb = ''preco_maior'' then Some (- ISNULL (prd.promotionalPrice p) (prd.basePrice p)) else None,
     if sb = ''melhor_avaliados'' then Some (- prd.averageRating p) else None,
     if sb = ''mais_recentes'' then Some (- prd.dateCreated p) else None,
     prd.idProduct p))"

definition ProductList_row :: "prd \<times> cat \<times> cnf \<Rightarrow> ProductList" where
  "ProductList_row = (\<lambda>(p, c, f).
    \<lparr>ProductList.idProduct = prd.idProduct p, name = prd.name p, mainImage = prd.mainImage p,
      basePrice = prd.basePrice p, promotionalPrice = prd.promotionalPrice p,
      currentPrice = ISNULL (prd.promotionalPrice p) (prd.basePrice p),
      hasPromotion = (prd.promotionalPrice p \<noteq> None),
      averageRating = prd.averageRating p, totalReviews = prd.totalReviews p,
      confectionerName = cnf.name f, available = prd.available p,
      preparationTime = prd.preparationTime p, categoryName = cat.name c\<rparr>)"

text \<open>
  The first statement: the rows of \<open>FilteredProducts\<close> in order, \<open>OFFSET @offset ROWS
  FETCH NEXT @pageSize ROWS ONLY\<close>.
\<close>

definition select_ProductList ::
  "string \<Rightarrow> int \<Rightarrow> int \<Rightarrow> (prd \<times> cat \<times> cnf) list \<Rightarrow> ProductList list" where
  "select_ProductList sb offset ps rows =
    map ProductList_row (take (nat ps) (drop (nat offset) (sort_key (list_order sb) rows)))"

text \<open>
  The second statement, \<open>SELECT COUNT(*), CEILING(CAST(COUNT(*) AS FLOAT) / @pageSize),
  @page, @pageSize FROM [FilteredProducts]\<close>, on a row source of \<open>n\<close> rows. The quotient
  of a count by 12, 24 or 36 is either a whole number or at least 1/36 away from one, so
  the floating-point ceiling is the exact one.
\<close>

definition select_Pagination :: "nat \<Rightarrow> int \<Rightarrow> int \<Rightarrow> Pagination" where
  "select_Pagination n pg ps =
    \<lparr>totalItems = int n, totalPages = \<lceil>real n / real_of_int ps\<rceil>, currentPage = pg,
      Pagination.pageSize = ps\<rparr>"

text \<open>
  A common table expression is in scope for the single statement that follows it. The
  \<open>WITH [FilteredProducts] AS (...)\<close> of this procedure is followed by the paged
  \<open>SELECT\<close>, which ends at its semicolon; the pagination \<open>SELECT\<close> is a statement of its
  own, and its \<open>FROM [FilteredProducts]\<close> is resolved among the objects of the schema.
  \<open>schema_rows db n\<close> is the number of rows of the table named \<open>n\<close>, for the tables
  that \<open>_structure.sql\<close> creates.
\<close>

definition schema_rows :: "database \<Rightarrow> string \<Rightarrow> nat option" where
  "schema_rows db n =
    map_of [(''category'', length (category db)), (''flavor'', length (flavor db)),
            (''size'', length (size_tbl db)), (''confectioner'', length (confectioner db)),
            (''product'', length (product db)), (''productFlavor'', length (productFlavor db)),
            (''productSize'', length (productSize db)), (''review'', length (review db)),
            (''cart'', length (cart db)), (''cartItem'', length (cartItem db))] n"

text \<open>
  What a call of the procedure gives: an error before any result set, the first result
  set followed by an error, or both result sets.
\<close>

datatype ProductListOutcome =
    Raised sql_error
  | ProductsThenRaised "ProductList list" sql_error
  | Returned "ProductList list" Pagination

definition spProductList ::
  "engine \<Rightarrow> int option \<Rightarrow> ProductListParams \<Rightarrow> database \<Rightarrow> ProductListOutcome" where
  "spProductList eng pAccount a db =
    (case spProductList_validation pAccount a of
      Some e \<Rightarrow> Raised e
    | None \<Rightarrow>
       (case INT_range ((page a - 1) * ProductListParams.pageSize a) of
         Inl e \<Rightarrow> Raised e
       | Inr offset \<Rightarrow>
          (case (id_list eng (categories a), id_list eng (confectioners a),
                 id_list eng (flavors a), id_list eng (sizes a)) of
            (Inr cats, Inr cnfs, Inr flvs, Inr szs) \<Rightarrow>
              (let products = select_ProductList (sortBy a) offset (ProductListParams.pageSize a)
                     (FilteredProducts eng (the pAccount) a cats cnfs flvs szs db)
               in case schema_rows db ''FilteredProducts'' of
                    None \<Rightarrow> ProductsThenRaised products (InvalidObjectName ''FilteredProducts'')
                  | Some n \<Rightarrow>
                      Returned products (select_Pagination n (page a) (ProductListParams.pageSize a)))
          | _ \<Rightarrow> Raised ConversionFailed)))"

section \<open>The internal router, its handlers and the product services\<close>

text \<open>
  The values of a request object and of a procedure input: \<open>undefined\<close>, \<open>null\<close>, a
  number or a string. An object is the list of its properties, a property read being
  the first entry of its key; \<open>{...a, ...b}\<close> lets the properties of \<open>b\<close> win.
\<close>

datatype js = Undefined | Null | Num rat | Str string

type_synonym obj = "(string \<times> js) list"

definition property :: "obj \<Rightarrow> string \<Rightarrow> js" where
  "property ob k = (case map_of ob k of None \<Rightarrow> Undefined | Some v \<Rightarrow> v)"

definition spread :: "obj \<Rightarrow> obj \<Rightarrow> obj" where
  "spread a b = b @ a"

text \<open>\<open>a || b\<close>: \<open>b\<close> when \<open>a\<close> is \<open>undefined\<close>, \<open>null\<close>, zero or the empty string.\<close>

definition or_js :: "js \<Rightarrow> js \<Rightarrow> js" where
  "or_js a b = (if a = Undefined \<or> a = Null \<or> a = Num 0 \<or> a = Str [] then b else a)"

record request =
  params :: obj
  query :: obj
  body :: obj

text \<open>
  A field validator gives the parsed value, or \<open>None\<close> when it refuses its input. The
  validators of \<open>zodValidation.ts\<close> and of the handlers are built from the library's;
  \<open>Number\<close>, the coercion of a value to a number (\<open>None\<close> for \<open>NaN\<close>), is left to the
  caller of the model.
\<close>

type_synonym zfield = "js \<Rightarrow> js option"

definition z_number :: zfield where
  "z_number v = (case v of Num n \<Rightarrow> Some (Num n) | _ \<Rightarrow> None)"

definition z_coerce_number :: "(js \<Rightarrow> rat option) \<Rightarrow> zfield" where
  "z_coerce_number Number v = map_option Num (Number v)"

definition z_string :: zfield where
  "z_string v = (case v of Str t \<Rightarrow> Some (Str t) | _ \<Rightarrow> None)"

definition z_refine :: "(js \<Rightarrow> bool) \<Rightarrow> zfield \<Rightarrow> zfield" where
  "z_refine ok f v = (case f v of None \<Rightarrow> None | Some w \<Rightarrow> if ok w then Some w else None)"

definition z_int :: "zfield \<Rightarrow> zfield" where
  "z_int = z_refine (\<lambda>w. case w of Num n \<Rightarrow> of_int \<lfloor>n\<rfloor> = n | _ \<Rightarrow> False)"

definition z_positive :: "zfield \<Rightarrow> zfield" where
  "z_positive = z_refine (\<lambda>w. case w of Num n \<Rightarrow> n > 0 | _ \<Rightarrow> False)"

definition z_min :: "rat \<Rightarrow> zfield \<Rightarrow> zfield" where
  "z_min lo = z_refine (\<lambda>w. case w of Num n \<Rightarrow> n \<ge> lo | _ \<Rightarrow> False)"

definition z_max :: "rat \<Rightarrow> zfield \<Rightarrow> zfield" where
  "z_max hi = z_refine (\<lambda>w. case w of Num n \<Rightarrow> n \<le> hi | Str t \<Rightarrow> of_nat (length t) \<le> hi | _ \<Rightarrow> False)"

definition z_optional :: "zfield \<Rightarrow> zfield" where
  "z_optional f v = (if v = Undefined then Some Undefined else f v)"

definition z_nullable :: "zfield \<Rightarrow> zfield" where
  "z_nullable f v = (if v = Null then Some Null else f v)"

definition zFK :: "(js \<Rightarrow> rat option) \<Rightarrow> zfield" where
  "zFK Number = z_positive (z_int (z_coerce_number Number))"

definition zNullableString :: "nat \<Rightarrow> zfield" where
  "zNullableString maxLength =
    z_nullable (if maxLength \<noteq> 0 then z_max (of_nat maxLength) z_string else z_string)"

text \<open>
  \<open>z.object({...})\<close>: every field of the schema is parsed from the property of its
  name; the result has the fields of the schema that are not \<open>undefined\<close> and no other
  property of the input.
\<close>

type_synonym zobject = "(string \<times> zfield) list"

fun z_parse :: "zobject \<Rightarrow> obj \<Rightarrow> obj option" where
  "z_parse [] ob = Some []"
| "z_parse ((k, f) # fs) ob =
    (case f (property ob k) of
      None \<Rightarrow> None
    | Some v \<Rightarrow>
        (case z_parse fs ob of
          None \<Rightarrow> None
        | Some r \<Rightarrow> Some (if v = Undefined then r else (k, v) # r)))"

text \<open>
  \<open>CrudController.validate\<close>: the credential it attaches, the parameters parsed from
  \<open>req.params\<close> and the body parsed from \<open>req.body\<close>, each when a schema is given.
\<close>

record ValidationResult =
  credential :: obj
  params :: obj
  body :: obj

definition validate :: "request \<Rightarrow> zobject option \<Rightarrow> zobject option \<Rightarrow> ValidationResult option" where
  "validate req paramsSchema bodySchema =
    (let cred = [(''idAccount'', Num 1), (''idUser'', Num 1)] in
     case (case paramsSchema of None \<Rightarrow> Some [] | Some sch \<Rightarrow> z_parse sch (request.params req)) of
       None \<Rightarrow> None
     | Some ps \<Rightarrow>
         (case (case bodySchema of None \<Rightarrow> Some [] | Some sch \<Rightarrow> z_parse sch (request.body req)) of
           None \<Rightarrow> None
         | Some b \<Rightarrow> Some \<lparr>credential = cred, params = ps, body = b\<rparr>))"

definition crud_read :: "request \<Rightarrow> zobject \<Rightarrow> ValidationResult option" where
  "crud_read req paramsSchema = validate req (Some paramsSchema) None"

definition crud_create :: "request \<Rightarrow> zobject \<Rightarrow> ValidationResult option" where
  "crud_create req bodySchema = validate req None (Some bodySchema)"

text \<open>
  A service prepares the request to the pool: the procedure it executes and the inputs
  it binds.
\<close>

record db_request =
  "procedure" :: string
  inputs :: obj

definition productList :: "obj \<Rightarrow> db_request" where
  "productList ps =
    \<lparr>procedure = ''[functional].[spProductList]'',
      inputs = [(''idAccount'', property ps ''idAccount''),
                (''page'', or_js (property ps ''page'') (Num 1)),
                (''pageSize'', or_js (property ps ''pageSize'') (Num 12)),
                (''sortBy'', or_js (property ps ''sortBy'') (Str ''relevancia'')),
                (''categories'', or_js (property ps ''categories'') Null),
                (''flavors'', or_js (property ps ''flavors'') Null),
                (''sizes'', or_js (property ps ''sizes'') Null),
                (''minPrice'', or_js (property ps ''minPrice'') Null),
                (''maxPrice'', or_js (property ps ''maxPrice'') Null),
                (''confectioners'', or_js (property ps ''confectioners'') Null),
                (''availability'', or_js (property ps ''availability'') (Str ''disponivel'')),
                (''searchTerm'', or_js (property ps ''searchTerm'') Null)]\<rparr>"

definition productGet :: "obj \<Rightarrow> db_request" where
  "productGet ps =
    \<lparr>procedure = ''[functional].[spProductGet]'',
      inputs = [(''idAccount'', property ps ''idAccount''), (''idProduct'', property ps ''idProduct'')]\<rparr>"

definition cartItemAdd :: "obj \<Rightarrow> db_request" where
  "cartItemAdd ps =
    \<lparr>procedure = ''[functional].[spCartItemAdd]'',
      inputs = [(''idAccount'', property ps ''idAccount''), (''idUser'', property ps ''idUser''),
                (''idProduct'', property ps ''idProduct''), (''idFlavor'', property ps ''idFlavor''),
                (''idSize'', property ps ''idSize''), (''quantity'', property ps ''quantity''),
                (''observations'', or_js (property ps ''observations'') Null)]\<rparr>"

definition productRelated :: "obj \<Rightarrow> db_request" where
  "productRelated ps =
    \<lparr>procedure = ''[functional].[spProductRelated]'',
      inputs = [(''idAccount'', property ps ''idAccount''), (''idProduct'', property ps ''idProduct''),
                (''limit'', or_js (property ps ''limit'') (Num 4)),
                (''criteria'', or_js (property ps ''criteria'') (Str ''categoria''))]\<rparr>"

text \<open>
  A handler, up to the call of its service: it hands the validation error to \<open>next\<close>,
  or hands \<open>StatusGeneralError\<close> to \<open>next\<close> (an exception inside \<open>try\<close> whose number is
  not 51000), or executes the request of the service.
\<close>

datatype handled = next_error | next_StatusGeneralError | execute db_request

definition listHandler :: "(js \<Rightarrow> rat option) \<Rightarrow> request \<Rightarrow> handled" where
  "listHandler Number req =
    (let querySchema =
       [(''page'', z_optional (z_positive (z_int (z_coerce_number Number)))),
        (''pageSize'', z_optional (z_int (z_coerce_number Number))),
        (''sortBy'', z_optional z_string),
        (''categories'', z_optional z_string),
        (''flavors'', z_optional z_string),
        (''sizes'', z_optional z_string),
        (''minPrice'', z_optional (z_coerce_number Number)),
        (''maxPrice'', z_optional (z_coerce_number Number)),
        (''confectioners'', z_optional z_string),
        (''availability'', z_optional z_string),
        (''searchTerm'', z_optional (z_max 100 z_string))]
     in case crud_read req querySchema of
          None \<Rightarrow> next_error
        | Some validated \<Rightarrow>
            execute (productList (spread (credential validated) (ValidationResult.params validated))))"

definition getHandler :: "(js \<Rightarrow> rat option) \<Rightarrow> request \<Rightarrow> handled" where
  "getHandler Number req =
    (let paramsSchema = [(''id'', zFK Number)]
     in case crud_read req paramsSchema of
          None \<Rightarrow> next_error
        | Some validated \<Rightarrow>
            execute (productGet
              (spread (credential validated)
                 [(''idProduct'', property (ValidationResult.params validated) ''id'')])))"

definition relatedHandler :: "(js \<Rightarrow> rat option) \<Rightarrow> request \<Rightarrow> handled" where
  "relatedHandler Number req =
    (let paramsSchema = [(''id'', zFK Number)];
         querySchema = [(''limit'', z_optional (z_positive (z_int (z_coerce_number Number)))),
                        (''criteria'', z_optional z_string)]
     in case crud_read req paramsSchema of
          None \<Rightarrow> next_error
        | Some validated \<Rightarrow>
            (case z_parse querySchema (request.query req) of
              None \<Rightarrow> next_StatusGeneralError
            | Some qry \<Rightarrow>
                execute (productRelated
                  (spread (spread (credential validated)
                     [(''idProduct'', property (ValidationResult.params validated) ''id'')]) qry))))"

definition addToCartHandler :: "(js \<Rightarrow> rat option) \<Rightarrow> request \<Rightarrow> handled" where
  "addToCartHandler Number req =
    (let bodySchema =
       [(''idProduct'', zFK Number), (''idFlavor'', zFK Number), (''idSize'', zFK Number),
        (''quantity'', z_max 10 (z_min 1 (z_int z_number))),
        (''observations'', zNullableString 200)]
     in case crud_create req bodySchema of
          None \<Rightarrow> next_error
        | Some validated \<Rightarrow>
            execute (cartItemAdd (spread (credential validated) (ValidationResult.body validated))))"

text \<open>The routes of the internal router, in the order they are registered.\<close>

datatype http_method = GET | POST

definition internalRoutes ::
  "(js \<Rightarrow> rat option) \<Rightarrow> (http_method \<times> string \<times> (request \<Rightarrow> handled)) list" where
  "internalRoutes Number =
    [(GET, ''/product'', listHandler Number),
     (GET, ''/product/:id'', getHandler Number),
     (GET, ''/product/:id/related'', relatedHandler Number),
     (POST, ''/cart/item'', addToCartHandler Number)]"

section \<open>Properties of the database\<close>

text \<open>Every row of \<open>cartItem\<close> has a quantity from one to ten.\<close>

definition quantity_invariant :: "database \<Rightarrow> bool" where
  "quantity_invariant db = (\<forall>i \<in> set (cartItem db). 1 \<le> crtItm.quantity i \<and> crtItm.quantity i \<le> 10)"

text \<open>
  \<open>fkProductFlavor_Flavor\<close>: every flavor a product is offered in is a row of table
  \<open>flavor\<close>.
\<close>

definition fkProductFlavor_Flavor :: "database \<Rightarrow> bool" where
  "fkProductFlavor_Flavor db =
    (\<forall>pf \<in> set (productFlavor db). \<exists>f \<in> set (flavor db). flv.idFlavor f = prdFlv.idFlavor pf)"

text \<open>
  The \<open>SET\<close> clause of the merge on one row: the item \<open>I\<close> takes the new quantity, the
  new total and, when the parameter is not \<open>NULL\<close>, the new observations; every other
  row and column stays.
\<close>

definition merged_item :: "int \<Rightarrow> int \<Rightarrow> int \<Rightarrow> string option \<Rightarrow> crtItm \<Rightarrow> crtItm" where
  "merged_item I n t obs i =
    (if crtItm.idCartItem i = I
     then i\<lparr>crtItm.quantity := n, crtItm.totalPrice := t,
            crtItm.observations := (case obs of None \<Rightarrow> crtItm.observations i | Some v \<Rightarrow> Some v)\<rparr>
     else i)"

text \<open>The product rows a call of \<open>spProductList\<close> has returned, whatever follows them.\<close>

definition returned_products :: "ProductListOutcome \<Rightarrow> ProductList list" where
  "returned_products out =
    (case out of Raised e \<Rightarrow> [] | ProductsThenRaised rows e \<Rightarrow> rows | Returned rows pg \<Rightarrow> rows)"

text \<open>\<open>pkProduct\<close>: no two rows of \<open>product\<close> have the same \<open>idProduct\<close>.\<close>

definition pkProduct :: "database \<Rightarrow> bool" where
  "pkProduct db = distinct (map prd.idProduct (product db))"

text \<open>
  The product \<open>p\<close> matches the criterion of a call whose reference product is the row
  \<open>r\<close>: it has the category of \<open>r\<close>, or the confectioner of \<open>r\<close>, or a flavor that \<open>r\<close> is
  offered in too. With \<open>popularidade\<close> no product matches.
\<close>

definition criterion_match :: "string \<Rightarrow> database \<Rightarrow> prd \<Rightarrow> prd \<Rightarrow> bool" where
  "criterion_match criteria db r p =
    (criteria = ''categoria'' \<and> prd.idCategory p = prd.idCategory r
     \<or> criteria = ''confeiteiro'' \<and> prd.idConfectioner p = prd.idConfectioner r
     \<or> criteria = ''sabor'' \<and>
        (\<exists>f \<in> set (productFlavor db). \<exists>g \<in> set (productFlavor db).
            prdFlv.idProduct f = prd.idProduct r \<and> prdFlv.idAccount f = prd.idAccount r
          \<and> prdFlv.idProduct g = prd.idProduct p \<and> prdFlv.idAccount g = prd.idAccount p
          \<and> prdFlv.idFlavor g = prdFlv.idFlavor f))"

text \<open>
  The ranking of the related products, \<open>M\<close> telling which products match: \<open>p\<close> stands
  no later than \<open>q\<close> when \<open>p\<close> matches and \<open>q\<close> does not, or when both or neither match and
  \<open>p\<close> has more reviews, or as many and the higher rating, or the same rating too and
  an \<open>idProduct\<close> that is not greater.
\<close>

definition ranked_before :: "(prd \<Rightarrow> bool) \<Rightarrow> prd \<Rightarrow> prd \<Rightarrow> bool" where
  "ranked_before M p q =
    (M p \<and> \<not> M q
     \<or> M p = M q \<and>
       (prd.totalReviews p > prd.totalReviews q
        \<or> prd.totalReviews p = prd.totalReviews q \<and>
          (prd.averageRating p > prd.averageRating q
           \<or> prd.averageRating p = prd.averageRating q \<and> prd.idProduct p \<le> prd.idProduct q)))"

text \<open>
  The popularity order, as a sort key: reviews descending, then rating descending, then
  \<open>idProduct\<close>.
\<close>

definition popularity_order :: "prd \<times> cnf \<Rightarrow> int \<times> int \<times> int" where
  "popularity_order = (\<lambda>(p, c). (- prd.totalReviews p, - prd.averageRating p, prd.idProduct p))"

text \<open>
  The value \<open>v\<close> of a request coerces to the positive whole number \<open>n\<close>: an identifier in
  a path or a body.
\<close>

definition positive_integer :: "(js \<Rightarrow> rat option) \<Rightarrow> js \<Rightarrow> rat \<Rightarrow> bool" where
  "positive_integer Number v n = (Number v = Some n \<and> 0 < n \<and> of_int \<lfloor>n\<rfloor> = n)"

text \<open>
  A handler that executes a request executes the procedure \<open>proc\<close> and binds, for every
  key of \<open>keys\<close>, the value of the credential that \<open>CrudController.validate\<close> attaches.
\<close>

definition passes_credential :: "handled \<Rightarrow> string \<Rightarrow> string list \<Rightarrow> bool" where
  "passes_credential out proc keys =
    (case out of
      execute c \<Rightarrow> procedure c = proc
        \<and> list_all (\<lambda>k. property (inputs c) k = property [(''idAccount'', Num 1), (''idUser'', Num 1)] k) keys
    | _ \<Rightarrow> True)"

text \<open>
  The rows of account \<open>A\<close>: every table restricted to the rows whose \<open>idAccount\<close> is \<open>A\<close>.
  The identity counters belong to no account and are left out.
\<close>

definition account_rows :: "int \<Rightarrow> database \<Rightarrow> database" where
  "account_rows A db =
    \<lparr>category = filter (\<lambda>r. cat.idAccount r = A) (category db),
     flavor = filter (\<lambda>r. flv.idAccount r = A) (flavor db),
     size_tbl = filter (\<lambda>r. siz.idAccount r = A) (size_tbl db),
     confectioner = filter (\<lambda>r. cnf.idAccount r = A) (confectioner db),
     product = filter (\<lambda>r. prd.idAccount r = A) (product db),
     productFlavor = filter (\<lambda>r. prdFlv.idAccount r = A) (productFlavor db),
     productSize = filter (\<lambda>r. prdSiz.idAccount r = A) (productSize db),
     review = filter (\<lambda>r. rev.idAccount r = A) (review db),
     cart = filter (\<lambda>r. crt.idAccount r = A) (cart db),
     cartItem = filter (\<lambda>r. crtItm.idAccount r = A) (cartItem db),
     cartIdentity = 0, cartItemIdentity = 0\<rparr>"

text \<open>
  The primary keys \<open>pkCart\<close> and \<open>pkCartItem\<close> on the two identity columns: no identifier
  occurs twice, and none is above the last value the table has given out.
\<close>

definition identity_keys :: "database \<Rightarrow> bool" where
  "identity_keys db =
    (distinct (map crt.idCart (cart db)) \<and> distinct (map crtItm.idCartItem (cartItem db))
     \<and> (\<forall>c \<in> set (cart db). crt.idCart c \<le> cartIdentity db)
     \<and> (\<forall>i \<in> set (cartItem db). crtItm.idCartItem i \<le> cartItemIdentity db))"

text \<open>Every size row with the identifier of the call belongs to account \<open>A\<close>.\<close>

definition size_of_account :: "int \<Rightarrow> int option \<Rightarrow> database \<Rightarrow> bool" where
  "size_of_account A pS db =
    (\<forall>s \<in> set (size_tbl db). Some (siz.idSize s) = pS \<longrightarrow> siz.idAccount s = A)"

text \<open>Two databases agree on the rows of account \<open>A\<close> and on the identity counters.\<close>

definition agree_on :: "int \<Rightarrow> database \<Rightarrow> database \<Rightarrow> bool" where
  "agree_on A d1 d2 =
    (account_rows A d1 = account_rows A d2 \<and> cartIdentity d1 = cartIdentity d2
     \<and> cartItemIdentity d1 = cartItemIdentity d2)"

section \<open>A sample database\<close>

text \<open>
  Two accounts. Account 1 sells five cakes; the user 1 of account 1 has a cart holding
  seven cakes of product 1. Account 2 sells one sweet and owns size 3. Prices are in
  millionths.
\<close>

definition cake :: "int \<Rightarrow> int \<Rightarrow> int \<Rightarrow> int \<Rightarrow> string \<Rightarrow> int \<Rightarrow> int option \<Rightarrow> int \<Rightarrow> int \<Rightarrow> int \<Rightarrow> prd" where
  "cake i acc ca cf nm base promo rat revs created =
    \<lparr>prd.idProduct = i, prd.idAccount = acc, prd.idCategory = ca, prd.idConfectioner = cf,
     prd.name = nm, prd.description = ''Bolo artesanal'',
     prd.ingredients = ''farinha, ovos'', prd.nutritionalInfo = None,
     prd.basePrice = base, prd.promotionalPrice = promo, prd.mainImage = ''foto.png'',
     prd.imageGallery = None, prd.averageRating = rat, prd.totalReviews = revs,
     prd.preparationTime = ''2 dias'', prd.available = True, prd.active = True,
     prd.dateCreated = created, prd.dateModified = created, prd.deleted = False\<rparr>"

definition shop :: database where
  "shop =
    \<lparr>category =
       [\<lparr>cat.idCategory = 1, cat.idAccount = 1, cat.name = ''Bolos'', cat.description = [],
         cat.dateCreated = 0, cat.dateModified = 0, cat.deleted = False\<rparr>,
        \<lparr>cat.idCategory = 2, cat.idAccount = 1, cat.name = ''Tortas'', cat.description = [],
         cat.dateCreated = 0, cat.dateModified = 0, cat.deleted = False\<rparr>,
        \<lparr>cat.idCategory = 3, cat.idAccount = 2, cat.name = ''Doces'', cat.description = [],
         cat.dateCreated = 0, cat.dateModified = 0, cat.deleted = False\<rparr>],
     flavor =
       [\<lparr>flv.idFlavor = 1, flv.idAccount = 1, flv.name = ''Morango'', flv.description = [],
         flv.dateCreated = 0, flv.dateModified = 0, flv.deleted = False\<rparr>,
        \<lparr>flv.idFlavor = 2, flv.idAccount = 1, flv.name = ''Chocolate'', flv.description = [],
         flv.dateCreated = 0, flv.dateModified = 0, flv.deleted = False\<rparr>],
     size_tbl =
       [\<lparr>siz.idSize = 1, siz.idAccount = 1, siz.name = ''G'', siz.description = [],
         siz.priceModifier = 15000000, siz.dateCreated = 0, siz.dateModified = 0,
         siz.deleted = False\<rparr>,
        \<lparr>siz.idSize = 2, siz.idAccount = 1, siz.name = ''P'', siz.description = [],
         siz.priceModifier = 0, siz.dateCreated = 0, siz.dateModified = 0,
         siz.deleted = False\<rparr>,
        \<lparr>siz.idSize = 3, siz.idAccount = 2, siz.name = ''M'', siz.description = [],
         siz.priceModifier = 5000000, siz.dateCreated = 0, siz.dateModified = 0,
         siz.deleted = False\<rparr>],
     confectioner =
       [\<lparr>cnf.idConfectioner = 1, cnf.idAccount = 1, cnf.name = ''Ana'', cnf.photo = None,
         cnf.averageRating = 48, cnf.totalProductsSold = 7, cnf.dateCreated = 0,
         cnf.dateModified = 0, cnf.deleted = False\<rparr>,
        \<lparr>cnf.idConfectioner = 2, cnf.idAccount = 1, cnf.name = ''Bia'', cnf.photo = None,
         cnf.averageRating = 40, cnf.totalProductsSold = 3, cnf.dateCreated = 0,
         cnf.dateModified = 0, cnf.deleted = False\<rparr>,
        \<lparr>cnf.idConfectioner = 3, cnf.idAccount = 2, cnf.name = ''Caio'', cnf.photo = None,
         cnf.averageRating = 30, cnf.totalProductsSold = 1, cnf.dateCreated = 0,
         cnf.dateModified = 0, cnf.deleted = False\<rparr>],
     product =
       [cake 1 1 1 1 ''Bolo de cenoura'' 50000000 None 45 12 100,
        cake 2 1 1 2 ''Bolo de chocolate'' 60000000 (Some 55000000) 48 30 200,
        cake 3 1 2 1 ''Torta de limao'' 40000000 None 49 20 300,
        cake 4 1 2 2 ''Torta de morango'' 45000000 None 40 25 400,
        cake 5 2 3 3 ''Brigadeiro'' 5000000 None 50 99 500,
        cake 6 1 1 1 ''Bolo de casamento'' 999999999999999999 None 50 2 600],
     productFlavor =
       [\<lparr>prdFlv.idAccount = 1, prdFlv.idProduct = 1, prdFlv.idFlavor = 1\<rparr>,
        \<lparr>prdFlv.idAccount = 1, prdFlv.idProduct = 1, prdFlv.idFlavor = 2\<rparr>,
        \<lparr>prdFlv.idAccount = 1, prdFlv.idProduct = 2, prdFlv.idFlavor = 2\<rparr>,
        \<lparr>prdFlv.idAccount = 1, prdFlv.idProduct = 4, prdFlv.idFlavor = 1\<rparr>,
        \<lparr>prdFlv.idAccount = 1, prdFlv.idProduct = 6, prdFlv.idFlavor = 1\<rparr>],
     productSize =
       [\<lparr>prdSiz.idAccount = 1, prdSiz.idProduct = 1, prdSiz.idSize = 1\<rparr>,
        \<lparr>prdSiz.idAccount = 1, prdSiz.idProduct = 1, prdSiz.idSize = 2\<rparr>,
        \<lparr>prdSiz.idAccount = 1, prdSiz.idProduct = 2, prdSiz.idSize = 3\<rparr>,
        \<lparr>prdSiz.idAccount = 1, prdSiz.idProduct = 6, prdSiz.idSize = 2\<rparr>],
     review =
       [\<lparr>rev.idReview = 1, rev.idAccount = 1, rev.idProduct = 1, rev.customerName = ''Lia'',
         rev.rating = 5, rev.comment = ''Otimo'', rev.dateCreated = 150, rev.deleted = False\<rparr>,
        \<lparr>rev.idReview = 2, rev.idAccount = 1, rev.idProduct = 1, rev.customerName = ''Rui'',
         rev.rating = 4, rev.comment = ''Bom'', rev.dateCreated = 160, rev.deleted = False\<rparr>],
     cart =
       [\<lparr>crt.idCart = 1, crt.idAccount = 1, crt.idUser = 1, crt.dateCreated = 5,
         crt.dateModified = 5\<rparr>],
     cartItem =
       [\<lparr>crtItm.idCartItem = 1, crtItm.idAccount = 1, crtItm.idCart = 1, crtItm.idProduct = 1,
         crtItm.idFlavor = 1, crtItm.idSize = 1, crtItm.quantity = 7, crtItm.unitPrice = 60000000,
         crtItm.totalPrice = 420000000, crtItm.observations = Some ''sem lactose'',
         crtItm.dateCreated = 5\<rparr>],
     cartIdentity = 1, cartItemIdentity = 1\<rparr>"

text \<open>
  An engine for the examples: a pattern \<open>%t%\<close> matches the string \<open>t\<close> itself and the
  pattern \<open>%%\<close> every string, the numerals 1 and 2 convert, and strings are ordered as
  they are written.
\<close>

definition server :: engine where
  "server = \<lparr>LIKE = (\<lambda>s pat. pat = ''%%'' \<or> pat = ''%'' @ s @ ''%''),
     CAST_INT = (\<lambda>s. if s = ''1'' then Some 1 else if s = ''2'' then Some 2 else None),
     collate = (\<lambda>s. s)\<rparr>"

definition firstPage :: ProductListParams where
  "firstPage = \<lparr>page = 1, pageSize = 12, sortBy = ''relevancia'', categories = None,
     flavors = None, sizes = None, minPrice = None, maxPrice = None, confectioners = None,
     availability = ''disponivel'', searchTerm = None\<rparr>"

text \<open>
  Three requests that name an account of their own, in the body and in the query string,
  and a coercion to numbers that knows the strings used here.
\<close>

definition jsNumber :: "js \<Rightarrow> rat option" where
  "jsNumber v =
    (case v of Num n \<Rightarrow> Some n | Null \<Rightarrow> Some 0 | Undefined \<Rightarrow> None
     | Str t \<Rightarrow> if t = ''3'' then Some 3 else if t = [] then Some 0 else None)"

definition cartRequest :: request where
  "cartRequest = \<lparr>request.params = [], request.query = [],
     request.body = [(''idAccount'', Num 2), (''idProduct'', Num 3), (''idFlavor'', Num 1), (''idSize'', Num 2),
             (''quantity'', Num 4), (''observations'', Null)]\<rparr>"

definition listRequest :: request where
  "listRequest = \<lparr>request.params = [], request.query = [(''idAccount'', Str ''2'')],
     request.body = []\<rparr>"

definition relatedRequest :: request where
  "relatedRequest = \<lparr>request.params = [(''id'', Str ''3'')],
     request.query = [(''idAccount'', Str ''2''), (''criteria'', Str ''sabor'')],
     request.body = []\<rparr>"

text \<open>
  Two databases with the rows of account 1 of the sample database: in \<open>shop_b\<close> account 2
  has repriced its size 3, in \<open>shop_c\<close> a user of account 2 has a cart.
\<close>

definition shop_b :: database where
  "shop_b = shop\<lparr>size_tbl :=
      map (\<lambda>s. if siz.idSize s = 3 then s\<lparr>siz.priceModifier := 9000000\<rparr> else s) (size_tbl shop)\<rparr>"

definition shop_c :: database where
  "shop_c = shop\<lparr>cart := cart shop @
      [\<lparr>crt.idCart = 2, crt.idAccount = 2, crt.idUser = 7, crt.dateCreated = 6,
        crt.dateModified = 6\<rparr>],
      cartIdentity := 2\<rparr>"

section \<open>The cart procedure: invariant and rollback\<close>

lemma ensure_cart_frame:
  assumes "ensure_cart A U now db = (C, db1)"
  shows "product db1 = product db" and "size_tbl db1 = size_tbl db"
    and "cartItem db1 = cartItem db" and "flavor db1 = flavor db"
    and "cartItemIdentity db1 = cartItemIdentity db"
    and "category db1 = category db" and "confectioner db1 = confectioner db"
    and "productFlavor db1 = productFlavor db" and "productSize db1 = productSize db"
    and "review db1 = review db"
  using assms by (auto simp: ensure_cart_def split: option.splits)

lemma calc_unitPrice_cong:
  "product db1 = product db \<Longrightarrow> size_tbl db1 = size_tbl db
    \<Longrightarrow> calc_unitPrice A P S db1 = calc_unitPrice A P S db"
  by (simp add: calc_unitPrice_def unitPrice_rows_def)

lemma find_cartItem_cong:
  "cartItem db1 = cartItem db \<Longrightarrow> find_cartItem A C P F S db1 = find_cartItem A C P F S db"
  by (simp add: find_cartItem_def)

lemma rollback_tables:
  "rollback db dirty = db\<lparr>cartIdentity := cartIdentity dirty, cartItemIdentity := cartItemIdentity dirty\<rparr>"
  "cartItem (rollback db dirty) = cartItem db" "cart (rollback db dirty) = cart db"
  by (simp_all add: rollback_def)

lemma update_cartItem_inv:
  "update_cartItem I n u obs db = Inr db2 \<Longrightarrow> quantity_invariant db \<Longrightarrow> quantity_invariant db2"
  by (auto simp: update_cartItem_def quantity_invariant_def chkCartItem_Quantity_def
      split: sum.splits option.splits if_splits)

lemma insert_cartItem_inv:
  "insert_cartItem A C P F S q u t obs now db = Inr (I, db2) \<Longrightarrow> quantity_invariant db
    \<Longrightarrow> quantity_invariant db2"
  by (auto simp: insert_cartItem_def quantity_invariant_def chkCartItem_Quantity_def
      split: sum.splits option.splits if_splits)

lemma touch_cart_cartItem: "cartItem (touch_cart C now db) = cartItem db"
  by (simp add: touch_cart_def)

lemma cart_transaction_inv:
  assumes "cart_transaction A U P F S q obs now db = (Inr r, db')" and "quantity_invariant db"
  shows "quantity_invariant db'"
proof -
  obtain C db1 where e: "ensure_cart A U now db = (C, db1)"
    by (cases "ensure_cart A U now db")
  have i1: "quantity_invariant db1"
    using assms(2) ensure_cart_frame(3)[OF e] by (simp add: quantity_invariant_def)
  have t: "\<And>d. quantity_invariant d \<Longrightarrow> quantity_invariant (touch_cart C now d)"
    by (simp add: quantity_invariant_def touch_cart_cartItem)
  show ?thesis
    using assms(1) e i1 t
    by (auto simp: cart_transaction_def Let_def
        split: sum.splits option.splits prod.splits if_splits
        dest: update_cartItem_inv insert_cartItem_inv)
qed

lemma validation_quantity:
  assumes "case pQ of None \<Rightarrow> True | Some q \<Rightarrow> q < 1 \<or> q > 10"
  shows "spCartItemAdd_validation pA pU pP pF pS pQ db \<noteq> None"
  using assms by (auto simp: spCartItemAdd_validation_def split: option.splits)

lemma spCartItemAdd_rejected:
  "spCartItemAdd_validation pA pU pP pF pS pQ db = Some e
    \<Longrightarrow> spCartItemAdd pA pU pP pF pS pQ obs now db = (Inl e, db)"
  by (simp add: spCartItemAdd_def)

lemma spCartItemAdd_error_tables:
  assumes "spCartItemAdd pA pU pP pF pS pQ obs now db = (Inl e, db')"
  shows "db' = db\<lparr>cartIdentity := cartIdentity db', cartItemIdentity := cartItemIdentity db'\<rparr>"
  using assms
  by (auto simp: spCartItemAdd_def rollback_def split: option.splits sum.splits prod.splits)

lemma cart_transaction_exceeds:
  assumes "ensure_cart A U now db = (C, db1)" and "find_cartItem A C P F S db = Some (I, eq)"
    and "eq + q > 10"
  shows "isl (fst (cart_transaction A U P F S q obs now db))"
proof -
  have "find_cartItem A C P F S db1 = Some (I, eq)"
    using assms(2) find_cartItem_cong[OF ensure_cart_frame(3)[OF assms(1)]] by simp
  then show ?thesis
    using assms(1,3) by (simp add: cart_transaction_def split: sum.splits)
qed

text \<open>
  Claim C9. A call of \<open>spCartItemAdd\<close>, successful or not, on a database whose cart
  items all have a quantity from one to ten leaves a database of which the same holds.
  A quantity that is \<open>NULL\<close>, below one or above ten is rejected with the database as
  it was; so is, with the tables \<open>cart\<close> and \<open>cartItem\<close> as they were, a merge into an
  item whose quantity and the requested one add up to more than ten.
\<close>

theorem quantity_invariant_preserved:
  assumes "quantity_invariant db"
    and "spCartItemAdd pA pU pP pF pS pQ obs now db = (res, db')"
  shows "quantity_invariant db'
    \<and> ((case pQ of None \<Rightarrow> True | Some q \<Rightarrow> q < 1 \<or> q > 10) \<longrightarrow> isl res \<and> db' = db)
    \<and> (spCartItemAdd_validation pA pU pP pF pS pQ db = None \<longrightarrow>
        (case find_cartItem (the pA) (fst (ensure_cart (the pA) (the pU) now db)) (the pP)
                (the pF) (the pS) db of
           None \<Rightarrow> True
         | Some (I, existing) \<Rightarrow>
             existing + the pQ > 10 \<longrightarrow> isl res \<and> cartItem db' = cartItem db \<and> cart db' = cart db))"
proof -
  have inv: "quantity_invariant db'"
  proof (cases "spCartItemAdd_validation pA pU pP pF pS pQ db")
    case (Some e)
    then show ?thesis using assms by (simp add: spCartItemAdd_rejected)
  next
    case None
    obtain out d where t:
      "cart_transaction (the pA) (the pU) (the pP) (the pF) (the pS) (the pQ) obs now db = (out, d)"
      by (cases "cart_transaction (the pA) (the pU) (the pP) (the pF) (the pS) (the pQ) obs now db")
    show ?thesis
    proof (cases out)
      case (Inl e)
      then have "db' = rollback db d"
        using assms(2) None t by (simp add: spCartItemAdd_def)
      then show ?thesis
        using assms(1) by (simp add: quantity_invariant_def rollback_tables)
    next
      case (Inr r)
      then have "db' = d"
        using assms(2) None t by (simp add: spCartItemAdd_def)
      then show ?thesis
        using cart_transaction_inv[OF t[unfolded Inr] assms(1)] by simp
    qed
  qed
  have rejected: "isl res \<and> db' = db"
    if bad: "case pQ of None \<Rightarrow> True | Some q \<Rightarrow> q < 1 \<or> q > 10"
  proof -
    obtain e where "spCartItemAdd_validation pA pU pP pF pS pQ db = Some e"
      using validation_quantity[OF bad] by blast
    then show ?thesis
      using assms(2) by (auto simp: spCartItemAdd_rejected)
  qed
  have merge: "case find_cartItem (the pA) (fst (ensure_cart (the pA) (the pU) now db)) (the pP)
                (the pF) (the pS) db of
           None \<Rightarrow> True
         | Some (I, existing) \<Rightarrow>
             existing + the pQ > 10 \<longrightarrow> isl res \<and> cartItem db' = cartItem db \<and> cart db' = cart db"
    if v: "spCartItemAdd_validation pA pU pP pF pS pQ db = None"
  proof (clarsimp split: option.splits)
    fix I existing
    assume f: "find_cartItem (the pA) (fst (ensure_cart (the pA) (the pU) now db)) (the pP)
                (the pF) (the pS) db = Some (I, existing)"
      and x: "10 < existing + the pQ"
    obtain C db1 where e: "ensure_cart (the pA) (the pU) now db = (C, db1)"
      by (cases "ensure_cart (the pA) (the pU) now db")
    have "isl (fst (cart_transaction (the pA) (the pU) (the pP) (the pF) (the pS) (the pQ) obs now db))"
      using cart_transaction_exceeds[OF e _ x] f e by simp
    then obtain er dirty where
      "cart_transaction (the pA) (the pU) (the pP) (the pF) (the pS) (the pQ) obs now db = (Inl er, dirty)"
      by (cases "cart_transaction (the pA) (the pU) (the pP) (the pF) (the pS) (the pQ) obs now db")
         (auto simp: isl_def)
    then have "res = Inl er" "db' = rollback db dirty"
      using assms(2) v by (simp_all add: spCartItemAdd_def)
    then show "isl res \<and> cartItem db' = cartItem db \<and> cart db' = cart db"
      by (simp add: rollback_tables)
  qed
  show ?thesis
    using inv rejected merge by blast
qed

theorem quantity_invariant_preserved_witness:
  "quantity_invariant shop
    \<and> quantity_invariant (snd (spCartItemAdd (Some 1) (Some 1) (Some 1) (Some 1) (Some 1) (Some 2) None 9 shop))
    \<and> isl (fst (spCartItemAdd (Some 1) (Some 1) (Some 1) (Some 1) (Some 1) (Some 5) None 9 shop))
    \<and> cartItem (snd (spCartItemAdd (Some 1) (Some 1) (Some 1) (Some 1) (Some 1) (Some 5) None 9 shop))
        = cartItem shop
    \<and> snd (spCartItemAdd (Some 1) (Some 1) (Some 1) (Some 1) (Some 1) (Some 11) None 9 shop) = shop"
proof -
  have h: "quantity_invariant shop"
    by code_simp
  have v: "spCartItemAdd_validation (Some 1) (Some 1) (Some 1) (Some 1) (Some 1) (Some 5) shop = None"
    by code_simp
  have f: "find_cartItem 1 (fst (ensure_cart 1 1 9 shop)) 1 1 1 shop = Some (1, 7)"
    by code_simp
  note ok = quantity_invariant_preserved[OF h prod.collapse[symmetric],
      of "Some 1" "Some 1" "Some 1" "Some 1" "Some 1" "Some 2" None 9]
  note exceed = quantity_invariant_preserved[OF h prod.collapse[symmetric],
      of "Some 1" "Some 1" "Some 1" "Some 1" "Some 1" "Some 5" None 9]
  note high = quantity_invariant_preserved[OF h prod.collapse[symmetric],
      of "Some 1" "Some 1" "Some 1" "Some 1" "Some 1" "Some 11" None 9]
  show ?thesis
    using h ok exceed high v f by simp
qed

text \<open>
  Claim C5. When \<open>spCartItemAdd\<close> raises an error after its validations have passed, the
  tables are what they were before the call: no cart row is created, no cart item is
  inserted or updated, no \<open>dateModified\<close> is touched. Only the identity counters may have
  advanced.
\<close>

theorem error_rolls_back:
  assumes "spCartItemAdd_validation pA pU pP pF pS pQ db = None"
    and "spCartItemAdd pA pU pP pF pS pQ obs now db = (Inl e, db')"
  shows "cart db' = cart db \<and> cartItem db' = cartItem db
    \<and> db' = db\<lparr>cartIdentity := cartIdentity db', cartItemIdentity := cartItemIdentity db'\<rparr>"
proof -
  have d: "db' = db\<lparr>cartIdentity := cartIdentity db', cartItemIdentity := cartItemIdentity db'\<rparr>"
    using assms(2) by (rule spCartItemAdd_error_tables)
  have "cart db' = cart db" by (subst d) simp
  moreover have "cartItem db' = cartItem db" by (subst d) simp
  ultimately show ?thesis using d by blast
qed

theorem error_rolls_back_witness:
  "spCartItemAdd_validation (Some 1) (Some 2) (Some 6) (Some 1) (Some 2) (Some 2) shop = None
    \<and> fst (spCartItemAdd (Some 1) (Some 2) (Some 6) (Some 1) (Some 2) (Some 2) None 9 shop)
        = Inl ArithmeticOverflow
    \<and> length (cart (snd (cart_transaction 1 2 6 1 2 2 None 9 shop))) = 2
    \<and> length (cart shop) = 1
    \<and> cart (snd (spCartItemAdd (Some 1) (Some 2) (Some 6) (Some 1) (Some 2) (Some 2) None 9 shop))
        = cart shop
    \<and> cartItem (snd (spCartItemAdd (Some 1) (Some 2) (Some 6) (Some 1) (Some 2) (Some 2) None 9 shop))
        = cartItem shop"
proof -
  have v: "spCartItemAdd_validation (Some 1) (Some 2) (Some 6) (Some 1) (Some 2) (Some 2) shop = None"
    by code_simp
  have e: "fst (spCartItemAdd (Some 1) (Some 2) (Some 6) (Some 1) (Some 2) (Some 2) None 9 shop)
        = Inl ArithmeticOverflow"
    by code_simp
  have d: "length (cart (snd (cart_transaction 1 2 6 1 2 2 None 9 shop))) = 2"
    by code_simp
  have l: "length (cart shop) = 1"
    by code_simp
  have r: "spCartItemAdd (Some 1) (Some 2) (Some 6) (Some 1) (Some 2) (Some 2) None 9 shop
      = (Inl ArithmeticOverflow,
         snd (spCartItemAdd (Some 1) (Some 2) (Some 6) (Some 1) (Some 2) (Some 2) None 9 shop))"
    using e by (metis prod.collapse)
  show ?thesis
    using v e d l error_rolls_back[OF v r] by simp
qed

section \<open>The cart procedure: upsert, pricing and frame\<close>






lemma cart_transaction_unfold:
  assumes e: "ensure_cart A U now db = (C, db1)"
  shows "cart_transaction A U P F S q obs now db =
    (case calc_unitPrice A P S db of
       Inl e \<Rightarrow> (Inl e, db1)
     | Inr u \<Rightarrow>
        (case times_quantity u q of
          Inl e \<Rightarrow> (Inl e, db1)
        | Inr t \<Rightarrow>
           (case find_cartItem A C P F S db of
             Some (I, existingQuantity) \<Rightarrow>
               (if existingQuantity + q > 10 then (Inl (THROW_51000 ''quantityExceedsMaximum''), db1)
                else case update_cartItem I (existingQuantity + q) u obs db1 of
                  Inl e \<Rightarrow> (Inl e, db1)
                | Inr db2 \<Rightarrow>
                    (Inr \<lparr>CartItemAdded.idCartItem = I, idCart = C, quantity = q,
                          unitPrice = the u, totalPrice = the t, success = True\<rparr>,
                     touch_cart C now db2))
           | None \<Rightarrow>
               (case insert_cartItem A C P F S q u t obs now db1 of
                 Inl e \<Rightarrow> (Inl e, db1)
               | Inr (I, db2) \<Rightarrow>
                   (Inr \<lparr>CartItemAdded.idCartItem = I, idCart = C, quantity = q,
                         unitPrice = the u, totalPrice = the t, success = True\<rparr>,
                    touch_cart C now db2)))))"
proof -
  note fr = ensure_cart_frame[OF e]
  have c: "calc_unitPrice A P S db1 = calc_unitPrice A P S db"
    by (rule calc_unitPrice_cong) (simp_all add: fr)
  have f: "find_cartItem A C P F S db1 = find_cartItem A C P F S db"
    by (rule find_cartItem_cong) (simp add: fr)
  show ?thesis
    by (simp add: cart_transaction_def e c f Let_def cong: sum.case_cong option.case_cong)
qed

lemma update_cartItem_Inr:
  assumes "update_cartItem I n u obs db1 = Inr db2"
  shows "\<exists>v. u = Some v \<and> fits_NUMERIC_18_6 (v * n) \<and> chkCartItem_Quantity n
    \<and> db2 = db1\<lparr>cartItem := map (merged_item I n (v * n) obs) (cartItem db1)\<rparr>"
proof -
  have m: "(\<lambda>i. if crtItm.idCartItem i = I
                   then i\<lparr>crtItm.quantity := n, crtItm.totalPrice := t,
                          crtItm.observations :=
                            (case obs of None \<Rightarrow> crtItm.observations i | Some v \<Rightarrow> Some v)\<rparr>
                   else i) = merged_item I n t obs" for t
    by (rule ext) (simp add: merged_item_def)
  show ?thesis
    using assms unfolding update_cartItem_def m times_quantity_def
    by (cases u) (auto split: if_splits)
qed

lemma insert_cartItem_Inr:
  assumes "insert_cartItem A C P F S q u t obs now db1 = Inr (I, db2)"
  shows "\<exists>uv tv. u = Some uv \<and> t = Some tv \<and> chkCartItem_Quantity q
    \<and> (\<exists>f \<in> set (flavor db1). flv.idFlavor f = F)
    \<and> I = cartItemIdentity db1 + 1
    \<and> db2 = db1\<lparr>cartItem := cartItem db1 @
               [\<lparr>crtItm.idCartItem = cartItemIdentity db1 + 1, crtItm.idAccount = A,
                 crtItm.idCart = C, crtItm.idProduct = P, crtItm.idFlavor = F,
                 crtItm.idSize = S, crtItm.quantity = q, crtItm.unitPrice = uv,
                 crtItm.totalPrice = tv, crtItm.observations = obs,
                 crtItm.dateCreated = now\<rparr>],
             cartItemIdentity := cartItemIdentity db1 + 1\<rparr>"
  using assms unfolding insert_cartItem_def
  by (cases u; cases t) (auto split: if_splits)

lemma times_quantity_Inr:
  "times_quantity (Some v) q = Inr t \<Longrightarrow> t = Some (v * q) \<and> fits_NUMERIC_18_6 (v * q)"
  by (auto simp: times_quantity_def split: if_splits)

lemma cart_transaction_success:
  assumes t: "cart_transaction A U P F S q obs now db = (Inr r, db')"
    and e: "ensure_cart A U now db = (C, db1)"
  shows "\<exists>u. calc_unitPrice A P S db = Inr (Some u) \<and> fits_NUMERIC_18_6 (u * q)
      \<and> r = \<lparr>CartItemAdded.idCartItem =
                (case find_cartItem A C P F S db of Some (I, n) \<Rightarrow> I | None \<Rightarrow> cartItemIdentity db + 1),
              idCart = C, quantity = q, unitPrice = u, totalPrice = u * q, success = True\<rparr>
      \<and> cart db' = cart (touch_cart C now db1)
      \<and> (case find_cartItem A C P F S db of
            Some (I, existing) \<Rightarrow> existing + q \<le> 10
              \<and> cartItem db' = map (merged_item I (existing + q) (u * (existing + q)) obs) (cartItem db)
              \<and> cartItemIdentity db' = cartItemIdentity db
          | None \<Rightarrow> cartItem db' = cartItem db @
               [\<lparr>crtItm.idCartItem = cartItemIdentity db + 1, crtItm.idAccount = A,
                 crtItm.idCart = C, crtItm.idProduct = P, crtItm.idFlavor = F,
                 crtItm.idSize = S, crtItm.quantity = q, crtItm.unitPrice = u,
                 crtItm.totalPrice = u * q, crtItm.observations = obs,
                 crtItm.dateCreated = now\<rparr>]
              \<and> cartItemIdentity db' = cartItemIdentity db + 1)"
proof -
  note fr = ensure_cart_frame[OF e]
  note un = t[unfolded cart_transaction_unfold[OF e]]
  obtain uo where c: "calc_unitPrice A P S db = Inr uo"
    using un by (cases "calc_unitPrice A P S db") auto
  obtain to where tq: "times_quantity uo q = Inr to"
    using un c by (cases "times_quantity uo q") auto
  show ?thesis
  proof (cases "find_cartItem A C P F S db")
    case None
    obtain I db2 where i: "insert_cartItem A C P F S q uo to obs now db1 = Inr (I, db2)"
      using un c tq None by (cases "insert_cartItem A C P F S q uo to obs now db1") auto
    from insert_cartItem_Inr[OF i] obtain uv tv where
      u: "uo = Some uv" "to = Some tv" "I = cartItemIdentity db1 + 1"
      and d: "db2 = db1\<lparr>cartItem := cartItem db1 @
               [\<lparr>crtItm.idCartItem = cartItemIdentity db1 + 1, crtItm.idAccount = A,
                 crtItm.idCart = C, crtItm.idProduct = P, crtItm.idFlavor = F,
                 crtItm.idSize = S, crtItm.quantity = q, crtItm.unitPrice = uv,
                 crtItm.totalPrice = tv, crtItm.observations = obs,
                 crtItm.dateCreated = now\<rparr>],
             cartItemIdentity := cartItemIdentity db1 + 1\<rparr>"
      by blast
    have tv: "tv = uv * q" "fits_NUMERIC_18_6 (uv * q)"
      using times_quantity_Inr[OF tq[unfolded u(1)]] u(2) by simp_all
    have r: "r = \<lparr>CartItemAdded.idCartItem = I, idCart = C, quantity = q,
                         unitPrice = uv, totalPrice = tv, success = True\<rparr>"
      and d': "db' = touch_cart C now db2"
      using un c tq None i u by simp_all
    show ?thesis
      using c u tv r None
      by (simp add: d' d touch_cart_def fr)
  next
    case (Some a)
    obtain I existing where a: "a = (I, existing)" by (cases a)
    have le: "existing + q \<le> 10"
      using un c tq Some a by (auto split: if_splits)
    obtain db2 where up: "update_cartItem I (existing + q) uo obs db1 = Inr db2"
      using un c tq Some a le by (cases "update_cartItem I (existing + q) uo obs db1") auto
    from update_cartItem_Inr[OF up] obtain uv where
      u: "uo = Some uv" and d: "db2 = db1\<lparr>cartItem :=
          map (merged_item I (existing + q) (uv * (existing + q)) obs) (cartItem db1)\<rparr>"
      by blast
    have tv: "to = Some (uv * q)" "fits_NUMERIC_18_6 (uv * q)"
      using times_quantity_Inr[OF tq[unfolded u]] by simp_all
    have r: "r = \<lparr>CartItemAdded.idCartItem = I, idCart = C, quantity = q,
                         unitPrice = uv, totalPrice = uv * q, success = True\<rparr>"
      and d': "db' = touch_cart C now db2"
      using un c tq Some a le up u tv by simp_all
    show ?thesis
      using c u tv r Some a le
      by (simp add: d' d touch_cart_def fr)
  qed
qed

lemma select_into_Some:
  "select_into None xs = Some x \<Longrightarrow> x \<in> set xs"
  by (auto simp: select_into_def split: if_splits)

lemma calc_unitPrice_Some:
  assumes "calc_unitPrice A P S db = Inr (Some u)"
  shows "\<exists>p \<in> set (product db). \<exists>s \<in> set (size_tbl db).
      prd.idProduct p = P \<and> prd.idAccount p = A \<and> siz.idSize s = S
      \<and> u = ISNULL (prd.promotionalPrice p) (prd.basePrice p) + siz.priceModifier s"
proof -
  have "select_into None (map (\<lambda>(p, s). ISNULL (prd.promotionalPrice p) (prd.basePrice p) + siz.priceModifier s)
                  (unitPrice_rows A P S db)) = Some u"
    using assms by (simp add: calc_unitPrice_def Let_def split: if_splits)
  from select_into_Some[OF this] obtain p s where
    "(p, s) \<in> set (unitPrice_rows A P S db)"
    "u = ISNULL (prd.promotionalPrice p) (prd.basePrice p) + siz.priceModifier s"
    by auto
  then show ?thesis
    by (auto simp: unitPrice_rows_def)
qed

lemma find_cartItem_Some:
  assumes "find_cartItem A C P F S db = Some (I, n)"
  shows "\<exists>i \<in> set (cartItem db). crtItm.idCartItem i = I \<and> crtItm.quantity i = n
      \<and> crtItm.idCart i = C \<and> crtItm.idAccount i = A \<and> crtItm.idProduct i = P
      \<and> crtItm.idFlavor i = F \<and> crtItm.idSize i = S"
  using select_into_Some[OF assms[unfolded find_cartItem_def]] by auto

lemma find_cartItem_None:
  "find_cartItem A C P F S db = None \<longleftrightarrow>
    \<not> (\<exists>i \<in> set (cartItem db). crtItm.idCart i = C \<and> crtItm.idAccount i = A
          \<and> crtItm.idProduct i = P \<and> crtItm.idFlavor i = F \<and> crtItm.idSize i = S)"
  by (auto simp: find_cartItem_def select_into_def filter_empty_conv)









lemma ProductList_row_price:
  "ProductList.currentPrice (ProductList_row x) =
    (case ProductList.promotionalPrice (ProductList_row x) of
       Some v \<Rightarrow> v | None \<Rightarrow> ProductList.basePrice (ProductList_row x))"
proof -
  obtain p c f where "x = (p, c, f)" by (cases x)
  then show ?thesis
    by (simp add: ProductList_row_def ISNULL_def split: option.splits)
qed

lemma ProductDetails_row_price:
  "ProductDetails.currentPrice (ProductDetails_row x) =
    (case ProductDetails.promotionalPrice (ProductDetails_row x) of
       Some v \<Rightarrow> v | None \<Rightarrow> ProductDetails.basePrice (ProductDetails_row x))"
proof -
  obtain p c where "x = (p, c)" by (cases x)
  then show ?thesis
    by (simp add: ProductDetails_row_def ISNULL_def split: option.splits)
qed

lemma returned_products_rows:
  "\<exists>rows. returned_products (spProductList eng pA a db) = map ProductList_row rows"
proof -
  have "\<exists>rows. select_ProductList sb off ps xs = map ProductList_row rows" for sb off ps xs
    by (auto simp: select_ProductList_def)
  moreover have "\<exists>rows. ([]::ProductList list) = map ProductList_row rows"
    by simp
  ultimately show ?thesis
    unfolding spProductList_def returned_products_def Let_def
    by (auto split: option.splits sum.splits ProductListOutcome.splits prod.splits)
qed

lemma spCartItemAdd_success_valid:
  assumes "spCartItemAdd pA pU pP pF pS pQ obs now db = (Inr r, db')"
  shows "\<exists>A U P F S q. pA = Some A \<and> pU = Some U \<and> pP = Some P \<and> pF = Some F \<and> pS = Some S
      \<and> pQ = Some q \<and> spCartItemAdd_validation pA pU pP pF pS pQ db = None
      \<and> cart_transaction A U P F S q obs now db = (Inr r, db')"
proof -
  have v: "spCartItemAdd_validation pA pU pP pF pS pQ db = None"
    using assms by (cases "spCartItemAdd_validation pA pU pP pF pS pQ db") (auto simp: spCartItemAdd_def)
  then have "pA \<noteq> None" "pU \<noteq> None" "pP \<noteq> None" "pF \<noteq> None" "pS \<noteq> None" "pQ \<noteq> None"
    by (auto simp: spCartItemAdd_validation_def split: if_splits option.splits)
  then obtain A U P F S q where p: "pA = Some A" "pU = Some U" "pP = Some P" "pF = Some F"
      "pS = Some S" "pQ = Some q"
    by auto
  have "cart_transaction A U P F S q obs now db = (Inr r, db')"
    using assms v p
    by (auto simp: spCartItemAdd_def split: prod.splits sum.splits)
  then show ?thesis using v p by simp
qed

text \<open>
  Claim C1, amended. Every product row that \<open>spProductList\<close> or \<open>spProductGet\<close> returns
  has \<open>currentPrice\<close> equal to its \<open>promotionalPrice\<close> when that is not \<open>NULL\<close> and to its
  \<open>basePrice\<close> otherwise. Every successful \<open>spCartItemAdd\<close> returns as \<open>unitPrice\<close> that
  effective price of the product plus the \<open>priceModifier\<close> of the selected size; when
  the call inserts a new item, the row stores that same \<open>unitPrice\<close>; when it merges
  into an existing item, the stored \<open>unitPrice\<close> of every row is left as it was.
\<close>

theorem pricing_rule:
  "(\<forall>x \<in> set (returned_products (spProductList eng pA a db)).
      ProductList.currentPrice x =
        (case ProductList.promotionalPrice x of Some v \<Rightarrow> v | None \<Rightarrow> ProductList.basePrice x))
   \<and> (\<forall>d f s r. spProductGet eng pA pP db = Inr (d, f, s, r) \<longrightarrow>
        (\<forall>x \<in> set d. ProductDetails.currentPrice x =
          (case ProductDetails.promotionalPrice x of Some v \<Rightarrow> v | None \<Rightarrow> ProductDetails.basePrice x)))
   \<and> (\<forall>r db'. spCartItemAdd pA pU pP pF pS pQ obs now db = (Inr r, db') \<longrightarrow>
        (\<exists>p \<in> set (product db). \<exists>s \<in> set (size_tbl db).
            Some (prd.idProduct p) = pP \<and> Some (prd.idAccount p) = pA \<and> Some (siz.idSize s) = pS
            \<and> CartItemAdded.unitPrice r =
                (case prd.promotionalPrice p of Some v \<Rightarrow> v | None \<Rightarrow> prd.basePrice p)
                + siz.priceModifier s)
        \<and> (length (cartItem db') = length (cartItem db) + 1
            \<and> crtItm.idCartItem (last (cartItem db')) = CartItemAdded.idCartItem r
            \<and> crtItm.unitPrice (last (cartItem db')) = CartItemAdded.unitPrice r
          \<or> length (cartItem db') = length (cartItem db)
            \<and> map crtItm.unitPrice (cartItem db') = map crtItm.unitPrice (cartItem db)))"
proof -
  have lst: "\<forall>x \<in> set (returned_products (spProductList eng pA a db)).
      ProductList.currentPrice x =
        (case ProductList.promotionalPrice x of Some v \<Rightarrow> v | None \<Rightarrow> ProductList.basePrice x)"
  proof -
    obtain rows where "returned_products (spProductList eng pA a db) = map ProductList_row rows"
      using returned_products_rows by blast
    then show ?thesis
      using ProductList_row_price by auto
  qed
  have get: "\<forall>x \<in> set d. ProductDetails.currentPrice x =
          (case ProductDetails.promotionalPrice x of Some v \<Rightarrow> v | None \<Rightarrow> ProductDetails.basePrice x)"
    if "spProductGet eng pA pP db = Inr (d, f, s, r)" for d f s r
  proof -
    have "d = select_ProductDetails (the pA) (the pP) db"
      using that by (auto simp: spProductGet_def Let_def split: option.splits)
    then show ?thesis
      using ProductDetails_row_price by (auto simp: select_ProductDetails_def)
  qed
  have add: "(\<exists>p \<in> set (product db). \<exists>s \<in> set (size_tbl db).
            Some (prd.idProduct p) = pP \<and> Some (prd.idAccount p) = pA \<and> Some (siz.idSize s) = pS
            \<and> CartItemAdded.unitPrice r =
                (case prd.promotionalPrice p of Some v \<Rightarrow> v | None \<Rightarrow> prd.basePrice p)
                + siz.priceModifier s)
        \<and> (length (cartItem db') = length (cartItem db) + 1
            \<and> crtItm.idCartItem (last (cartItem db')) = CartItemAdded.idCartItem r
            \<and> crtItm.unitPrice (last (cartItem db')) = CartItemAdded.unitPrice r
          \<or> length (cartItem db') = length (cartItem db)
            \<and> map crtItm.unitPrice (cartItem db') = map crtItm.unitPrice (cartItem db))"
    if run: "spCartItemAdd pA pU pP pF pS pQ obs now db = (Inr r, db')" for r db'
  proof -
    from spCartItemAdd_success_valid[OF run] obtain A U P F S q where
      p: "pA = Some A" "pU = Some U" "pP = Some P" "pF = Some F" "pS = Some S" "pQ = Some q"
      and t: "cart_transaction A U P F S q obs now db = (Inr r, db')"
      by blast
    obtain C db1 where e: "ensure_cart A U now db = (C, db1)"
      by (cases "ensure_cart A U now db")
    from cart_transaction_success[OF t e] obtain u where
      s: "calc_unitPrice A P S db = Inr (Some u)"
        "r = \<lparr>CartItemAdded.idCartItem =
                (case find_cartItem A C P F S db of Some (I, n) \<Rightarrow> I | None \<Rightarrow> cartItemIdentity db + 1),
              idCart = C, quantity = q, unitPrice = u, totalPrice = u * q, success = True\<rparr>"
        "(case find_cartItem A C P F S db of
            Some (I, existing) \<Rightarrow> existing + q \<le> 10
              \<and> cartItem db' = map (merged_item I (existing + q) (u * (existing + q)) obs) (cartItem db)
              \<and> cartItemIdentity db' = cartItemIdentity db
          | None \<Rightarrow> cartItem db' = cartItem db @
               [\<lparr>crtItm.idCartItem = cartItemIdentity db + 1, crtItm.idAccount = A,
                 crtItm.idCart = C, crtItm.idProduct = P, crtItm.idFlavor = F,
                 crtItm.idSize = S, crtItm.quantity = q, crtItm.unitPrice = u,
                 crtItm.totalPrice = u * q, crtItm.observations = obs,
                 crtItm.dateCreated = now\<rparr>]
              \<and> cartItemIdentity db' = cartItemIdentity db + 1)"
      by blast
    have up: "CartItemAdded.unitPrice r = u" using s(2) by simp
    have rows: "\<exists>p \<in> set (product db). \<exists>s \<in> set (size_tbl db).
            Some (prd.idProduct p) = pP \<and> Some (prd.idAccount p) = pA \<and> Some (siz.idSize s) = pS
            \<and> CartItemAdded.unitPrice r =
                (case prd.promotionalPrice p of Some v \<Rightarrow> v | None \<Rightarrow> prd.basePrice p)
                + siz.priceModifier s"
      using calc_unitPrice_Some[OF s(1)] unfolding up p ISNULL_def by (simp cong: option.case_cong)
    have unit_same: "crtItm.unitPrice (merged_item I n t obs i) = crtItm.unitPrice i" for I n t i
      by (simp add: merged_item_def)
    have stored: "length (cartItem db') = length (cartItem db) + 1
            \<and> crtItm.idCartItem (last (cartItem db')) = CartItemAdded.idCartItem r
            \<and> crtItm.unitPrice (last (cartItem db')) = CartItemAdded.unitPrice r
          \<or> length (cartItem db') = length (cartItem db)
            \<and> map crtItm.unitPrice (cartItem db') = map crtItm.unitPrice (cartItem db)"
    proof (cases "find_cartItem A C P F S db")
      case None
      then show ?thesis using s(2,3) by simp
    next
      case (Some a)
      then show ?thesis using s(3) by (cases a) (simp add: unit_same)
    qed
    show ?thesis using rows stored by blast
  qed
  show ?thesis
    using lst get add by blast
qed

text \<open>
  Claim C1 as stated fails on a merge: the call returns the unit price of today, 65, and
  the merged item keeps the 60 it was inserted with.
\<close>

theorem stale_unitPrice_counterexample:
  "fst (spCartItemAdd (Some 1) (Some 1) (Some 1) (Some 1) (Some 1) (Some 2) None 9 shop)
      = Inr \<lparr>CartItemAdded.idCartItem = 1, idCart = 1, quantity = 2, unitPrice = 65000000,
             totalPrice = 130000000, success = True\<rparr>
    \<and> map (\<lambda>i. (crtItm.idCartItem i, crtItm.unitPrice i))
        (cartItem (snd (spCartItemAdd (Some 1) (Some 1) (Some 1) (Some 1) (Some 1) (Some 2) None 9 shop)))
      = [(1, 60000000)]
    \<and> map (\<lambda>(p, s). ISNULL (prd.promotionalPrice p) (prd.basePrice p) + siz.priceModifier s)
        (unitPrice_rows 1 1 1 shop) = [65000000]"
  by code_simp

text \<open>
  Claim C10, amended. A successful merge of \<open>spCartItemAdd\<close> into the item \<open>I\<close> changes,
  in table \<open>cartItem\<close>, only the columns \<open>quantity\<close>, \<open>totalPrice\<close> and (when the parameter
  is not \<open>NULL\<close>) \<open>observations\<close> of that item. The stored \<open>unitPrice\<close> keeps its value;
  the new \<open>totalPrice\<close> is the current effective price of the product plus the
  \<open>priceModifier\<close> of the selected size, times the new quantity; a \<open>NULL\<close> observations
  parameter leaves the stored observations unchanged.
\<close>

theorem merge_frame:
  assumes run: "spCartItemAdd (Some A) (Some U) (Some P) (Some F) (Some S) (Some q) obs now db = (Inr r, db')"
    and crt: "ensure_cart A U now db = (C, db1)"
    and item: "find_cartItem A C P F S db = Some (I, existing)"
  shows "(\<exists>p \<in> set (product db). \<exists>s \<in> set (size_tbl db).
        prd.idProduct p = P \<and> prd.idAccount p = A \<and> siz.idSize s = S
        \<and> cartItem db' =
            map (merged_item I (existing + q)
                   ((ISNULL (prd.promotionalPrice p) (prd.basePrice p) + siz.priceModifier s)
                      * (existing + q)) obs)
              (cartItem db))
    \<and> map crtItm.unitPrice (cartItem db') = map crtItm.unitPrice (cartItem db)
    \<and> map (\<lambda>i. (crtItm.idCartItem i, crtItm.idAccount i, crtItm.idCart i, crtItm.idProduct i,
                 crtItm.idFlavor i, crtItm.idSize i, crtItm.dateCreated i)) (cartItem db')
        = map (\<lambda>i. (crtItm.idCartItem i, crtItm.idAccount i, crtItm.idCart i, crtItm.idProduct i,
                 crtItm.idFlavor i, crtItm.idSize i, crtItm.dateCreated i)) (cartItem db)
    \<and> (obs = None \<longrightarrow> map crtItm.observations (cartItem db') = map crtItm.observations (cartItem db))
    \<and> filter (\<lambda>i. crtItm.idCartItem i \<noteq> I) (cartItem db')
        = filter (\<lambda>i. crtItm.idCartItem i \<noteq> I) (cartItem db)"
proof -
  from spCartItemAdd_success_valid[OF run]
  have t: "cart_transaction A U P F S q obs now db = (Inr r, db')"
    by simp
  from cart_transaction_success[OF t crt] obtain u where
    s: "calc_unitPrice A P S db = Inr (Some u)"
      "cartItem db' = map (merged_item I (existing + q) (u * (existing + q)) obs) (cartItem db)"
    using item by auto
  have one: "\<exists>p \<in> set (product db). \<exists>s \<in> set (size_tbl db).
        prd.idProduct p = P \<and> prd.idAccount p = A \<and> siz.idSize s = S
        \<and> cartItem db' =
            map (merged_item I (existing + q)
                   ((ISNULL (prd.promotionalPrice p) (prd.basePrice p) + siz.priceModifier s)
                      * (existing + q)) obs)
              (cartItem db)"
    using calc_unitPrice_Some[OF s(1)] s(2) by blast
  have keep: "crtItm.unitPrice (merged_item I n t obs i) = crtItm.unitPrice i"
    "(crtItm.idCartItem (merged_item I n t obs i), crtItm.idAccount (merged_item I n t obs i),
      crtItm.idCart (merged_item I n t obs i), crtItm.idProduct (merged_item I n t obs i),
      crtItm.idFlavor (merged_item I n t obs i), crtItm.idSize (merged_item I n t obs i),
      crtItm.dateCreated (merged_item I n t obs i))
     = (crtItm.idCartItem i, crtItm.idAccount i, crtItm.idCart i, crtItm.idProduct i,
        crtItm.idFlavor i, crtItm.idSize i, crtItm.dateCreated i)"
    "crtItm.observations (merged_item I n t None i) = crtItm.observations i"
    "crtItm.idCartItem (merged_item I n t obs i) = crtItm.idCartItem i"
    "crtItm.idCartItem i \<noteq> I \<Longrightarrow> merged_item I n t obs i = i"
    for n t i obs
    by (simp_all add: merged_item_def)
  have others: "filter (\<lambda>i. crtItm.idCartItem i \<noteq> I) (map (merged_item I n t obs) xs)
      = filter (\<lambda>i. crtItm.idCartItem i \<noteq> I) xs" for n t xs
    by (induction xs) (simp_all add: keep(4,5))
  have two: "map crtItm.unitPrice (cartItem db') = map crtItm.unitPrice (cartItem db)"
    by (simp add: s(2) keep(1) comp_def)
  have three: "map (\<lambda>i. (crtItm.idCartItem i, crtItm.idAccount i, crtItm.idCart i, crtItm.idProduct i,
                 crtItm.idFlavor i, crtItm.idSize i, crtItm.dateCreated i)) (cartItem db')
        = map (\<lambda>i. (crtItm.idCartItem i, crtItm.idAccount i, crtItm.idCart i, crtItm.idProduct i,
                 crtItm.idFlavor i, crtItm.idSize i, crtItm.dateCreated i)) (cartItem db)"
    unfolding s(2) map_map comp_def keep(2) ..
  have four: "obs = None \<longrightarrow> map crtItm.observations (cartItem db') = map crtItm.observations (cartItem db)"
    by (simp add: s(2) keep(3) comp_def)
  have five: "filter (\<lambda>i. crtItm.idCartItem i \<noteq> I) (cartItem db')
        = filter (\<lambda>i. crtItm.idCartItem i \<noteq> I) (cartItem db)"
    unfolding s(2) by (rule others)
  show ?thesis
    using one two three four five by blast
qed

text \<open>
  Claim C10 as stated fails where the size has a price modifier: nine cakes of effective
  price 50 in size G (modifier 15) are stored with total 585, not 450.
\<close>

theorem merge_totalPrice_counterexample:
  "map (\<lambda>i. (crtItm.quantity i, crtItm.totalPrice i))
      (cartItem (snd (spCartItemAdd (Some 1) (Some 1) (Some 1) (Some 1) (Some 1) (Some 2) None 9 shop)))
      = [(9, 585000000)]
    \<and> map (\<lambda>p. ISNULL (prd.promotionalPrice p) (prd.basePrice p) * 9)
        (filter (\<lambda>p. prd.idProduct p = 1 \<and> prd.idAccount p = 1) (product shop))
      = [450000000]"
  by code_simp

theorem merge_frame_witness:
  "fst (spCartItemAdd (Some 1) (Some 1) (Some 1) (Some 1) (Some 1) (Some 2) None 9 shop)
      = Inr \<lparr>CartItemAdded.idCartItem = 1, idCart = 1, quantity = 2, unitPrice = 65000000,
             totalPrice = 130000000, success = True\<rparr>
    \<and> ensure_cart 1 1 9 shop = (1, shop)
    \<and> find_cartItem 1 1 1 1 1 shop = Some (1, 7)
    \<and> map crtItm.unitPrice
        (cartItem (snd (spCartItemAdd (Some 1) (Some 1) (Some 1) (Some 1) (Some 1) (Some 2) None 9 shop)))
      = map crtItm.unitPrice (cartItem shop)
    \<and> map crtItm.observations
        (cartItem (snd (spCartItemAdd (Some 1) (Some 1) (Some 1) (Some 1) (Some 1) (Some 2) None 9 shop)))
      = [Some ''sem lactose'']"
proof -
  have r: "fst (spCartItemAdd (Some 1) (Some 1) (Some 1) (Some 1) (Some 1) (Some 2) None 9 shop)
      = Inr \<lparr>CartItemAdded.idCartItem = 1, idCart = 1, quantity = 2, unitPrice = 65000000,
             totalPrice = 130000000, success = True\<rparr>"
    by code_simp
  have e: "ensure_cart 1 1 9 shop = (1, shop)"
    by code_simp
  have f: "find_cartItem 1 1 1 1 1 shop = Some (1, 7)"
    by code_simp
  have o: "map crtItm.observations (cartItem shop) = [Some ''sem lactose'']"
    by code_simp
  have run: "spCartItemAdd (Some 1) (Some 1) (Some 1) (Some 1) (Some 1) (Some 2) None 9 shop
      = (Inr \<lparr>CartItemAdded.idCartItem = 1, idCart = 1, quantity = 2, unitPrice = 65000000,
             totalPrice = 130000000, success = True\<rparr>,
         snd (spCartItemAdd (Some 1) (Some 1) (Some 1) (Some 1) (Some 1) (Some 2) None 9 shop))"
    using r by (metis prod.collapse)
  show ?thesis
    using r e f o merge_frame[OF run e f] by simp
qed

theorem pricing_rule_witness:
  "fst (spCartItemAdd (Some 1) (Some 2) (Some 2) (Some 2) (Some 3) (Some 3) None 9 shop)
      = Inr \<lparr>CartItemAdded.idCartItem = 2, idCart = 2, quantity = 3, unitPrice = 60000000,
             totalPrice = 180000000, success = True\<rparr>
    \<and> length (cartItem (snd (spCartItemAdd (Some 1) (Some 2) (Some 2) (Some 2) (Some 3) (Some 3) None 9 shop)))
        = length (cartItem shop) + 1
    \<and> crtItm.unitPrice (last (cartItem
          (snd (spCartItemAdd (Some 1) (Some 2) (Some 2) (Some 2) (Some 3) (Some 3) None 9 shop))))
        = 60000000
    \<and> map ProductList.currentPrice (returned_products (spProductList server (Some 1) firstPage shop))
        = [50000000, 55000000, 40000000, 45000000, 999999999999999999]
    \<and> list_all (\<lambda>x. ProductList.currentPrice x =
          (case ProductList.promotionalPrice x of Some v \<Rightarrow> v | None \<Rightarrow> ProductList.basePrice x))
        (returned_products (spProductList server (Some 1) firstPage shop))"
proof -
  let ?run = "spCartItemAdd (Some 1) (Some 2) (Some 2) (Some 2) (Some 3) (Some 3) None 9 shop"
  have r: "fst ?run
      = Inr \<lparr>CartItemAdded.idCartItem = 2, idCart = 2, quantity = 3, unitPrice = 60000000,
             totalPrice = 180000000, success = True\<rparr>"
    by code_simp
  have l: "length (cartItem (snd ?run)) = length (cartItem shop) + 1"
    by code_simp
  have c: "map ProductList.currentPrice (returned_products (spProductList server (Some 1) firstPage shop))
        = [50000000, 55000000, 40000000, 45000000, 999999999999999999]"
    by code_simp
  have run: "?run
      = (Inr \<lparr>CartItemAdded.idCartItem = 2, idCart = 2, quantity = 3, unitPrice = 60000000,
             totalPrice = 180000000, success = True\<rparr>, snd ?run)"
    using r by (metis prod.collapse)
  note p = pricing_rule[of server "Some 1" firstPage shop "Some 2" "Some 2" "Some 2" "Some 3" "Some 3" None 9]
  note add = p[THEN conjunct2, THEN conjunct2, rule_format, OF run]
  have a: "crtItm.unitPrice (last (cartItem (snd ?run))) = 60000000"
    using add[THEN conjunct2] l by auto
  have b: "list_all (\<lambda>x. ProductList.currentPrice x =
          (case ProductList.promotionalPrice x of Some v \<Rightarrow> v | None \<Rightarrow> ProductList.basePrice x))
        (returned_products (spProductList server (Some 1) firstPage shop))"
    using p by (simp add: list_all_iff)
  show ?thesis
    using r l c a b by simp
qed

section \<open>The product list: order and pagination\<close>

lemma list_order_unnamed:
  "sb \<notin> {''preco_menor'', ''preco_maior'', ''melhor_avaliados'', ''mais_recentes''}
    \<Longrightarrow> list_order sb = (\<lambda>(p, c, f). (None, None, None, None, prd.idProduct p))"
  by (auto simp: list_order_def)

lemma sorted_by_idProduct:
  assumes "sorted (map (\<lambda>(p, c, f). (None :: int option, None :: int option, None :: int option,
              None :: int option, prd.idProduct p)) (ys :: (prd \<times> cat \<times> cnf) list))"
  shows "sorted (map ProductList.idProduct (map ProductList_row ys))"
  using assms
proof (induction ys)
  case Nil
  then show ?case by simp
next
  case (Cons y ys)
  obtain p c f where y: "y = (p, c, f)" by (cases y)
  have "ProductList.idProduct (ProductList_row y) \<le> ProductList.idProduct (ProductList_row z)"
    if "z \<in> set ys" for z
  proof -
    obtain p' c' f' where z: "z = (p', c', f')" by (cases z)
    have "(None :: int option, None :: int option, None :: int option, None :: int option, prd.idProduct p)
        \<le> (None, None, None, None, prd.idProduct p')"
      using Cons.prems that by (auto simp: y z)
    then show ?thesis
      by (simp add: y z ProductList_row_def less_eq_prod_def)
  qed
  then show ?case
    using Cons by simp
qed

lemma select_ProductList_sorted:
  assumes "sb \<notin> {''preco_menor'', ''preco_maior'', ''melhor_avaliados'', ''mais_recentes''}"
  shows "sorted (map ProductList.idProduct (select_ProductList sb off ps rows))"
proof -
  let ?k = "\<lambda>(p, c, f). (None :: int option, None :: int option, None :: int option,
              None :: int option, prd.idProduct p)"
  have "sorted (map ?k (sort_key ?k rows))"
    by (rule sorted_sort_key)
  then have "sorted (map ?k (take (nat ps) (drop (nat off) (sort_key ?k rows))))"
    unfolding sorted_map by (intro sorted_wrt_take sorted_wrt_drop)
  then show ?thesis
    unfolding select_ProductList_def list_order_unnamed[OF assms]
    by (rule sorted_by_idProduct)
qed

lemma validation_sortBy:
  "spProductList_validation pA (a\<lparr>sortBy := ''relevancia''\<rparr>)
    = spProductList_validation pA (a\<lparr>sortBy := ''mais_vendidos''\<rparr>)"
  by (simp add: spProductList_validation_def)

lemma FilteredProducts_sortBy:
  "FilteredProducts eng A (a\<lparr>sortBy := sb\<rparr>) cats cnfs flvs szs db
    = FilteredProducts eng A a cats cnfs flvs szs db"
  by (simp add: FilteredProducts_def FilteredProducts_where_def)

text \<open>
  Claim C8. For \<open>@sortBy = 'relevancia'\<close> and for \<open>@sortBy = 'mais_vendidos'\<close> the procedure
  \<open>spProductList\<close> gives the same outcome on every input: neither value has a \<open>CASE\<close> in
  the \<open>ORDER BY\<close>, and in both cases the rows returned are in ascending order of
  \<open>idProduct\<close>.
\<close>

theorem relevancia_mais_vendidos:
  "spProductList eng pA (a\<lparr>sortBy := ''relevancia''\<rparr>) db
      = spProductList eng pA (a\<lparr>sortBy := ''mais_vendidos''\<rparr>) db
    \<and> sorted (map ProductList.idProduct
         (returned_products (spProductList eng pA (a\<lparr>sortBy := ''relevancia''\<rparr>) db)))
    \<and> sorted (map ProductList.idProduct
         (returned_products (spProductList eng pA (a\<lparr>sortBy := ''mais_vendidos''\<rparr>) db)))"
proof -
  have o: "list_order ''relevancia'' = list_order ''mais_vendidos''"
    by (simp add: list_order_unnamed)
  have eq: "spProductList eng pA (a\<lparr>sortBy := ''relevancia''\<rparr>) db
      = spProductList eng pA (a\<lparr>sortBy := ''mais_vendidos''\<rparr>) db"
    by (auto simp: spProductList_def validation_sortBy FilteredProducts_sortBy
        select_ProductList_def o Let_def split: option.splits sum.splits prod.splits)
  have s: "sorted (map ProductList.idProduct (returned_products (spProductList eng pA (a\<lparr>sortBy := sb\<rparr>) db)))"
    if "sb \<notin> {''preco_menor'', ''preco_maior'', ''melhor_avaliados'', ''mais_recentes''}" for sb
    using select_ProductList_sorted[OF that]
    unfolding spProductList_def returned_products_def Let_def
    by (auto split: option.splits sum.splits prod.splits)
  show ?thesis
    using eq s[of "''relevancia''"] s[of "''mais_vendidos''"] by simp
qed

theorem relevancia_mais_vendidos_witness:
  "spProductList server (Some 1) (firstPage\<lparr>sortBy := ''relevancia''\<rparr>) shop
      = spProductList server (Some 1) (firstPage\<lparr>sortBy := ''mais_vendidos''\<rparr>) shop
    \<and> map ProductList.idProduct
         (returned_products (spProductList server (Some 1) (firstPage\<lparr>sortBy := ''mais_vendidos''\<rparr>) shop))
        = [1, 2, 3, 4, 6]
    \<and> map ProductList.idProduct
         (returned_products (spProductList server (Some 1) (firstPage\<lparr>sortBy := ''preco_maior''\<rparr>) shop))
        = [6, 2, 1, 4, 3]"
proof -
  have "map ProductList.idProduct
         (returned_products (spProductList server (Some 1) (firstPage\<lparr>sortBy := ''mais_vendidos''\<rparr>) shop))
        = [1, 2, 3, 4, 6]"
    "map ProductList.idProduct
         (returned_products (spProductList server (Some 1) (firstPage\<lparr>sortBy := ''preco_maior''\<rparr>) shop))
        = [6, 2, 1, 4, 3]"
    by code_simp+
  then show ?thesis
    using relevancia_mais_vendidos[of server "Some 1" firstPage shop] by simp
qed

lemma schema_rows_FilteredProducts: "schema_rows db ''FilteredProducts'' = None"
  by (simp add: schema_rows_def)

lemma pagination_never_returned: "spProductList eng pA a db \<noteq> Returned rows pg"
  by (simp add: spProductList_def schema_rows_FilteredProducts Let_def
      split: option.splits sum.splits prod.splits)

lemma first_result_set_slice:
  assumes "spProductList_validation (Some A) a = None"
    and "INT_range ((page a - 1) * ProductListParams.pageSize a) = Inr offset"
    and "id_list eng (categories a) = Inr cats" and "id_list eng (confectioners a) = Inr cnfs"
    and "id_list eng (flavors a) = Inr flvs" and "id_list eng (sizes a) = Inr szs"
  shows "spProductList eng (Some A) a db =
      ProductsThenRaised
        (map ProductList_row
          (take (nat (ProductListParams.pageSize a))
            (drop (nat ((page a - 1) * ProductListParams.pageSize a))
              (sort_key (list_order (sortBy a)) (FilteredProducts eng A a cats cnfs flvs szs db)))))
        (InvalidObjectName ''FilteredProducts'')"
    and "int (length (returned_products (spProductList eng (Some A) a db))) \<le> ProductListParams.pageSize a"
proof -
  have o: "offset = (page a - 1) * ProductListParams.pageSize a"
    using assms(2) by (auto simp: INT_range_def split: if_splits)
  show e: "spProductList eng (Some A) a db =
      ProductsThenRaised
        (map ProductList_row
          (take (nat (ProductListParams.pageSize a))
            (drop (nat ((page a - 1) * ProductListParams.pageSize a))
              (sort_key (list_order (sortBy a)) (FilteredProducts eng A a cats cnfs flvs szs db)))))
        (InvalidObjectName ''FilteredProducts'')"
    using assms
    by (simp add: spProductList_def schema_rows_FilteredProducts select_ProductList_def o)
  have "0 \<le> ProductListParams.pageSize a"
    using assms(1) by (auto simp: spProductList_validation_def split: if_splits)
  then show "int (length (returned_products (spProductList eng (Some A) a db))) \<le> ProductListParams.pageSize a"
    unfolding e returned_products_def by simp
qed

text \<open>
  Claim C4, on the code. The call with page 1 and page size 12 on the sample database
  passes the validations and returns the first twelve rows of the sorted filtered set;
  the pagination statement then raises \<open>Invalid object name 'FilteredProducts'\<close>, and
  no second result set follows. With page 178956972 the offset leaves the range of
  \<open>INT\<close> and the call raises an arithmetic overflow before any row.
\<close>

theorem pagination_statement_fails:
  "spProductList_validation (Some 1) firstPage = None
    \<and> spProductList server (Some 1) firstPage shop =
        ProductsThenRaised
          (map ProductList_row
            (take 12 (drop 0 (sort_key (list_order ''relevancia'')
              (FilteredProducts server 1 firstPage None None None None shop)))))
          (InvalidObjectName ''FilteredProducts'')
    \<and> map ProductList.idProduct (returned_products (spProductList server (Some 1) firstPage shop))
        = [1, 2, 3, 4, 6]
    \<and> spProductList_validation (Some 1) (firstPage\<lparr>page := 178956972\<rparr>) = None
    \<and> spProductList server (Some 1) (firstPage\<lparr>page := 178956972\<rparr>) shop = Raised ArithmeticOverflow"
  by code_simp

section \<open>Related products: the ranking\<close>

lemma sorted_partition:
  assumes "sorted (map f ys)" and "\<And>x y. x \<in> set ys \<Longrightarrow> y \<in> set ys \<Longrightarrow> Q x \<Longrightarrow> \<not> Q y \<Longrightarrow> f x < f y"
  shows "ys = filter Q ys @ filter (\<lambda>y. \<not> Q y) ys"
  using assms
proof (induction ys)
  case Nil
  then show ?case by simp
next
  case (Cons y ys)
  have ih: "ys = filter Q ys @ filter (\<lambda>y. \<not> Q y) ys"
    using Cons by auto
  show ?case
  proof (cases "Q y")
    case True
    then show ?thesis using ih by simp
  next
    case False
    have "\<not> Q z" if "z \<in> set ys" for z
    proof
      assume "Q z"
      then have "f z < f y" using Cons.prems(2)[of z y] that False by simp
      moreover have "f y \<le> f z" using Cons.prems(1) that by simp
      ultimately show False by simp
    qed
    then have "filter Q ys = []" "filter (\<lambda>y. \<not> Q y) ys = ys"
      by (simp_all add: filter_empty_conv filter_id_conv)
    then show ?thesis using False by simp
  qed
qed

lemma sort_key_partition:
  assumes "\<And>x y. x \<in> set xs \<Longrightarrow> y \<in> set xs \<Longrightarrow> Q x \<Longrightarrow> \<not> Q y \<Longrightarrow> f x < f y"
  shows "sort_key f xs = sort_key f (filter Q xs) @ sort_key f (filter (\<lambda>y. \<not> Q y) xs)"
proof -
  have "sort_key f xs = filter Q (sort_key f xs) @ filter (\<lambda>y. \<not> Q y) (sort_key f xs)"
    by (rule sorted_partition[where f = f]) (use assms in simp_all)
  then show ?thesis
    by (simp only: filter_sort)
qed

lemma insort_key_tail:
  assumes "\<forall>a \<in> set (x # ys). f a = (c, g a)"
  shows "insort_key f x ys = insort_key g x ys"
  using assms by (induction ys) (auto simp: less_eq_prod_def)

lemma sort_key_tail:
  assumes "\<forall>a \<in> set xs. f a = (c, g a)"
  shows "sort_key f xs = sort_key g xs"
  using assms
proof (induction xs)
  case Nil
  then show ?case by simp
next
  case (Cons x xs)
  then have "sort_key f xs = sort_key g xs" by simp
  moreover have "insort_key f x (sort_key g xs) = insort_key g x (sort_key g xs)"
    by (rule insort_key_tail[where c = c]) (use Cons.prems in simp)
  ultimately show ?case by simp
qed

lemma RelatedProducts_cte_rows:
  assumes "(p, c) \<in> set (RelatedProducts_cte A P db)"
  shows "p \<in> set (product db)" and "prd.idAccount p = A" and "prd.idProduct p \<noteq> P"
    and "prd.available p" and "prd.active p" and "\<not> prd.deleted p"
  using assms by (auto simp: RelatedProducts_cte_def)

lemma related_ranked_subset:
  "set (related_ranked A P limit criteria db) \<subseteq> set (RelatedProducts_cte A P db)"
  unfolding related_ranked_def using set_take_subset[of "nat limit"] by fastforce

lemma filter_key_single:
  assumes "distinct (map f xs)" and "r \<in> set xs" and "Q r" and "\<And>x. Q x \<Longrightarrow> f x = f r"
  shows "filter Q xs = [r]"
  using assms(1,2)
proof (induction xs)
  case Nil
  then show ?case by simp
next
  case (Cons x xs)
  have nx: "f x \<notin> f ` set xs"
    using Cons.prems(1) by simp
  show ?case
  proof (cases "x = r")
    case True
    have "\<not> Q y" if "y \<in> set xs" for y
    proof
      assume "Q y"
      then have "f y = f x" using assms(4) True by simp
      then show False using nx that by (metis imageI)
    qed
    then have "filter Q xs = []" by (simp add: filter_empty_conv)
    then show ?thesis using True assms(3) by simp
  next
    case False
    then have r: "r \<in> set xs" using Cons.prems by simp
    then have "f x \<noteq> f r" using nx by (metis imageI)
    then have "\<not> Q x" using assms(4) by blast
    then show ?thesis using Cons.IH r Cons.prems(1) by simp
  qed
qed

lemma reference_row:
  assumes valid: "spProductRelated_validation (Some A) (Some P) criteria db = None"
    and pk: "pkProduct db"
    and ref: "r \<in> set (product db)" "prd.idProduct r = P"
  shows "prd.idAccount r = A"
    and "reference_product A P db = Some (prd.idCategory r, prd.idConfectioner r)"
proof -
  from valid obtain p where p: "p \<in> set (product db)" "prd.idProduct p = P" "prd.idAccount p = A"
    by (auto simp: spProductRelated_validation_def split: if_splits)
  have "p = r"
    using pk p(1,2) ref unfolding pkProduct_def by (metis distinct_map inj_onD)
  then show acc: "prd.idAccount r = A" using p by simp
  have "filter (\<lambda>p. prd.idProduct p = P \<and> prd.idAccount p = A) (product db) = [r]"
    by (rule filter_key_single[where f = prd.idProduct])
       (use pk ref acc in \<open>simp_all add: pkProduct_def\<close>)
  then show "reference_product A P db = Some (prd.idCategory r, prd.idConfectioner r)"
    by (simp add: reference_product_def select_into_def)
qed

lemma matchesCriteria_match:
  assumes "prd.idProduct r = P" and "prd.idAccount r = A"
  shows "matchesCriteria criteria A P (Some (prd.idCategory r, prd.idConfectioner r)) db p
      = (if criterion_match criteria db r p then 1 else 0)"
  using assms by (auto simp: matchesCriteria_def criterion_match_def)

lemma related_order_match:
  assumes "\<And>p. m p = (if M p then 1 else (0::int))"
  shows "related_order m (p, c) \<le> related_order m (q, d) \<Longrightarrow> ranked_before M p q"
  by (auto simp: related_order_def ranked_before_def assms less_eq_prod_def split: if_splits)

lemma sorted_wrt_weaken:
  assumes "sorted_wrt R xs" and "\<And>x y. R x y \<Longrightarrow> S x y"
  shows "sorted_wrt S xs"
  using assms by (induction xs) auto

text \<open>
  Claim C3. A valid call of \<open>spProductRelated\<close> with a limit that is not negative, on a
  database that keeps the primary key of \<open>product\<close>, \<open>r\<close> being the row of the reference
  product. The call returns at most \<open>@limit\<close> rows, none of them the reference product,
  all of them available products of the account. They stand in the order of the
  ranking: the products that match the criterion (the category, the confectioner or a
  flavor of \<open>r\<close>) before the others, then more reviews first, then the higher rating
  first, then the smaller \<open>idProduct\<close> first. Every other available product of the
  account is a candidate, and the rows are the first \<open>@limit\<close> of the matching
  candidates in popularity order followed by the other candidates in popularity order;
  so with fewer than \<open>@limit\<close> matching products all of them come first and the
  remaining positions are filled with products that do not match, in popularity order.
\<close>

theorem related_ranking:
  assumes valid: "spProductRelated_validation (Some A) (Some P) criteria db = None"
    and lim: "0 \<le> limit"
    and pk: "pkProduct db"
    and ref: "r \<in> set (product db)" "prd.idProduct r = P"
  shows "spProductRelated (Some A) (Some P) limit criteria db
      = Inr (map RelatedProducts_row (related_ranked A P limit criteria db))
    \<and> int (length (related_ranked A P limit criteria db)) \<le> limit
    \<and> (\<forall>(p, c) \<in> set (related_ranked A P limit criteria db).
          prd.idProduct p \<noteq> P \<and> prd.idAccount p = A \<and> prd.available p \<and> prd.active p
          \<and> \<not> prd.deleted p)
    \<and> (\<forall>x \<in> set (map RelatedProducts_row (related_ranked A P limit criteria db)).
          RelatedProducts.idProduct x \<noteq> P)
    \<and> sorted_wrt (\<lambda>(p, c) (q, d). ranked_before (criterion_match criteria db r) p q)
          (related_ranked A P limit criteria db)
    \<and> (\<forall>p \<in> set (product db). \<forall>c \<in> set (confectioner db).
          prd.idAccount p = A \<and> prd.idProduct p \<noteq> P \<and> \<not> prd.deleted p \<and> prd.active p
          \<and> prd.available p \<and> cnf.idAccount c = A \<and> cnf.idConfectioner c = prd.idConfectioner p
          \<and> \<not> cnf.deleted c
          \<longrightarrow> (p, c) \<in> set (RelatedProducts_cte A P db))
    \<and> related_ranked A P limit criteria db =
        take (nat limit)
          (sort_key popularity_order
              (filter (\<lambda>(p, c). criterion_match criteria db r p) (RelatedProducts_cte A P db))
           @ sort_key popularity_order
              (filter (\<lambda>(p, c). \<not> criterion_match criteria db r p) (RelatedProducts_cte A P db)))
    \<and> (int (length (filter (\<lambda>(p, c). criterion_match criteria db r p)
                      (RelatedProducts_cte A P db))) < limit \<longrightarrow>
        related_ranked A P limit criteria db =
          sort_key popularity_order
            (filter (\<lambda>(p, c). criterion_match criteria db r p) (RelatedProducts_cte A P db))
          @ take (nat limit - length (filter (\<lambda>(p, c). criterion_match criteria db r p)
                                        (RelatedProducts_cte A P db)))
              (sort_key popularity_order
                (filter (\<lambda>(p, c). \<not> criterion_match criteria db r p)
                  (RelatedProducts_cte A P db))))"
proof -
  let ?cte = "RelatedProducts_cte A P db"
  let ?rk = "related_ranked A P limit criteria db"
  let ?M = "criterion_match criteria db r"
  let ?m = "matchesCriteria criteria A P (reference_product A P db) db"
  let ?Q = "\<lambda>(p, c). ?M p"
  let ?N = "\<lambda>(p, c). \<not> ?M p"
  note rr = reference_row[OF valid pk ref]
  have m: "?m p = (if ?M p then 1 else 0)" for p
    by (simp only: rr(2) matchesCriteria_match[OF ref(2) rr(1)])
  have ret: "spProductRelated (Some A) (Some P) limit criteria db = Inr (map RelatedProducts_row ?rk)"
    using valid lim by (simp add: spProductRelated_def)
  have len: "int (length ?rk) \<le> limit"
    using lim by (simp add: related_ranked_def)
  have sub: "set ?rk \<subseteq> set ?cte"
    by (rule related_ranked_subset)
  have avail: "\<forall>(p, c) \<in> set ?rk. prd.idProduct p \<noteq> P \<and> prd.idAccount p = A \<and> prd.available p
      \<and> prd.active p \<and> \<not> prd.deleted p"
  proof (clarify)
    fix p c assume "(p, c) \<in> set ?rk"
    then have "(p, c) \<in> set ?cte" using sub by blast
    then show "prd.idProduct p \<noteq> P \<and> prd.idAccount p = A \<and> prd.available p \<and> prd.active p
        \<and> \<not> prd.deleted p"
      by (simp add: RelatedProducts_cte_rows)
  qed
  have notref: "\<forall>x \<in> set (map RelatedProducts_row ?rk). RelatedProducts.idProduct x \<noteq> P"
  proof
    fix x assume "x \<in> set (map RelatedProducts_row ?rk)"
    then obtain p c where "(p, c) \<in> set ?rk" "x = RelatedProducts_row (p, c)"
      by auto
    then show "RelatedProducts.idProduct x \<noteq> P"
      using avail by (auto simp: RelatedProducts_row_def)
  qed
  have "sorted (map (related_order ?m) (sort_key (related_order ?m) ?cte))"
    by (rule sorted_sort_key)
  then have "sorted (map (related_order ?m) (take (nat limit) (sort_key (related_order ?m) ?cte)))"
    unfolding sorted_map by (rule sorted_wrt_take)
  then have "sorted_wrt (\<lambda>x y. related_order ?m x \<le> related_order ?m y) ?rk"
    by (simp only: related_ranked_def sorted_map)
  then have srt: "sorted_wrt (\<lambda>(p, c) (q, d). ranked_before ?M p q) ?rk"
  proof (rule sorted_wrt_weaken)
    fix x y :: "prd \<times> cnf"
    assume le: "related_order ?m x \<le> related_order ?m y"
    obtain p c q d where xy: "x = (p, c)" "y = (q, d)" by (cases x; cases y)
    have "ranked_before ?M p q"
      by (rule related_order_match[where m = ?m and c = c and d = d]) (use m le xy in simp_all)
    then show "(case x of (p, c) \<Rightarrow> \<lambda>(q, d). ranked_before ?M p q) y"
      by (simp add: xy)
  qed
  have cand: "\<forall>p \<in> set (product db). \<forall>c \<in> set (confectioner db).
          prd.idAccount p = A \<and> prd.idProduct p \<noteq> P \<and> \<not> prd.deleted p \<and> prd.active p
          \<and> prd.available p \<and> cnf.idAccount c = A \<and> cnf.idConfectioner c = prd.idConfectioner p
          \<and> \<not> cnf.deleted c
          \<longrightarrow> (p, c) \<in> set ?cte"
    by (simp add: RelatedProducts_cte_def)
  have key: "related_order ?m x < related_order ?m y" if "?Q x" "\<not> ?Q y" for x y
  proof -
    obtain p c q d where xy: "x = (p, c)" "y = (q, d)" by (cases x; cases y)
    have "?m p = 1" "?m q = 0"
      using that by (simp_all add: xy m)
    then show ?thesis
      by (simp add: xy related_order_def less_prod_def)
  qed
  have hit: "sort_key (related_order ?m) (filter ?Q ?cte) = sort_key popularity_order (filter ?Q ?cte)"
  proof (rule sort_key_tail[where c = "- 1"])
    show "\<forall>a \<in> set (filter ?Q ?cte). related_order ?m a = (- 1, popularity_order a)"
      by (auto simp: related_order_def popularity_order_def m)
  qed
  have miss: "sort_key (related_order ?m) (filter (\<lambda>y. \<not> ?Q y) ?cte)
      = sort_key popularity_order (filter (\<lambda>y. \<not> ?Q y) ?cte)"
  proof (rule sort_key_tail[where c = 0])
    show "\<forall>a \<in> set (filter (\<lambda>y. \<not> ?Q y) ?cte). related_order ?m a = (0, popularity_order a)"
      by (auto simp: related_order_def popularity_order_def m)
  qed
  have nq: "(\<lambda>y. \<not> ?Q y) = ?N"
    by (rule ext) (simp add: case_prod_beta)
  have "sort_key (related_order ?m) ?cte
      = sort_key (related_order ?m) (filter ?Q ?cte)
        @ sort_key (related_order ?m) (filter (\<lambda>y. \<not> ?Q y) ?cte)"
    by (rule sort_key_partition) (rule key)
  then have split: "sort_key (related_order ?m) ?cte
      = sort_key popularity_order (filter ?Q ?cte) @ sort_key popularity_order (filter ?N ?cte)"
    using hit miss by (simp only: nq)
  have whole: "?rk = take (nat limit)
          (sort_key popularity_order (filter ?Q ?cte) @ sort_key popularity_order (filter ?N ?cte))"
    by (simp only: related_ranked_def split)
  have fallback: "?rk =
          sort_key popularity_order (filter ?Q ?cte)
          @ take (nat limit - length (filter ?Q ?cte)) (sort_key popularity_order (filter ?N ?cte))"
    if "int (length (filter ?Q ?cte)) < limit"
  proof -
    have "length (sort_key popularity_order (filter ?Q ?cte)) \<le> nat limit"
      using that by simp
    then show ?thesis
      by (simp only: whole take_append take_all length_sort)
  qed
  from fallback have fb: "int (length (filter ?Q ?cte)) < limit \<longrightarrow> ?rk =
          sort_key popularity_order (filter ?Q ?cte)
          @ take (nat limit - length (filter ?Q ?cte)) (sort_key popularity_order (filter ?N ?cte))"
    by (rule impI)
  show ?thesis
    by (rule conjI[OF ret conjI[OF len conjI[OF avail conjI[OF notref conjI[OF srt conjI[OF cand conjI[OF whole fb]]]]]]])
qed

theorem related_ranking_witness:
  "spProductRelated_validation (Some 1) (Some 6) ''categoria'' shop = None
    \<and> pkProduct shop
    \<and> product shop ! 5 \<in> set (product shop) \<and> prd.idProduct (product shop ! 5) = 6
    \<and> map RelatedProducts.idProduct (projr (spProductRelated (Some 1) (Some 6) 4 ''categoria'' shop))
        = [2, 1, 4, 3]
    \<and> map (\<lambda>(p, c). (prd.idProduct p, criterion_match ''categoria'' shop (product shop ! 5) p))
          (related_ranked 1 6 4 ''categoria'' shop)
        = [(2, True), (1, True), (4, False), (3, False)]
    \<and> sorted_wrt (\<lambda>(p, c) (q, d). ranked_before (criterion_match ''categoria'' shop (product shop ! 5)) p q)
          (related_ranked 1 6 4 ''categoria'' shop)
    \<and> map RelatedProducts.idProduct (projr (spProductRelated (Some 1) (Some 1) 4 ''sabor'' shop))
        = [2, 4, 6, 3]
    \<and> map RelatedProducts.idProduct (projr (spProductRelated (Some 1) (Some 1) 2 ''confeiteiro'' shop))
        = [3, 6]"
proof -
  have v: "spProductRelated_validation (Some 1) (Some 6) ''categoria'' shop = None"
    and vs: "spProductRelated_validation (Some 1) (Some 1) ''sabor'' shop = None"
    and vc: "spProductRelated_validation (Some 1) (Some 1) ''confeiteiro'' shop = None"
    by code_simp+
  have l: "(0::int) \<le> 4" "(0::int) \<le> 2"
    by simp_all
  have pk: "pkProduct shop"
    by code_simp
  have r6: "product shop ! 5 \<in> set (product shop)" "prd.idProduct (product shop ! 5) = 6"
    and r1: "product shop ! 0 \<in> set (product shop)" "prd.idProduct (product shop ! 0) = 1"
    by code_simp+
  have i: "map RelatedProducts.idProduct (map RelatedProducts_row (related_ranked 1 6 4 ''categoria'' shop))
        = [2, 1, 4, 3]"
    and js: "map RelatedProducts.idProduct (map RelatedProducts_row (related_ranked 1 1 4 ''sabor'' shop))
        = [2, 4, 6, 3]"
    and jc: "map RelatedProducts.idProduct (map RelatedProducts_row (related_ranked 1 1 2 ''confeiteiro'' shop))
        = [3, 6]"
    by code_simp+
  have f: "map (\<lambda>(p, c). (prd.idProduct p, criterion_match ''categoria'' shop (product shop ! 5) p))
          (related_ranked 1 6 4 ''categoria'' shop)
        = [(2, True), (1, True), (4, False), (3, False)]"
    by code_simp
  note t = related_ranking[OF v l(1) pk r6]
  note ts = related_ranking[OF vs l(1) pk r1]
  note tc = related_ranking[OF vc l(2) pk r1]
  note s = t[THEN conjunct2, THEN conjunct2, THEN conjunct2, THEN conjunct2, THEN conjunct1]
  have p: "map RelatedProducts.idProduct (projr (spProductRelated (Some 1) (Some 6) 4 ''categoria'' shop))
        = [2, 1, 4, 3]"
    by (simp only: t[THEN conjunct1] sum.sel i)
  have ps: "map RelatedProducts.idProduct (projr (spProductRelated (Some 1) (Some 1) 4 ''sabor'' shop))
        = [2, 4, 6, 3]"
    by (simp only: ts[THEN conjunct1] sum.sel js)
  have pc: "map RelatedProducts.idProduct (projr (spProductRelated (Some 1) (Some 1) 2 ''confeiteiro'' shop))
        = [3, 6]"
    by (simp only: tc[THEN conjunct1] sum.sel jc)
  show ?thesis
    by (rule conjI[OF v conjI[OF pk conjI[OF r6(1) conjI[OF r6(2) conjI[OF p conjI[OF f conjI[OF s conjI[OF ps pc]]]]]]]])
qed

section \<open>The internal router\<close>

lemma z_parse_keys:
  "z_parse sch ob = Some r \<Longrightarrow> fst ` set r \<subseteq> fst ` set sch"
proof (induction sch arbitrary: r)
  case Nil
  then show ?case by simp
next
  case (Cons kf sch)
  obtain k f where kf: "kf = (k, f)" by (cases kf)
  from Cons.prems obtain v r' where
    "f (property ob k) = Some v" "z_parse sch ob = Some r'"
    "r = (if v = Undefined then r' else (k, v) # r')"
    by (auto simp: kf split: option.splits)
  then show ?case
    using Cons.IH[of r'] by (auto simp: kf)
qed

lemma property_spread:
  "k \<notin> fst ` set b \<Longrightarrow> property (spread a b) k = property a k"
  by (simp add: property_def spread_def map_of_append map_add_def map_of_eq_None_iff[THEN iffD2])

lemma property_spread_hit:
  "property (spread a ((k, v) # b)) k = v"
  by (simp add: property_def spread_def)

lemma validate_credential:
  "validate req ps bs = Some v \<Longrightarrow> credential v = [(''idAccount'', Num 1), (''idUser'', Num 1)]"
  by (auto simp: validate_def Let_def split: option.splits)

lemma validate_params:
  "validate req (Some sch) None = Some v \<Longrightarrow> z_parse sch (request.params req) = Some (ValidationResult.params v)"
  by (auto simp: validate_def Let_def split: option.splits)

lemma validate_body:
  "validate req None (Some sch) = Some v \<Longrightarrow> z_parse sch (request.body req) = Some (ValidationResult.body v)"
  by (auto simp: validate_def Let_def split: option.splits)

lemma crud_read_spread:
  assumes "crud_read req sch = Some v" and "k \<notin> fst ` set sch"
  shows "property (spread (credential v) (ValidationResult.params v)) k
      = property [(''idAccount'', Num 1), (''idUser'', Num 1)] k"
proof -
  note val = assms(1)[unfolded crud_read_def]
  have "fst ` set (ValidationResult.params v) \<subseteq> fst ` set sch"
    by (rule z_parse_keys[OF validate_params[OF val]])
  then have "k \<notin> fst ` set (ValidationResult.params v)"
    using assms(2) by blast
  then show ?thesis
    by (simp add: property_spread validate_credential[OF val])
qed

lemma crud_create_spread:
  assumes "crud_create req sch = Some v" and "k \<notin> fst ` set sch"
  shows "property (spread (credential v) (ValidationResult.body v)) k
      = property [(''idAccount'', Num 1), (''idUser'', Num 1)] k"
proof -
  note val = assms(1)[unfolded crud_create_def]
  have "fst ` set (ValidationResult.body v) \<subseteq> fst ` set sch"
    by (rule z_parse_keys[OF validate_body[OF val]])
  then have "k \<notin> fst ` set (ValidationResult.body v)"
    using assms(2) by blast
  then show ?thesis
    by (simp add: property_spread validate_credential[OF val])
qed

lemma crud_read_credential:
  "crud_read req sch = Some v \<Longrightarrow> credential v = [(''idAccount'', Num 1), (''idUser'', Num 1)]"
  unfolding crud_read_def by (rule validate_credential)

lemma property_head: "property ((k, v) # ob) k = v"
  by (simp add: property_def)

lemma listHandler_credential:
  "passes_credential (listHandler Number req) ''[functional].[spProductList]'' [''idAccount'']"
proof (cases "listHandler Number req")
  case (execute c)
  let ?sch = "[(''page'', z_optional (z_positive (z_int (z_coerce_number Number)))),
        (''pageSize'', z_optional (z_int (z_coerce_number Number))),
        (''sortBy'', z_optional z_string),
        (''categories'', z_optional z_string),
        (''flavors'', z_optional z_string),
        (''sizes'', z_optional z_string),
        (''minPrice'', z_optional (z_coerce_number Number)),
        (''maxPrice'', z_optional (z_coerce_number Number)),
        (''confectioners'', z_optional z_string),
        (''availability'', z_optional z_string),
        (''searchTerm'', z_optional (z_max 100 z_string))]"
  from execute obtain v where v: "crud_read req ?sch = Some v"
    and c: "c = productList (spread (credential v) (ValidationResult.params v))"
    by (auto simp: listHandler_def Let_def split: option.splits)
  have "property (spread (credential v) (ValidationResult.params v)) ''idAccount''
      = property [(''idAccount'', Num 1), (''idUser'', Num 1)] ''idAccount''"
    by (rule crud_read_spread[OF v]) simp
  then show ?thesis
    by (simp add: passes_credential_def execute c productList_def property_head)
qed (simp_all add: passes_credential_def)

lemma getHandler_credential:
  "passes_credential (getHandler Number req) ''[functional].[spProductGet]'' [''idAccount'']"
proof (cases "getHandler Number req")
  case (execute c)
  from execute obtain v where v: "crud_read req [(''id'', zFK Number)] = Some v"
    and c: "c = productGet (spread (credential v)
                 [(''idProduct'', property (ValidationResult.params v) ''id'')])"
    by (auto simp: getHandler_def Let_def split: option.splits)
  have "property (spread (credential v) [(''idProduct'', property (ValidationResult.params v) ''id'')])
          ''idAccount''
      = property (credential v) ''idAccount''"
    by (rule property_spread) simp
  then show ?thesis
    by (simp add: passes_credential_def execute c productGet_def property_head
        crud_read_credential[OF v])
qed (simp_all add: passes_credential_def)

lemma relatedHandler_credential:
  "passes_credential (relatedHandler Number req) ''[functional].[spProductRelated]'' [''idAccount'']"
proof (cases "relatedHandler Number req")
  case (execute c)
  let ?qs = "[(''limit'', z_optional (z_positive (z_int (z_coerce_number Number)))),
                        (''criteria'', z_optional z_string)]"
  from execute obtain v qry where v: "crud_read req [(''id'', zFK Number)] = Some v"
    and q: "z_parse ?qs (request.query req) = Some qry"
    and c: "c = productRelated (spread (spread (credential v)
                     [(''idProduct'', property (ValidationResult.params v) ''id'')]) qry)"
    by (auto simp: relatedHandler_def Let_def split: option.splits)
  have "fst ` set qry \<subseteq> fst ` set ?qs"
    by (rule z_parse_keys[OF q])
  then have "''idAccount'' \<notin> fst ` set qry"
    by auto
  then have "property (spread (spread (credential v)
                     [(''idProduct'', property (ValidationResult.params v) ''id'')]) qry) ''idAccount''
      = property (spread (credential v)
                     [(''idProduct'', property (ValidationResult.params v) ''id'')]) ''idAccount''"
    by (rule property_spread)
  also have "\<dots> = property (credential v) ''idAccount''"
    by (rule property_spread) simp
  finally show ?thesis
    by (simp add: passes_credential_def execute c productRelated_def property_head
        crud_read_credential[OF v])
qed (simp_all add: passes_credential_def)

lemma addToCartHandler_credential:
  "passes_credential (addToCartHandler Number req) ''[functional].[spCartItemAdd]''
     [''idAccount'', ''idUser'']"
proof (cases "addToCartHandler Number req")
  case (execute c)
  let ?sch = "[(''idProduct'', zFK Number), (''idFlavor'', zFK Number), (''idSize'', zFK Number),
        (''quantity'', z_max 10 (z_min 1 (z_int z_number))),
        (''observations'', zNullableString 200)]"
  from execute obtain v where v: "crud_create req ?sch = Some v"
    and c: "c = cartItemAdd (spread (credential v) (ValidationResult.body v))"
    by (auto simp: addToCartHandler_def Let_def split: option.splits)
  have "property (spread (credential v) (ValidationResult.body v)) ''idAccount''
      = property [(''idAccount'', Num 1), (''idUser'', Num 1)] ''idAccount''"
    "property (spread (credential v) (ValidationResult.body v)) ''idUser''
      = property [(''idAccount'', Num 1), (''idUser'', Num 1)] ''idUser''"
    by (rule crud_create_spread[OF v], simp)+
  then show ?thesis
    by (simp add: passes_credential_def execute c cartItemAdd_def property_def[of "_ # _"])
qed (simp_all add: passes_credential_def)

lemma zFK_positive_integer:
  "positive_integer Number v n \<Longrightarrow> zFK Number v = Some (Num n)"
  by (simp add: positive_integer_def zFK_def z_positive_def z_int_def z_refine_def z_coerce_number_def)

lemma listHandler_executes:
  assumes "request.params req = []"
  shows "listHandler Number req =
    execute \<lparr>procedure = ''[functional].[spProductList]'',
      inputs = [(''idAccount'', Num 1), (''page'', Num 1), (''pageSize'', Num 12),
                (''sortBy'', Str ''relevancia''), (''categories'', Null), (''flavors'', Null),
                (''sizes'', Null), (''minPrice'', Null), (''maxPrice'', Null),
                (''confectioners'', Null), (''availability'', Str ''disponivel''),
                (''searchTerm'', Null)]\<rparr>"
  using assms
  by (simp add: listHandler_def crud_read_def validate_def z_optional_def property_def
      spread_def productList_def or_js_def)

lemma getHandler_executes:
  assumes "positive_integer Number (property (request.params req) ''id'') n"
  shows "getHandler Number req =
    execute \<lparr>procedure = ''[functional].[spProductGet]'',
      inputs = [(''idAccount'', Num 1), (''idProduct'', Num n)]\<rparr>"
  using zFK_positive_integer[OF assms]
  by (simp add: getHandler_def crud_read_def validate_def property_def[of "_ # _"]
      spread_def productGet_def)

lemma relatedHandler_executes:
  assumes id: "positive_integer Number (property (request.params req) ''id'') n"
    and lim: "property (request.query req) ''limit'' = Undefined
        \<or> positive_integer Number (property (request.query req) ''limit'') k"
    and crit: "property (request.query req) ''criteria'' = Undefined
        \<or> (\<exists>s. property (request.query req) ''criteria'' = Str s)"
  shows "relatedHandler Number req =
    execute \<lparr>procedure = ''[functional].[spProductRelated]'',
      inputs = [(''idAccount'', Num 1), (''idProduct'', Num n),
                (''limit'', if property (request.query req) ''limit'' = Undefined then Num 4 else Num k),
                (''criteria'',
                   if property (request.query req) ''criteria'' \<in> {Undefined, Str []}
                   then Str ''categoria'' else property (request.query req) ''criteria'')]\<rparr>"
proof -
  note fk = zFK_positive_integer[OF id]
  have l: "z_optional (z_positive (z_int (z_coerce_number Number))) (property (request.query req) ''limit'')
      = Some (if property (request.query req) ''limit'' = Undefined then Undefined else Num k)"
    using lim zFK_positive_integer[of Number "property (request.query req) ''limit''" k]
    by (auto simp: z_optional_def zFK_def)
  have c: "z_optional z_string (property (request.query req) ''criteria'')
      = Some (property (request.query req) ''criteria'')"
    using crit by (auto simp: z_optional_def z_string_def)
  have pos: "k \<noteq> 0" if "property (request.query req) ''limit'' \<noteq> Undefined"
    using lim that by (auto simp: positive_integer_def)
  show ?thesis
    using fk l c pos crit
    by (auto simp: relatedHandler_def crud_read_def validate_def property_def[of "_ # _"]
      spread_def productRelated_def or_js_def)
qed

lemma addToCartHandler_executes:
  assumes p: "positive_integer Number (property (request.body req) ''idProduct'') a"
    and f: "positive_integer Number (property (request.body req) ''idFlavor'') b"
    and s: "positive_integer Number (property (request.body req) ''idSize'') c"
    and q: "property (request.body req) ''quantity'' = Num q" "of_int \<lfloor>q\<rfloor> = q" "1 \<le> q" "q \<le> 10"
    and obs: "property (request.body req) ''observations'' = Null
        \<or> (\<exists>t. property (request.body req) ''observations'' = Str t \<and> length t \<le> 200)"
  shows "addToCartHandler Number req =
    execute \<lparr>procedure = ''[functional].[spCartItemAdd]'',
      inputs = [(''idAccount'', Num 1), (''idUser'', Num 1), (''idProduct'', Num a),
                (''idFlavor'', Num b), (''idSize'', Num c), (''quantity'', Num q),
                (''observations'',
                   if property (request.body req) ''observations'' = Str [] then Null
                   else property (request.body req) ''observations'')]\<rparr>"
proof -
  note fk = zFK_positive_integer[OF p] zFK_positive_integer[OF f] zFK_positive_integer[OF s]
  have qq: "z_max 10 (z_min 1 (z_int z_number)) (property (request.body req) ''quantity'') = Some (Num q)"
    using q by (simp add: z_max_def z_min_def z_int_def z_number_def z_refine_def)
  have oo: "zNullableString 200 (property (request.body req) ''observations'')
      = Some (property (request.body req) ''observations'')"
    using obs by (auto simp: zNullableString_def z_nullable_def z_max_def z_string_def z_refine_def)
  have und: "property (request.body req) ''observations'' \<noteq> Undefined"
    using obs by auto
  have q0: "q \<noteq> 0" using q by auto
  have a0: "a \<noteq> 0" "b \<noteq> 0" "c \<noteq> 0" using p f s by (auto simp: positive_integer_def)
  show ?thesis
    using fk qq oo und q0 a0 obs
    by (auto simp: addToCartHandler_def crud_create_def validate_def property_def[of "_ # _"]
      spread_def cartItemAdd_def or_js_def)
qed

text \<open>
  Claim C7. The internal router registers exactly four routes, \<open>GET /product\<close>,
  \<open>GET /product/:id\<close>, \<open>GET /product/:id/related\<close> and \<open>POST /cart/item\<close>, with the
  handlers \<open>listHandler\<close>, \<open>getHandler\<close>, \<open>relatedHandler\<close> and \<open>addToCartHandler\<close>.
  Whenever one of them executes a request, it executes \<open>spProductList\<close>, \<open>spProductGet\<close>,
  \<open>spProductRelated\<close> and \<open>spCartItemAdd\<close> respectively, and the input \<open>idAccount\<close> (for
  the cart, \<open>idUser\<close> too) is the one of the credential of the validation, whatever the
  parameters, query and body of the request hold. And they do execute them:
  \<^item> \<open>listHandler\<close>, on a request without path parameters (the route has none),
    executes \<open>spProductList\<close> for the account of the credential with the defaults of the
    service;
  \<^item> \<open>getHandler\<close>, on a request whose path parameter \<open>id\<close> coerces to a positive whole
    number, executes \<open>spProductGet\<close> for the account of the credential and that product;
  \<^item> \<open>relatedHandler\<close>, on such a request whose query has no \<open>limit\<close> or one that
    coerces to a positive whole number, and no \<open>criteria\<close> or a string, executes
    \<open>spProductRelated\<close> for the account of the credential, that product, the limit
    (4 when there is none) and the criterion (\<open>categoria\<close> when there is none or an empty one);
  \<^item> \<open>addToCartHandler\<close>, on a request whose body has identifiers that coerce to
    positive whole numbers, a whole number from 1 to 10 as quantity, and \<open>null\<close> or a
    string of at most 200 characters as observations, executes \<open>spCartItemAdd\<close> for the
    account and the user of the credential with these values.
\<close>

theorem internal_router_endpoints:
  "map (\<lambda>(m, p, h). (m, p)) (internalRoutes Number)
      = [(GET, ''/product''), (GET, ''/product/:id''), (GET, ''/product/:id/related''),
         (POST, ''/cart/item'')]
    \<and> map (\<lambda>(m, p, h). h req) (internalRoutes Number)
      = [listHandler Number req, getHandler Number req, relatedHandler Number req,
         addToCartHandler Number req]
    \<and> passes_credential (listHandler Number req) ''[functional].[spProductList]'' [''idAccount'']
    \<and> passes_credential (getHandler Number req) ''[functional].[spProductGet]'' [''idAccount'']
    \<and> passes_credential (relatedHandler Number req) ''[functional].[spProductRelated]'' [''idAccount'']
    \<and> passes_credential (addToCartHandler Number req) ''[functional].[spCartItemAdd]''
          [''idAccount'', ''idUser'']
    \<and> (request.params req = [] \<longrightarrow>
        listHandler Number req =
          execute \<lparr>procedure = ''[functional].[spProductList]'',
            inputs = [(''idAccount'', Num 1), (''page'', Num 1), (''pageSize'', Num 12),
                      (''sortBy'', Str ''relevancia''), (''categories'', Null), (''flavors'', Null),
                      (''sizes'', Null), (''minPrice'', Null), (''maxPrice'', Null),
                      (''confectioners'', Null), (''availability'', Str ''disponivel''),
                      (''searchTerm'', Null)]\<rparr>)
    \<and> (positive_integer Number (property (request.params req) ''id'') n \<longrightarrow>
        getHandler Number req =
          execute \<lparr>procedure = ''[functional].[spProductGet]'',
            inputs = [(''idAccount'', Num 1), (''idProduct'', Num n)]\<rparr>)
    \<and> (positive_integer Number (property (request.params req) ''id'') n
        \<and> (property (request.query req) ''limit'' = Undefined
            \<or> positive_integer Number (property (request.query req) ''limit'') k)
        \<and> (property (request.query req) ''criteria'' = Undefined
            \<or> (\<exists>s. property (request.query req) ''criteria'' = Str s)) \<longrightarrow>
        relatedHandler Number req =
          execute \<lparr>procedure = ''[functional].[spProductRelated]'',
            inputs = [(''idAccount'', Num 1), (''idProduct'', Num n),
                      (''limit'',
                         if property (request.query req) ''limit'' = Undefined then Num 4 else Num k),
                      (''criteria'',
                         if property (request.query req) ''criteria'' \<in> {Undefined, Str []}
                         then Str ''categoria'' else property (request.query req) ''criteria'')]\<rparr>)
    \<and> (positive_integer Number (property (request.body req) ''idProduct'') a
        \<and> positive_integer Number (property (request.body req) ''idFlavor'') b
        \<and> positive_integer Number (property (request.body req) ''idSize'') c
        \<and> property (request.body req) ''quantity'' = Num q \<and> of_int \<lfloor>q\<rfloor> = q
        \<and> 1 \<le> q \<and> q \<le> 10
        \<and> (property (request.body req) ''observations'' = Null
            \<or> (\<exists>t. property (request.body req) ''observations'' = Str t \<and> length t \<le> 200)) \<longrightarrow>
        addToCartHandler Number req =
          execute \<lparr>procedure = ''[functional].[spCartItemAdd]'',
            inputs = [(''idAccount'', Num 1), (''idUser'', Num 1), (''idProduct'', Num a),
                      (''idFlavor'', Num b), (''idSize'', Num c), (''quantity'', Num q),
                      (''observations'',
                         if property (request.body req) ''observations'' = Str [] then Null
                         else property (request.body req) ''observations'')]\<rparr>)"
proof -
  have routes: "map (\<lambda>(m, p, h). (m, p)) (internalRoutes Number)
      = [(GET, ''/product''), (GET, ''/product/:id''), (GET, ''/product/:id/related''),
         (POST, ''/cart/item'')]"
    and handlers: "map (\<lambda>(m, p, h). h req) (internalRoutes Number)
      = [listHandler Number req, getHandler Number req, relatedHandler Number req,
         addToCartHandler Number req]"
    by (simp_all add: internalRoutes_def)
  note cred = listHandler_credential[of Number req] getHandler_credential[of Number req]
    relatedHandler_credential[of Number req] addToCartHandler_credential[of Number req]
  note lst = listHandler_executes[of req Number]
  note get = getHandler_executes[of Number req n]
  note rel = relatedHandler_executes[of Number req n k]
  note add = addToCartHandler_executes[of Number req a b c q]
  show ?thesis
    using routes handlers cred lst get rel add by blast
qed

theorem internal_router_endpoints_witness:
  "length (internalRoutes jsNumber) = 4
    \<and> request.params listRequest = []
    \<and> listHandler jsNumber listRequest =
      execute \<lparr>procedure = ''[functional].[spProductList]'',
        inputs = [(''idAccount'', Num 1), (''page'', Num 1), (''pageSize'', Num 12),
                  (''sortBy'', Str ''relevancia''), (''categories'', Null), (''flavors'', Null),
                  (''sizes'', Null), (''minPrice'', Null), (''maxPrice'', Null),
                  (''confectioners'', Null), (''availability'', Str ''disponivel''),
                  (''searchTerm'', Null)]\<rparr>
    \<and> positive_integer jsNumber (property (request.params relatedRequest) ''id'') 3
    \<and> getHandler jsNumber relatedRequest =
      execute \<lparr>procedure = ''[functional].[spProductGet]'',
        inputs = [(''idAccount'', Num 1), (''idProduct'', Num 3)]\<rparr>
    \<and> relatedHandler jsNumber relatedRequest =
      execute \<lparr>procedure = ''[functional].[spProductRelated]'',
        inputs = [(''idAccount'', Num 1), (''idProduct'', Num 3), (''limit'', Num 4),
                  (''criteria'', Str ''sabor'')]\<rparr>
    \<and> addToCartHandler jsNumber cartRequest =
      execute \<lparr>procedure = ''[functional].[spCartItemAdd]'',
        inputs = [(''idAccount'', Num 1), (''idUser'', Num 1), (''idProduct'', Num 3),
                  (''idFlavor'', Num 1), (''idSize'', Num 2), (''quantity'', Num 4),
                  (''observations'', Null)]\<rparr>
    \<and> passes_credential (addToCartHandler jsNumber cartRequest) ''[functional].[spCartItemAdd]''
          [''idAccount'', ''idUser'']"
proof -
  note tl = internal_router_endpoints[where Number = jsNumber and req = listRequest]
  note tr = internal_router_endpoints[where Number = jsNumber and req = relatedRequest
      and n = 3 and k = 4]
  note tc = internal_router_endpoints[where Number = jsNumber and req = cartRequest
      and a = 3 and b = 1 and c = 2 and q = 4]
  have "length (map (\<lambda>(m, p, h). (m, p)) (internalRoutes jsNumber)) = 4"
    by (simp only: tl[THEN conjunct1]) simp
  then have d: "length (internalRoutes jsNumber) = 4"
    by simp
  have e: "request.params listRequest = []"
    by (simp add: listRequest_def)
  have l: "listHandler jsNumber listRequest =
      execute \<lparr>procedure = ''[functional].[spProductList]'',
        inputs = [(''idAccount'', Num 1), (''page'', Num 1), (''pageSize'', Num 12),
                  (''sortBy'', Str ''relevancia''), (''categories'', Null), (''flavors'', Null),
                  (''sizes'', Null), (''minPrice'', Null), (''maxPrice'', Null),
                  (''confectioners'', Null), (''availability'', Str ''disponivel''),
                  (''searchTerm'', Null)]\<rparr>"
    using tl e by blast
  have i: "positive_integer jsNumber (property (request.params relatedRequest) ''id'') 3"
    by code_simp
  have ql: "property (request.query relatedRequest) ''limit'' = Undefined"
    and qc: "property (request.query relatedRequest) ''criteria'' = Str ''sabor''"
    by code_simp+
  have g: "getHandler jsNumber relatedRequest =
      execute \<lparr>procedure = ''[functional].[spProductGet]'',
        inputs = [(''idAccount'', Num 1), (''idProduct'', Num 3)]\<rparr>"
    using tr i by blast
  have "relatedHandler jsNumber relatedRequest =
      execute \<lparr>procedure = ''[functional].[spProductRelated]'',
        inputs = [(''idAccount'', Num 1), (''idProduct'', Num 3),
                  (''limit'',
                     if property (request.query relatedRequest) ''limit'' = Undefined then Num 4 else Num 4),
                  (''criteria'',
                     if property (request.query relatedRequest) ''criteria'' \<in> {Undefined, Str []}
                     then Str ''categoria'' else property (request.query relatedRequest) ''criteria'')]\<rparr>"
    using tr i ql qc by blast
  then have r: "relatedHandler jsNumber relatedRequest =
      execute \<lparr>procedure = ''[functional].[spProductRelated]'',
        inputs = [(''idAccount'', Num 1), (''idProduct'', Num 3), (''limit'', Num 4),
                  (''criteria'', Str ''sabor'')]\<rparr>"
    by (simp add: ql qc)
  have b: "positive_integer jsNumber (property (request.body cartRequest) ''idProduct'') 3"
    "positive_integer jsNumber (property (request.body cartRequest) ''idFlavor'') 1"
    "positive_integer jsNumber (property (request.body cartRequest) ''idSize'') 2"
    "property (request.body cartRequest) ''quantity'' = Num 4"
    "property (request.body cartRequest) ''observations'' = Null"
    by code_simp+
  have w: "of_int \<lfloor>4::rat\<rfloor> = (4::rat)" "(1::rat) \<le> 4" "(4::rat) \<le> 10"
    by simp_all
  have "addToCartHandler jsNumber cartRequest =
      execute \<lparr>procedure = ''[functional].[spCartItemAdd]'',
        inputs = [(''idAccount'', Num 1), (''idUser'', Num 1), (''idProduct'', Num 3),
                  (''idFlavor'', Num 1), (''idSize'', Num 2), (''quantity'', Num 4),
                  (''observations'',
                     if property (request.body cartRequest) ''observations'' = Str [] then Null
                     else property (request.body cartRequest) ''observations'')]\<rparr>"
    using tc b w by blast
  then have a: "addToCartHandler jsNumber cartRequest =
      execute \<lparr>procedure = ''[functional].[spCartItemAdd]'',
        inputs = [(''idAccount'', Num 1), (''idUser'', Num 1), (''idProduct'', Num 3),
                  (''idFlavor'', Num 1), (''idSize'', Num 2), (''quantity'', Num 4),
                  (''observations'', Null)]\<rparr>"
    by (simp add: b(5))
  have c: "passes_credential (addToCartHandler jsNumber cartRequest) ''[functional].[spCartItemAdd]''
          [''idAccount'', ''idUser'']"
    using tc by blast
  show ?thesis
    by (rule conjI[OF d conjI[OF e conjI[OF l conjI[OF i conjI[OF g conjI[OF r conjI[OF a c]]]]]]])
qed

section \<open>Isolation of accounts\<close>

lemma account_rows_simps [simp]:
  "category (account_rows A db) = filter (\<lambda>r. cat.idAccount r = A) (category db)"
  "flavor (account_rows A db) = filter (\<lambda>r. flv.idAccount r = A) (flavor db)"
  "size_tbl (account_rows A db) = filter (\<lambda>r. siz.idAccount r = A) (size_tbl db)"
  "confectioner (account_rows A db) = filter (\<lambda>r. cnf.idAccount r = A) (confectioner db)"
  "product (account_rows A db) = filter (\<lambda>r. prd.idAccount r = A) (product db)"
  "productFlavor (account_rows A db) = filter (\<lambda>r. prdFlv.idAccount r = A) (productFlavor db)"
  "productSize (account_rows A db) = filter (\<lambda>r. prdSiz.idAccount r = A) (productSize db)"
  "review (account_rows A db) = filter (\<lambda>r. rev.idAccount r = A) (review db)"
  "cart (account_rows A db) = filter (\<lambda>r. crt.idAccount r = A) (cart db)"
  "cartItem (account_rows A db) = filter (\<lambda>r. crtItm.idAccount r = A) (cartItem db)"
  by (simp_all add: account_rows_def)

lemma filter_sub:
  "(\<And>y. y \<in> set ys \<Longrightarrow> P y \<Longrightarrow> R y) \<Longrightarrow> filter P ys = filter P (filter R ys)"
  by (induction ys) auto

lemma filter_product_left:
  assumes "\<And>x y. x \<in> set xs \<Longrightarrow> P (x, y) \<Longrightarrow> Q x"
  shows "filter P (List.product xs ys) = filter P (List.product (filter Q xs) ys)"
  using assms
proof (induction xs)
  case Nil
  then show ?case by simp
next
  case (Cons x xs)
  have ih: "filter P (List.product xs ys) = filter P (List.product (filter Q xs) ys)"
    using Cons by simp
  show ?case
  proof (cases "Q x")
    case True
    then show ?thesis using ih by simp
  next
    case False
    then have "\<not> P (x, y)" for y
      using Cons.prems[of x y] by auto
    then have "filter P (map (Pair x) ys) = []"
      by (simp add: filter_empty_conv)
    then show ?thesis using ih False by simp
  qed
qed

lemma filter_product_right:
  assumes "\<And>x. x \<in> set xs \<Longrightarrow> filter (\<lambda>y. P (x, y)) ys = filter (\<lambda>y. P (x, y)) ys'"
  shows "filter P (List.product xs ys) = filter P (List.product xs ys')"
  using assms by (induction xs) (simp_all add: filter_map comp_def)

lemma filter_join:
  assumes "\<And>x y. x \<in> set xs \<Longrightarrow> y \<in> set ys \<Longrightarrow> P (x, y) \<Longrightarrow> Q x \<and> R y"
  shows "filter P (List.product xs ys) = filter P (List.product (filter Q xs) (filter R ys))"
proof -
  have "filter P (List.product xs ys) = filter P (List.product xs (filter R ys))"
    by (rule filter_product_right) (rule filter_sub, use assms in blast)
  also have "\<dots> = filter P (List.product (filter Q xs) (filter R ys))"
  proof -
    have "filter P (List.product xs (filter R ys))
        = filter (\<lambda>(x, y). y \<in> set ys \<and> P (x, y)) (List.product xs (filter R ys))"
      by (rule filter_cong) auto
    also have "\<dots> = filter (\<lambda>(x, y). y \<in> set ys \<and> P (x, y)) (List.product (filter Q xs) (filter R ys))"
      by (rule filter_product_left) (use assms in auto)
    also have "\<dots> = filter P (List.product (filter Q xs) (filter R ys))"
      by (rule filter_cong) auto
    finally show ?thesis .
  qed
  finally show ?thesis .
qed

lemma filter_join3:
  assumes "\<And>x y z. x \<in> set xs \<Longrightarrow> y \<in> set ys \<Longrightarrow> z \<in> set zs \<Longrightarrow> P (x, y, z) \<Longrightarrow> Q x \<and> R y \<and> S z"
  shows "filter P (List.product xs (List.product ys zs))
      = filter P (List.product (filter Q xs) (List.product (filter R ys) (filter S zs)))"
proof -
  have inner: "filter (\<lambda>yz. P (x, yz)) (List.product ys zs)
      = filter (\<lambda>yz. P (x, yz)) (List.product (filter R ys) (filter S zs))" if "x \<in> set xs" for x
    by (rule filter_join) (use assms that in auto)
  have "filter P (List.product xs (List.product ys zs))
      = filter P (List.product xs (List.product (filter R ys) (filter S zs)))"
    by (rule filter_product_right) (rule inner)
  also have "\<dots> = filter (\<lambda>(x, y, z). y \<in> set ys \<and> z \<in> set zs \<and> P (x, y, z))
        (List.product xs (List.product (filter R ys) (filter S zs)))"
    by (rule filter_cong) auto
  also have "\<dots> = filter (\<lambda>(x, y, z). y \<in> set ys \<and> z \<in> set zs \<and> P (x, y, z))
        (List.product (filter Q xs) (List.product (filter R ys) (filter S zs)))"
    by (rule filter_product_left) (use assms in auto)
  also have "\<dots> = filter P (List.product (filter Q xs) (List.product (filter R ys) (filter S zs)))"
    by (rule filter_cong) auto
  finally show ?thesis .
qed

lemma insort_key_cong_set:
  "\<forall>a \<in> set (x # ys). f a = g a \<Longrightarrow> insort_key f x ys = insort_key g x ys"
  by (induction ys) auto

lemma sort_key_cong_set:
  "\<forall>a \<in> set xs. f a = g a \<Longrightarrow> sort_key f xs = sort_key g xs"
proof (induction xs)
  case Nil
  then show ?case by simp
next
  case (Cons x xs)
  then have "sort_key f xs = sort_key g xs" by simp
  moreover have "insort_key f x (sort_key g xs) = insort_key g x (sort_key g xs)"
    by (rule insort_key_cong_set) (use Cons.prems in simp)
  ultimately show ?case by simp
qed

lemma bex_account:
  "(\<exists>r \<in> set (filter (\<lambda>r. acc r = A) xs). acc r = A \<and> R r) = (\<exists>r \<in> set xs. acc r = A \<and> R r)"
  by auto

lemma FilteredProducts_where_scope:
  "FilteredProducts_where eng A a cats cnfs flvs szs (account_rows A db) x
    = FilteredProducts_where eng A a cats cnfs flvs szs db x"
proof -
  obtain p c f where x: "x = (p, c, f)" by (cases x)
  show ?thesis
  proof (cases "prd.idAccount p = A")
    case False
    then show ?thesis
      by (simp add: FilteredProducts_where_def x)
  next
    case True
    have fl: "(\<exists>pf \<in> set (productFlavor (account_rows A db)). prdFlv.idAccount pf = prd.idAccount p
            \<and> prdFlv.idProduct pf = prd.idProduct p \<and> prdFlv.idFlavor pf \<in> set ids)
        = (\<exists>pf \<in> set (productFlavor db). prdFlv.idAccount pf = prd.idAccount p
            \<and> prdFlv.idProduct pf = prd.idProduct p \<and> prdFlv.idFlavor pf \<in> set ids)" for ids
      unfolding True account_rows_simps by (rule bex_account)
    have sz: "(\<exists>ps \<in> set (productSize (account_rows A db)). prdSiz.idAccount ps = prd.idAccount p
            \<and> prdSiz.idProduct ps = prd.idProduct p \<and> prdSiz.idSize ps \<in> set ids)
        = (\<exists>ps \<in> set (productSize db). prdSiz.idAccount ps = prd.idAccount p
            \<and> prdSiz.idProduct ps = prd.idProduct p \<and> prdSiz.idSize ps \<in> set ids)" for ids
      unfolding True account_rows_simps by (rule bex_account)
    show ?thesis
      unfolding FilteredProducts_where_def x prod.case fl sz ..
  qed
qed

lemma FilteredProducts_scope:
  "FilteredProducts eng A a cats cnfs flvs szs (account_rows A db)
    = FilteredProducts eng A a cats cnfs flvs szs db"
proof -
  let ?W = "FilteredProducts_where eng A a cats cnfs flvs szs db"
  have w: "FilteredProducts_where eng A a cats cnfs flvs szs (account_rows A db) = ?W"
    by (rule ext) (rule FilteredProducts_where_scope)
  have "filter ?W (List.product (product db) (List.product (category db) (confectioner db)))
      = filter ?W (List.product (filter (\<lambda>r. prd.idAccount r = A) (product db))
          (List.product (filter (\<lambda>r. cat.idAccount r = A) (category db))
             (filter (\<lambda>r. cnf.idAccount r = A) (confectioner db))))"
    by (rule filter_join3) (auto simp: FilteredProducts_where_def)
  then show ?thesis
    by (simp add: FilteredProducts_def w)
qed

lemma schema_rows_scope:
  "schema_rows (account_rows A db) ''FilteredProducts'' = schema_rows db ''FilteredProducts''"
  by (simp add: schema_rows_def)

lemma spProductList_scope:
  "spProductList eng (Some A) a (account_rows A db) = spProductList eng (Some A) a db"
  by (simp add: spProductList_def FilteredProducts_scope schema_rows_scope
      cong: option.case_cong sum.case_cong prod.case_cong)

lemma exists_product_scope:
  "(\<exists>p \<in> set (product (account_rows A db)). Some (prd.idProduct p) = pP \<and> Some (prd.idAccount p) = Some A \<and> R p)
    = (\<exists>p \<in> set (product db). Some (prd.idProduct p) = pP \<and> Some (prd.idAccount p) = Some A \<and> R p)"
  by auto

lemma spProductGet_validation_scope:
  "spProductGet_validation (Some A) pP (account_rows A db) = spProductGet_validation (Some A) pP db"
  unfolding spProductGet_validation_def exists_product_scope ..

lemma select_ProductDetails_scope:
  "select_ProductDetails A P (account_rows A db) = select_ProductDetails A P db"
proof -
  let ?W = "\<lambda>(p, c). cnf.idAccount c = prd.idAccount p \<and> cnf.idConfectioner c = prd.idConfectioner p
                 \<and> prd.idProduct p = P \<and> prd.idAccount p = A \<and> \<not> prd.deleted p \<and> \<not> cnf.deleted c"
  have "filter ?W (List.product (product db) (confectioner db))
      = filter ?W (List.product (filter (\<lambda>r. prd.idAccount r = A) (product db))
          (filter (\<lambda>r. cnf.idAccount r = A) (confectioner db)))"
    by (rule filter_join) auto
  then show ?thesis
    by (simp add: select_ProductDetails_def)
qed

lemma select_AvailableFlavors_scope:
  "select_AvailableFlavors eng A P (account_rows A db) = select_AvailableFlavors eng A P db"
proof -
  let ?W = "\<lambda>(pf, f). flv.idAccount f = prdFlv.idAccount pf \<and> flv.idFlavor f = prdFlv.idFlavor pf
                   \<and> prdFlv.idProduct pf = P \<and> prdFlv.idAccount pf = A \<and> \<not> flv.deleted f"
  have "filter ?W (List.product (productFlavor db) (flavor db))
      = filter ?W (List.product (filter (\<lambda>r. prdFlv.idAccount r = A) (productFlavor db))
          (filter (\<lambda>r. flv.idAccount r = A) (flavor db)))"
    by (rule filter_join) auto
  then show ?thesis
    by (simp add: select_AvailableFlavors_def)
qed

lemma select_AvailableSizes_scope:
  "select_AvailableSizes A P (account_rows A db) = select_AvailableSizes A P db"
proof -
  let ?W = "\<lambda>(ps, s). siz.idAccount s = prdSiz.idAccount ps \<and> siz.idSize s = prdSiz.idSize ps
                   \<and> prdSiz.idProduct ps = P \<and> prdSiz.idAccount ps = A \<and> \<not> siz.deleted s"
  have "filter ?W (List.product (productSize db) (size_tbl db))
      = filter ?W (List.product (filter (\<lambda>r. prdSiz.idAccount r = A) (productSize db))
          (filter (\<lambda>r. siz.idAccount r = A) (size_tbl db)))"
    by (rule filter_join) auto
  then show ?thesis
    by (simp add: select_AvailableSizes_def)
qed

lemma select_ProductReviews_scope:
  "select_ProductReviews A P (account_rows A db) = select_ProductReviews A P db"
proof -
  have "filter (\<lambda>r. rev.idProduct r = P \<and> rev.idAccount r = A \<and> \<not> rev.deleted r) (review db)
      = filter (\<lambda>r. rev.idProduct r = P \<and> rev.idAccount r = A \<and> \<not> rev.deleted r)
          (filter (\<lambda>r. rev.idAccount r = A) (review db))"
    by (rule filter_sub) simp
  then show ?thesis
    by (simp add: select_ProductReviews_def)
qed

lemma spProductGet_scope:
  "spProductGet eng (Some A) pP (account_rows A db) = spProductGet eng (Some A) pP db"
  by (simp add: spProductGet_def spProductGet_validation_scope select_ProductDetails_scope
      select_AvailableFlavors_scope select_AvailableSizes_scope select_ProductReviews_scope
      Let_def split: option.splits)

lemma spProductRelated_validation_scope:
  "spProductRelated_validation (Some A) pP criteria (account_rows A db)
    = spProductRelated_validation (Some A) pP criteria db"
proof -
  have "(\<exists>p \<in> set (product (account_rows A db)). Some (prd.idProduct p) = pP
            \<and> Some (prd.idAccount p) = Some A \<and> \<not> prd.deleted p)
      = (\<exists>p \<in> set (product db). Some (prd.idProduct p) = pP
            \<and> Some (prd.idAccount p) = Some A \<and> \<not> prd.deleted p)"
    by auto
  then show ?thesis
    unfolding spProductRelated_validation_def by simp
qed

lemma reference_product_scope:
  "reference_product A P (account_rows A db) = reference_product A P db"
proof -
  have "filter (\<lambda>p. prd.idProduct p = P \<and> prd.idAccount p = A) (product db)
      = filter (\<lambda>p. prd.idProduct p = P \<and> prd.idAccount p = A)
          (filter (\<lambda>r. prd.idAccount r = A) (product db))"
    by (rule filter_sub) simp
  then show ?thesis
    by (simp add: reference_product_def)
qed

lemma RelatedProducts_cte_scope:
  "RelatedProducts_cte A P (account_rows A db) = RelatedProducts_cte A P db"
proof -
  let ?W = "\<lambda>(p, c). cnf.idAccount c = prd.idAccount p \<and> cnf.idConfectioner c = prd.idConfectioner p
               \<and> prd.idAccount p = A \<and> prd.idProduct p \<noteq> P \<and> \<not> prd.deleted p \<and> prd.active p
               \<and> prd.available p \<and> \<not> cnf.deleted c"
  have "filter ?W (List.product (product db) (confectioner db))
      = filter ?W (List.product (filter (\<lambda>r. prd.idAccount r = A) (product db))
          (filter (\<lambda>r. cnf.idAccount r = A) (confectioner db)))"
    by (rule filter_join) auto
  then show ?thesis
    by (simp add: RelatedProducts_cte_def)
qed

lemma matchesCriteria_scope:
  assumes "prd.idAccount p = A"
  shows "matchesCriteria criteria A P ref (account_rows A db) p = matchesCriteria criteria A P ref db p"
proof -
  have "(\<exists>f1 \<in> set (productFlavor (account_rows A db)). prdFlv.idProduct f1 = P \<and> prdFlv.idAccount f1 = A \<and>
          (\<exists>f2 \<in> set (productFlavor (account_rows A db)). prdFlv.idProduct f2 = prd.idProduct p
              \<and> prdFlv.idAccount f2 = prd.idAccount p \<and> prdFlv.idFlavor f2 = prdFlv.idFlavor f1))
      = (\<exists>f1 \<in> set (productFlavor db). prdFlv.idProduct f1 = P \<and> prdFlv.idAccount f1 = A \<and>
          (\<exists>f2 \<in> set (productFlavor db). prdFlv.idProduct f2 = prd.idProduct p
              \<and> prdFlv.idAccount f2 = prd.idAccount p \<and> prdFlv.idFlavor f2 = prdFlv.idFlavor f1))"
    using assms by auto
  then show ?thesis
    unfolding matchesCriteria_def by (simp only:)
qed

lemma related_ranked_scope:
  "related_ranked A P limit criteria (account_rows A db) = related_ranked A P limit criteria db"
proof -
  let ?r = "reference_product A P db"
  have "sort_key (related_order (matchesCriteria criteria A P ?r (account_rows A db))) (RelatedProducts_cte A P db)
      = sort_key (related_order (matchesCriteria criteria A P ?r db)) (RelatedProducts_cte A P db)"
  proof (rule sort_key_cong_set, rule ballI)
    fix x assume x: "x \<in> set (RelatedProducts_cte A P db)"
    obtain p c where pc: "x = (p, c)" by (cases x)
    have "prd.idAccount p = A"
      using x by (simp add: pc RelatedProducts_cte_rows(2))
    then show "related_order (matchesCriteria criteria A P ?r (account_rows A db)) x
        = related_order (matchesCriteria criteria A P ?r db) x"
      by (simp add: pc related_order_def matchesCriteria_scope)
  qed
  then show ?thesis
    by (simp add: related_ranked_def reference_product_scope RelatedProducts_cte_scope)
qed

lemma spProductRelated_scope:
  "spProductRelated (Some A) pP limit criteria (account_rows A db)
    = spProductRelated (Some A) pP limit criteria db"
  by (simp add: spProductRelated_def spProductRelated_validation_scope related_ranked_scope
      split: option.splits)

lemma account_rows_eq_iff:
  "account_rows A d1 = account_rows A d2 \<longleftrightarrow>
    filter (\<lambda>r. cat.idAccount r = A) (category d1) = filter (\<lambda>r. cat.idAccount r = A) (category d2)
    \<and> filter (\<lambda>r. flv.idAccount r = A) (flavor d1) = filter (\<lambda>r. flv.idAccount r = A) (flavor d2)
    \<and> filter (\<lambda>r. siz.idAccount r = A) (size_tbl d1) = filter (\<lambda>r. siz.idAccount r = A) (size_tbl d2)
    \<and> filter (\<lambda>r. cnf.idAccount r = A) (confectioner d1) = filter (\<lambda>r. cnf.idAccount r = A) (confectioner d2)
    \<and> filter (\<lambda>r. prd.idAccount r = A) (product d1) = filter (\<lambda>r. prd.idAccount r = A) (product d2)
    \<and> filter (\<lambda>r. prdFlv.idAccount r = A) (productFlavor d1) = filter (\<lambda>r. prdFlv.idAccount r = A) (productFlavor d2)
    \<and> filter (\<lambda>r. prdSiz.idAccount r = A) (productSize d1) = filter (\<lambda>r. prdSiz.idAccount r = A) (productSize d2)
    \<and> filter (\<lambda>r. rev.idAccount r = A) (review d1) = filter (\<lambda>r. rev.idAccount r = A) (review d2)
    \<and> filter (\<lambda>r. crt.idAccount r = A) (cart d1) = filter (\<lambda>r. crt.idAccount r = A) (cart d2)
    \<and> filter (\<lambda>r. crtItm.idAccount r = A) (cartItem d1) = filter (\<lambda>r. crtItm.idAccount r = A) (cartItem d2)"
  by (simp add: account_rows_def)

lemma account_rows_idem: "account_rows A (account_rows A db) = account_rows A db"
  by (simp add: account_rows_eq_iff)

lemma spCartItemAdd_validation_scope:
  "spCartItemAdd_validation (Some A) pU pP pF pS pQ (account_rows A db)
    = spCartItemAdd_validation (Some A) pU pP pF pS pQ db"
proof -
  have 1: "(\<exists>p \<in> set (product (account_rows A db)).
         Some (prd.idProduct p) = pP \<and> Some (prd.idAccount p) = Some A
         \<and> \<not> prd.deleted p \<and> prd.active p \<and> prd.available p)
      = (\<exists>p \<in> set (product db).
         Some (prd.idProduct p) = pP \<and> Some (prd.idAccount p) = Some A
         \<and> \<not> prd.deleted p \<and> prd.active p \<and> prd.available p)"
    by auto
  have 2: "(\<exists>pf \<in> set (productFlavor (account_rows A db)).
         Some (prdFlv.idProduct pf) = pP \<and> Some (prdFlv.idAccount pf) = Some A
         \<and> Some (prdFlv.idFlavor pf) = pF)
      = (\<exists>pf \<in> set (productFlavor db).
         Some (prdFlv.idProduct pf) = pP \<and> Some (prdFlv.idAccount pf) = Some A
         \<and> Some (prdFlv.idFlavor pf) = pF)"
    by auto
  have 3: "(\<exists>ps \<in> set (productSize (account_rows A db)).
         Some (prdSiz.idProduct ps) = pP \<and> Some (prdSiz.idAccount ps) = Some A
         \<and> Some (prdSiz.idSize ps) = pS)
      = (\<exists>ps \<in> set (productSize db).
         Some (prdSiz.idProduct ps) = pP \<and> Some (prdSiz.idAccount ps) = Some A
         \<and> Some (prdSiz.idSize ps) = pS)"
    by auto
  show ?thesis
    unfolding spCartItemAdd_validation_def 1 2 3 ..
qed

lemma user_carts_scope:
  "filter (\<lambda>c. crt.idAccount c = A \<and> crt.idUser c = U) (cart db)
    = filter (\<lambda>c. crt.idAccount c = A \<and> crt.idUser c = U) (filter (\<lambda>r. crt.idAccount r = A) (cart db))"
  by (rule filter_sub) simp

lemma ensure_cart_agree:
  assumes "agree_on A d1 d2"
  shows "fst (ensure_cart A U now d1) = fst (ensure_cart A U now d2)"
    and "agree_on A (snd (ensure_cart A U now d1)) (snd (ensure_cart A U now d2))"
proof -
  have c: "filter (\<lambda>r. crt.idAccount r = A) (cart d1) = filter (\<lambda>r. crt.idAccount r = A) (cart d2)"
    and n: "cartIdentity d1 = cartIdentity d2"
    using assms by (simp_all add: agree_on_def account_rows_eq_iff)
  have u: "filter (\<lambda>c. crt.idAccount c = A \<and> crt.idUser c = U) (cart d1)
      = filter (\<lambda>c. crt.idAccount c = A \<and> crt.idUser c = U) (cart d2)"
    by (subst (1 2) user_carts_scope) (simp only: c)
  show "fst (ensure_cart A U now d1) = fst (ensure_cart A U now d2)"
    by (simp add: ensure_cart_def u n split: option.splits)
  show "agree_on A (snd (ensure_cart A U now d1)) (snd (ensure_cart A U now d2))"
    using assms
    by (simp add: ensure_cart_def u n agree_on_def account_rows_eq_iff split: option.splits)
qed

lemma unitPrice_rows_scope:
  assumes "size_of_account A (Some S) db"
  shows "unitPrice_rows A P S (account_rows A db) = unitPrice_rows A P S db"
proof -
  let ?W = "\<lambda>(p, s). siz.idSize s = S \<and> prd.idProduct p = P \<and> prd.idAccount p = A"
  have "filter ?W (List.product (product db) (size_tbl db))
      = filter ?W (List.product (filter (\<lambda>r. prd.idAccount r = A) (product db))
          (filter (\<lambda>r. siz.idAccount r = A) (size_tbl db)))"
    by (rule filter_join) (use assms in \<open>auto simp: size_of_account_def\<close>)
  then show ?thesis
    by (simp add: unitPrice_rows_def)
qed

lemma calc_unitPrice_agree:
  assumes "agree_on A d1 d2" and "size_of_account A (Some S) d1" and "size_of_account A (Some S) d2"
  shows "calc_unitPrice A P S d1 = calc_unitPrice A P S d2"
proof -
  have "account_rows A d1 = account_rows A d2"
    using assms(1) by (simp add: agree_on_def)
  then have "unitPrice_rows A P S d1 = unitPrice_rows A P S d2"
    using unitPrice_rows_scope[OF assms(2)] unitPrice_rows_scope[OF assms(3)] by metis
  then show ?thesis
    by (simp add: calc_unitPrice_def)
qed

lemma find_cartItem_agree:
  assumes "agree_on A d1 d2"
  shows "find_cartItem A C P F S d1 = find_cartItem A C P F S d2"
proof -
  let ?W = "\<lambda>i. crtItm.idCart i = C \<and> crtItm.idAccount i = A \<and> crtItm.idProduct i = P
                  \<and> crtItm.idFlavor i = F \<and> crtItm.idSize i = S"
  have s: "filter ?W (cartItem d) = filter ?W (filter (\<lambda>r. crtItm.idAccount r = A) (cartItem d))" for d
    by (rule filter_sub) simp
  have "filter (\<lambda>r. crtItm.idAccount r = A) (cartItem d1) = filter (\<lambda>r. crtItm.idAccount r = A) (cartItem d2)"
    using assms by (simp add: agree_on_def account_rows_eq_iff)
  then have "filter ?W (cartItem d1) = filter ?W (cartItem d2)"
    by (subst (1 2) s) simp
  then show ?thesis
    by (simp add: find_cartItem_def)
qed

lemma update_cartItem_eq:
  "update_cartItem I n u obs d =
    (case times_quantity u n of
      Inl e \<Rightarrow> Inl e
    | Inr None \<Rightarrow> Inl (NotNullViolation ''totalPrice'')
    | Inr (Some t) \<Rightarrow>
        if \<not> chkCartItem_Quantity n then Inl (CheckViolation ''chkCartItem_Quantity'')
        else Inr (d\<lparr>cartItem := map (merged_item I n t obs) (cartItem d)\<rparr>))"
  unfolding update_cartItem_def merged_item_def[abs_def] ..

lemma merged_item_account [simp]:
  "crtItm.idAccount (merged_item I n t obs i) = crtItm.idAccount i"
  by (simp add: merged_item_def)

lemma filter_account_merged:
  "filter (\<lambda>r. crtItm.idAccount r = A) (map (merged_item I n t obs) xs)
    = map (merged_item I n t obs) (filter (\<lambda>r. crtItm.idAccount r = A) xs)"
  by (simp add: filter_map comp_def)

lemma touch_account:
  "filter (\<lambda>r. crt.idAccount r = A)
      (map (\<lambda>c. if crt.idCart c = C then c\<lparr>crt.dateModified := now\<rparr> else c) xs)
    = map (\<lambda>c. if crt.idCart c = C then c\<lparr>crt.dateModified := now\<rparr> else c)
        (filter (\<lambda>r. crt.idAccount r = A) xs)"
  by (induction xs) simp_all

lemma touch_cart_agree:
  "agree_on A d1 d2 \<Longrightarrow> agree_on A (touch_cart C now d1) (touch_cart C now d2)"
  by (simp add: agree_on_def account_rows_eq_iff touch_cart_def touch_account)

lemma update_cartItem_agree:
  assumes "agree_on A d1 d2"
  shows "(\<exists>e. update_cartItem I n u obs d1 = Inl e \<and> update_cartItem I n u obs d2 = Inl e)
    \<or> (\<exists>x1 x2. update_cartItem I n u obs d1 = Inr x1 \<and> update_cartItem I n u obs d2 = Inr x2
          \<and> agree_on A x1 x2)"
proof (cases "times_quantity u n")
  case (Inl e)
  then show ?thesis by (simp add: update_cartItem_eq)
next
  case (Inr t)
  show ?thesis
  proof (cases t)
    case None
    then show ?thesis using Inr by (simp add: update_cartItem_eq)
  next
    case (Some v)
    show ?thesis
    proof (cases "chkCartItem_Quantity n")
      case False
      then show ?thesis using Inr Some by (simp add: update_cartItem_eq)
    next
      case True
      have "agree_on A (d1\<lparr>cartItem := map (merged_item I n v obs) (cartItem d1)\<rparr>)
          (d2\<lparr>cartItem := map (merged_item I n v obs) (cartItem d2)\<rparr>)"
        using assms by (simp add: agree_on_def account_rows_eq_iff filter_account_merged)
      then show ?thesis using Inr Some True by (simp add: update_cartItem_eq)
    qed
  qed
qed

lemma insert_cartItem_agree:
  assumes "agree_on A d1 d2"
    and "\<exists>f \<in> set (flavor d1). flv.idFlavor f = F" and "\<exists>f \<in> set (flavor d2). flv.idFlavor f = F"
  shows "(\<exists>e. insert_cartItem A C P F S q u t obs now d1 = Inl e
          \<and> insert_cartItem A C P F S q u t obs now d2 = Inl e)
    \<or> (\<exists>I x1 x2. insert_cartItem A C P F S q u t obs now d1 = Inr (I, x1)
          \<and> insert_cartItem A C P F S q u t obs now d2 = Inr (I, x2) \<and> agree_on A x1 x2)"
proof (cases "u = None \<or> t = None \<or> \<not> chkCartItem_Quantity q")
  case True
  then show ?thesis
    by (auto simp: insert_cartItem_def split: option.splits)
next
  case False
  then obtain uv tv where ut: "u = Some uv" "t = Some tv" and chk: "chkCartItem_Quantity q"
    by auto
  have n: "cartItemIdentity d1 = cartItemIdentity d2"
    using assms(1) by (simp add: agree_on_def)
  have "agree_on A
      (d1\<lparr>cartItem := cartItem d1 @
               [\<lparr>crtItm.idCartItem = cartItemIdentity d1 + 1, crtItm.idAccount = A,
                 crtItm.idCart = C, crtItm.idProduct = P, crtItm.idFlavor = F,
                 crtItm.idSize = S, crtItm.quantity = q, crtItm.unitPrice = uv,
                 crtItm.totalPrice = tv, crtItm.observations = obs,
                 crtItm.dateCreated = now\<rparr>],
             cartItemIdentity := cartItemIdentity d1 + 1\<rparr>)
      (d2\<lparr>cartItem := cartItem d2 @
               [\<lparr>crtItm.idCartItem = cartItemIdentity d2 + 1, crtItm.idAccount = A,
                 crtItm.idCart = C, crtItm.idProduct = P, crtItm.idFlavor = F,
                 crtItm.idSize = S, crtItm.quantity = q, crtItm.unitPrice = uv,
                 crtItm.totalPrice = tv, crtItm.observations = obs,
                 crtItm.dateCreated = now\<rparr>],
             cartItemIdentity := cartItemIdentity d2 + 1\<rparr>)"
    using assms(1) by (simp add: agree_on_def account_rows_eq_iff)
  then show ?thesis
    using assms(2,3) ut chk n by (simp add: insert_cartItem_def)
qed

lemma ensure_cart_flavor:
  "flavor (snd (ensure_cart A U now d)) = flavor d"
  by (cases "ensure_cart A U now d") (simp add: ensure_cart_frame(4))

lemma cart_transaction_agree:
  assumes ag: "agree_on A d1 d2"
    and s1: "size_of_account A (Some S) d1" and s2: "size_of_account A (Some S) d2"
    and f1: "\<exists>f \<in> set (flavor d1). flv.idFlavor f = F"
    and f2: "\<exists>f \<in> set (flavor d2). flv.idFlavor f = F"
  shows "fst (cart_transaction A U P F S q obs now d1) = fst (cart_transaction A U P F S q obs now d2)
    \<and> agree_on A (snd (cart_transaction A U P F S q obs now d1))
        (snd (cart_transaction A U P F S q obs now d2))"
proof -
  obtain C e1 where e1: "ensure_cart A U now d1 = (C, e1)"
    by (cases "ensure_cart A U now d1")
  obtain C' e2 where e2': "ensure_cart A U now d2 = (C', e2)"
    by (cases "ensure_cart A U now d2")
  have "C' = C" and ae: "agree_on A e1 e2"
    using ensure_cart_agree[OF ag, of U now] e1 e2' by simp_all
  then have e2: "ensure_cart A U now d2 = (C, e2)"
    using e2' by simp
  have fe1: "\<exists>f \<in> set (flavor e1). flv.idFlavor f = F"
    using f1 ensure_cart_frame(4)[OF e1] by simp
  have fe2: "\<exists>f \<in> set (flavor e2). flv.idFlavor f = F"
    using f2 ensure_cart_frame(4)[OF e2] by simp
  have c: "calc_unitPrice A P S d2 = calc_unitPrice A P S d1"
    using calc_unitPrice_agree[OF ag s1 s2] by simp
  have f: "find_cartItem A C P F S d2 = find_cartItem A C P F S d1"
    using find_cartItem_agree[OF ag] by simp
  note u1 = cart_transaction_unfold[OF e1, of P F S q obs]
  note u2 = cart_transaction_unfold[OF e2, of P F S q obs, unfolded c f]
  show ?thesis
  proof (cases "calc_unitPrice A P S d1")
    case (Inl e)
    then show ?thesis using ae by (simp add: u1 u2)
  next
    case (Inr u)
    note cu = Inr
    show ?thesis
    proof (cases "times_quantity u q")
      case (Inl e)
      then show ?thesis using ae cu by (simp add: u1 u2)
    next
      case (Inr t)
      note tq = Inr
      show ?thesis
      proof (cases "find_cartItem A C P F S d1")
        case None
        from insert_cartItem_agree[OF ae fe1 fe2, of C P S q u t obs now]
        show ?thesis
        proof (elim disjE exE conjE)
          fix e assume "insert_cartItem A C P F S q u t obs now e1 = Inl e"
            "insert_cartItem A C P F S q u t obs now e2 = Inl e"
          then show ?thesis using ae cu tq None by (simp add: u1 u2)
        next
          fix I x1 x2 assume "insert_cartItem A C P F S q u t obs now e1 = Inr (I, x1)"
            "insert_cartItem A C P F S q u t obs now e2 = Inr (I, x2)" "agree_on A x1 x2"
          then show ?thesis using cu tq None touch_cart_agree[of A x1 x2 C now]
            by (simp add: u1 u2)
        qed
      next
        case (Some a)
        obtain I n where a: "a = (I, n)" by (cases a)
        show ?thesis
        proof (cases "n + q > 10")
          case True
          then show ?thesis using ae cu tq Some a by (simp add: u1 u2)
        next
          case False
          from update_cartItem_agree[OF ae, of I "n + q" u obs]
          show ?thesis
          proof (elim disjE exE conjE)
            fix e assume "update_cartItem I (n + q) u obs e1 = Inl e"
              "update_cartItem I (n + q) u obs e2 = Inl e"
            then show ?thesis using ae cu tq Some a False by (simp add: u1 u2)
          next
            fix x1 x2 assume "update_cartItem I (n + q) u obs e1 = Inr x1"
              "update_cartItem I (n + q) u obs e2 = Inr x2" "agree_on A x1 x2"
            then show ?thesis using cu tq Some a False touch_cart_agree[of A x1 x2 C now]
              by (simp add: u1 u2)
          qed
        qed
      qed
    qed
  qed
qed

lemma rollback_agree:
  assumes "agree_on A d1 d2" and "agree_on A x1 x2"
  shows "agree_on A (rollback d1 x1) (rollback d2 x2)"
  using assms by (simp add: agree_on_def rollback_def account_rows_eq_iff)

lemma validation_flavor:
  assumes "spCartItemAdd_validation pA pU pP (Some F) pS pQ db = None" and "fkProductFlavor_Flavor db"
  shows "\<exists>f \<in> set (flavor db). flv.idFlavor f = F"
proof -
  obtain pf where "pf \<in> set (productFlavor db)" "prdFlv.idFlavor pf = F"
    using assms(1) by (auto simp: spCartItemAdd_validation_def split: if_splits)
  then show ?thesis
    using assms(2) by (auto simp: fkProductFlavor_Flavor_def)
qed

lemma spCartItemAdd_agree:
  assumes ag: "agree_on A d1 d2"
    and s1: "size_of_account A pS d1" and s2: "size_of_account A pS d2"
    and k1: "fkProductFlavor_Flavor d1" and k2: "fkProductFlavor_Flavor d2"
  shows "fst (spCartItemAdd (Some A) pU pP pF pS pQ obs now d1)
        = fst (spCartItemAdd (Some A) pU pP pF pS pQ obs now d2)
    \<and> agree_on A (snd (spCartItemAdd (Some A) pU pP pF pS pQ obs now d1))
        (snd (spCartItemAdd (Some A) pU pP pF pS pQ obs now d2))"
proof -
  have "account_rows A d1 = account_rows A d2"
    using ag by (simp add: agree_on_def)
  then have v: "spCartItemAdd_validation (Some A) pU pP pF pS pQ d2
      = spCartItemAdd_validation (Some A) pU pP pF pS pQ d1"
    using spCartItemAdd_validation_scope[of A pU pP pF pS pQ d1]
      spCartItemAdd_validation_scope[of A pU pP pF pS pQ d2] by simp
  show ?thesis
  proof (cases "spCartItemAdd_validation (Some A) pU pP pF pS pQ d1")
    case (Some e)
    then show ?thesis using ag v by (simp add: spCartItemAdd_def)
  next
    case None
    then have "pF \<noteq> None" "pS \<noteq> None"
      by (auto simp: spCartItemAdd_validation_def split: if_splits)
    then obtain F S where p: "pF = Some F" "pS = Some S"
      by auto
    have f1: "\<exists>f \<in> set (flavor d1). flv.idFlavor f = F"
      using validation_flavor[OF None[unfolded p(1)] k1] .
    have f2: "\<exists>f \<in> set (flavor d2). flv.idFlavor f = F"
      using validation_flavor[OF None[folded v, unfolded p(1)] k2] .
    let ?t1 = "cart_transaction A (the pU) (the pP) F S (the pQ) obs now d1"
    let ?t2 = "cart_transaction A (the pU) (the pP) F S (the pQ) obs now d2"
    from cart_transaction_agree[OF ag s1[unfolded p] s2[unfolded p] f1 f2, of "the pU" "the pP" "the pQ" obs now]
    have ft: "fst ?t1 = fst ?t2" and st: "agree_on A (snd ?t1) (snd ?t2)"
      by simp_all
    obtain r1 x1 where t1: "?t1 = (r1, x1)" by (cases ?t1)
    obtain r2 x2 where t2: "?t2 = (r2, x2)" by (cases ?t2)
    have r: "r2 = r1" and x: "agree_on A x1 x2"
      using ft st t1 t2 by simp_all
    show ?thesis
    proof (cases r1)
      case (Inl e)
      then show ?thesis
        using None v p t1 t2 r rollback_agree[OF ag x]
        by (simp add: spCartItemAdd_def)
    next
      case (Inr res)
      then show ?thesis
        using None v p t1 t2 r x
        by (simp add: spCartItemAdd_def)
    qed
  qed
qed

lemma filter_map_unchanged:
  assumes "\<And>x. x \<in> set xs \<Longrightarrow> Q (f x) = Q x" and "\<And>x. x \<in> set xs \<Longrightarrow> Q x \<Longrightarrow> f x = x"
  shows "filter Q (map f xs) = filter Q xs"
  using assms by (induction xs) auto

lemma distinct_key_unique:
  assumes "distinct (map k xs)" and "x \<in> set xs" and "y \<in> set xs" and "k x = k y"
  shows "x = y"
  using assms by (meson distinct_map inj_onD)

lemma ensure_cart_owner:
  assumes e: "ensure_cart A U now d = (C, e1)" and keys: "identity_keys d"
  shows "\<forall>c \<in> set (cart e1). crt.idCart c = C \<longrightarrow> crt.idAccount c = A"
proof (cases "filter (\<lambda>c. crt.idAccount c = A \<and> crt.idUser c = U) (cart d) = []")
  case True
  then have "C = cartIdentity d + 1" and "cart e1 = cart d @
              [\<lparr>crt.idCart = cartIdentity d + 1, crt.idAccount = A, crt.idUser = U,
                crt.dateCreated = now, crt.dateModified = now\<rparr>]"
    using e by (auto simp: ensure_cart_def select_into_def)
  moreover have "\<forall>c \<in> set (cart d). crt.idCart c \<noteq> cartIdentity d + 1"
    using keys by (fastforce simp: identity_keys_def)
  ultimately show ?thesis by auto
next
  case False
  let ?xs = "filter (\<lambda>c. crt.idAccount c = A \<and> crt.idUser c = U) (cart d)"
  have l: "last ?xs \<in> set ?xs" using False by (rule last_in_set)
  have C: "C = crt.idCart (last ?xs)" and d: "e1 = d"
    using e False by (auto simp: ensure_cart_def select_into_def last_map)
  have own: "last ?xs \<in> set (cart d)" "crt.idAccount (last ?xs) = A"
    using l by auto
  show ?thesis
  proof (intro ballI impI)
    fix c assume "c \<in> set (cart e1)" "crt.idCart c = C"
    then have "c = last ?xs"
      using distinct_key_unique[of crt.idCart "cart d" c "last ?xs"] keys own(1) C d
      by (simp add: identity_keys_def)
    then show "crt.idAccount c = A" using own(2) by simp
  qed
qed

lemma touch_cart_others:
  assumes "\<forall>c \<in> set (cart d). crt.idCart c = C \<longrightarrow> crt.idAccount c = A" and "B \<noteq> A"
  shows "filter (\<lambda>r. crt.idAccount r = B) (cart (touch_cart C now d))
      = filter (\<lambda>r. crt.idAccount r = B) (cart d)"
  unfolding touch_cart_def using assms
  by (simp, intro filter_map_unchanged) auto

lemma ensure_cart_others:
  assumes "ensure_cart A U now d = (C, e1)" and "B \<noteq> A"
  shows "filter (\<lambda>r. crt.idAccount r = B) (cart e1) = filter (\<lambda>r. crt.idAccount r = B) (cart d)"
  using assms by (auto simp: ensure_cart_def split: option.splits)

lemma merged_others:
  assumes f: "find_cartItem A C P F S d = Some (I, n)" and keys: "identity_keys d" and "B \<noteq> A"
  shows "filter (\<lambda>r. crtItm.idAccount r = B) (map (merged_item I m t obs) (cartItem d))
      = filter (\<lambda>r. crtItm.idAccount r = B) (cartItem d)"
proof (rule filter_map_unchanged)
  fix x assume "x \<in> set (cartItem d)"
  show "(crtItm.idAccount (merged_item I m t obs x) = B) = (crtItm.idAccount x = B)"
    by simp
next
  fix x assume x: "x \<in> set (cartItem d)" "crtItm.idAccount x = B"
  obtain i where i: "i \<in> set (cartItem d)" "crtItm.idCartItem i = I" "crtItm.idAccount i = A"
    using find_cartItem_Some[OF f] by blast
  have "crtItm.idCartItem x \<noteq> I"
  proof
    assume "crtItm.idCartItem x = I"
    then have "x = i"
      using distinct_key_unique[of crtItm.idCartItem "cartItem d" x i] keys x(1) i(1,2)
      by (simp add: identity_keys_def)
    then show False using x(2) i(3) assms(3) by simp
  qed
  then show "merged_item I m t obs x = x"
    by (simp add: merged_item_def)
qed

lemma cart_transaction_catalog:
  assumes "cart_transaction A U P F S q obs now d = (r, d')"
  shows "category d' = category d \<and> flavor d' = flavor d \<and> size_tbl d' = size_tbl d
    \<and> confectioner d' = confectioner d \<and> product d' = product d
    \<and> productFlavor d' = productFlavor d \<and> productSize d' = productSize d \<and> review d' = review d"
proof -
  obtain C e1 where e: "ensure_cart A U now d = (C, e1)"
    by (cases "ensure_cart A U now d")
  note fr = ensure_cart_frame[OF e]
  have base: "category e1 = category d \<and> flavor e1 = flavor d \<and> size_tbl e1 = size_tbl d
    \<and> confectioner e1 = confectioner d \<and> product e1 = product d
    \<and> productFlavor e1 = productFlavor d \<and> productSize e1 = productSize d \<and> review e1 = review d"
    by (simp add: fr)
  have up: "category (touch_cart C now x) = category e1 \<and> flavor (touch_cart C now x) = flavor e1
      \<and> size_tbl (touch_cart C now x) = size_tbl e1
      \<and> confectioner (touch_cart C now x) = confectioner e1 \<and> product (touch_cart C now x) = product e1
      \<and> productFlavor (touch_cart C now x) = productFlavor e1
      \<and> productSize (touch_cart C now x) = productSize e1 \<and> review (touch_cart C now x) = review e1"
    if "update_cartItem I n u obs e1 = Inr x" for I n u x
    using update_cartItem_Inr[OF that] by (auto simp: touch_cart_def)
  have ins: "category (touch_cart C now x) = category e1 \<and> flavor (touch_cart C now x) = flavor e1
      \<and> size_tbl (touch_cart C now x) = size_tbl e1
      \<and> confectioner (touch_cart C now x) = confectioner e1 \<and> product (touch_cart C now x) = product e1
      \<and> productFlavor (touch_cart C now x) = productFlavor e1
      \<and> productSize (touch_cart C now x) = productSize e1 \<and> review (touch_cart C now x) = review e1"
    if "insert_cartItem A C P F S q u t obs now e1 = Inr (I, x)" for I u t x
    using insert_cartItem_Inr[OF that] by (auto simp: touch_cart_def)
  have "d' = e1 \<or> (\<exists>I n u x. update_cartItem I n u obs e1 = Inr x \<and> d' = touch_cart C now x)
      \<or> (\<exists>I u t x. insert_cartItem A C P F S q u t obs now e1 = Inr (I, x) \<and> d' = touch_cart C now x)"
    using assms unfolding cart_transaction_unfold[OF e]
    by (simp split: sum.splits option.splits prod.splits if_splits) blast+
  then show ?thesis
    using base up ins by (elim disjE exE conjE) simp_all
qed

lemma spCartItemAdd_catalog:
  assumes "spCartItemAdd pA pU pP pF pS pQ obs now d = (res, d')"
  shows "category d' = category d \<and> flavor d' = flavor d \<and> size_tbl d' = size_tbl d
    \<and> confectioner d' = confectioner d \<and> product d' = product d
    \<and> productFlavor d' = productFlavor d \<and> productSize d' = productSize d \<and> review d' = review d"
proof (cases "spCartItemAdd_validation pA pU pP pF pS pQ d")
  case (Some e)
  then show ?thesis using assms by (auto simp: spCartItemAdd_def)
next
  case None
  obtain r x where t: "cart_transaction (the pA) (the pU) (the pP) (the pF) (the pS) (the pQ) obs now d = (r, x)"
    by (cases "cart_transaction (the pA) (the pU) (the pP) (the pF) (the pS) (the pQ) obs now d")
  show ?thesis
  proof (cases r)
    case (Inl e)
    then have "d' = rollback d x"
      using assms None t by (simp add: spCartItemAdd_def)
    then show ?thesis by (simp add: rollback_def)
  next
    case (Inr v)
    then have "d' = x"
      using assms None t by (simp add: spCartItemAdd_def)
    then show ?thesis using cart_transaction_catalog[OF t] by simp
  qed
qed

lemma spCartItemAdd_others:
  assumes run: "spCartItemAdd (Some A) pU pP pF pS pQ obs now d = (res, d')"
    and keys: "identity_keys d" and ba: "B \<noteq> A"
  shows "account_rows B d' = account_rows B d"
proof -
  note cat = spCartItemAdd_catalog[OF run]
  have carts: "filter (\<lambda>r. crt.idAccount r = B) (cart d') = filter (\<lambda>r. crt.idAccount r = B) (cart d)
      \<and> filter (\<lambda>r. crtItm.idAccount r = B) (cartItem d') = filter (\<lambda>r. crtItm.idAccount r = B) (cartItem d)"
  proof (cases res)
    case (Inl e)
    then have "cart d' = cart d" "cartItem d' = cartItem d"
      using spCartItemAdd_error_tables[OF run[unfolded Inl]]
      by (metis database.select_convs(9) database.surjective database.update_convs(11,12),
          metis database.select_convs(10) database.surjective database.update_convs(11,12))
    then show ?thesis by simp
  next
    case (Inr r)
    from spCartItemAdd_success_valid[OF run[unfolded Inr]] obtain U P F S q where
      t: "cart_transaction A U P F S q obs now d = (Inr r, d')"
      by auto
    obtain C e1 where e: "ensure_cart A U now d = (C, e1)"
      by (cases "ensure_cart A U now d")
    from cart_transaction_success[OF t e] obtain u where
      c: "cart d' = cart (touch_cart C now e1)"
      and i: "(case find_cartItem A C P F S d of
            Some (I, existing) \<Rightarrow> existing + q \<le> 10
              \<and> cartItem d' = map (merged_item I (existing + q) (u * (existing + q)) obs) (cartItem d)
              \<and> cartItemIdentity d' = cartItemIdentity d
          | None \<Rightarrow> cartItem d' = cartItem d @
               [\<lparr>crtItm.idCartItem = cartItemIdentity d + 1, crtItm.idAccount = A,
                 crtItm.idCart = C, crtItm.idProduct = P, crtItm.idFlavor = F,
                 crtItm.idSize = S, crtItm.quantity = q, crtItm.unitPrice = u,
                 crtItm.totalPrice = u * q, crtItm.observations = obs,
                 crtItm.dateCreated = now\<rparr>]
              \<and> cartItemIdentity d' = cartItemIdentity d + 1)"
      by blast
    have c': "filter (\<lambda>r. crt.idAccount r = B) (cart d') = filter (\<lambda>r. crt.idAccount r = B) (cart d)"
      unfolding c
      using touch_cart_others[OF ensure_cart_owner[OF e keys] ba, of now] ensure_cart_others[OF e ba]
      by simp
    have i': "filter (\<lambda>r. crtItm.idAccount r = B) (cartItem d') = filter (\<lambda>r. crtItm.idAccount r = B) (cartItem d)"
    proof (cases "find_cartItem A C P F S d")
      case None
      then show ?thesis using i ba by simp
    next
      case (Some a)
      obtain I n where a: "a = (I, n)" by (cases a)
      show ?thesis
        using i merged_others[OF Some[unfolded a] keys ba] by (simp add: Some a)
    qed
    show ?thesis using c' i' by simp
  qed
  show ?thesis
    using cat carts by (simp add: account_rows_def)
qed

text \<open>
  Claim C6, amended. Let two databases agree on the rows of account \<open>A\<close>. A call of
  \<open>spProductList\<close>, \<open>spProductGet\<close> or \<open>spProductRelated\<close> with account \<open>A\<close> gives on each what
  it gives on the rows of account \<open>A\<close> alone, hence the same on both. A call of
  \<open>spCartItemAdd\<close> with account \<open>A\<close> on a database that keeps its primary keys leaves the rows
  of every other account as they were. When the two databases also agree on the identity
  counters, keep the flavor foreign key, and hold the size of the call as a row of
  account \<open>A\<close>, the call returns the same on both and leaves them agreeing on the rows of
  account \<open>A\<close> and on the counters.
\<close>

theorem account_isolation:
  assumes "account_rows A db1 = account_rows A db2"
  shows "spProductList eng (Some A) a db1 = spProductList eng (Some A) a (account_rows A db1)
    \<and> spProductList eng (Some A) a db1 = spProductList eng (Some A) a db2
    \<and> spProductGet eng (Some A) pP db1 = spProductGet eng (Some A) pP (account_rows A db1)
    \<and> spProductGet eng (Some A) pP db1 = spProductGet eng (Some A) pP db2
    \<and> spProductRelated (Some A) pP limit criteria db1
        = spProductRelated (Some A) pP limit criteria (account_rows A db1)
    \<and> spProductRelated (Some A) pP limit criteria db1 = spProductRelated (Some A) pP limit criteria db2
    \<and> (identity_keys db1 \<longrightarrow>
        (\<forall>B. B \<noteq> A \<longrightarrow>
          account_rows B (snd (spCartItemAdd (Some A) pU pP pF pS pQ obs now db1)) = account_rows B db1))
    \<and> (cartIdentity db1 = cartIdentity db2 \<and> cartItemIdentity db1 = cartItemIdentity db2
        \<and> fkProductFlavor_Flavor db1 \<and> fkProductFlavor_Flavor db2
        \<and> size_of_account A pS db1 \<and> size_of_account A pS db2 \<longrightarrow>
        fst (spCartItemAdd (Some A) pU pP pF pS pQ obs now db1)
          = fst (spCartItemAdd (Some A) pU pP pF pS pQ obs now db2)
        \<and> agree_on A (snd (spCartItemAdd (Some A) pU pP pF pS pQ obs now db1))
            (snd (spCartItemAdd (Some A) pU pP pF pS pQ obs now db2)))"
proof -
  have l1: "spProductList eng (Some A) a db1 = spProductList eng (Some A) a (account_rows A db1)"
    by (rule spProductList_scope[symmetric])
  have l2: "spProductList eng (Some A) a db1 = spProductList eng (Some A) a db2"
    using spProductList_scope[of eng A a db1] spProductList_scope[of eng A a db2] assms by simp
  have g1: "spProductGet eng (Some A) pP db1 = spProductGet eng (Some A) pP (account_rows A db1)"
    by (rule spProductGet_scope[symmetric])
  have g2: "spProductGet eng (Some A) pP db1 = spProductGet eng (Some A) pP db2"
    using spProductGet_scope[of eng A pP db1] spProductGet_scope[of eng A pP db2] assms by simp
  have r1: "spProductRelated (Some A) pP limit criteria db1
        = spProductRelated (Some A) pP limit criteria (account_rows A db1)"
    by (rule spProductRelated_scope[symmetric])
  have r2: "spProductRelated (Some A) pP limit criteria db1 = spProductRelated (Some A) pP limit criteria db2"
    using spProductRelated_scope[of A pP limit criteria db1]
      spProductRelated_scope[of A pP limit criteria db2] assms by simp
  have w: "identity_keys db1 \<longrightarrow>
        (\<forall>B. B \<noteq> A \<longrightarrow>
          account_rows B (snd (spCartItemAdd (Some A) pU pP pF pS pQ obs now db1)) = account_rows B db1)"
    using spCartItemAdd_others[OF prod.collapse[symmetric]] by blast
  have c: "cartIdentity db1 = cartIdentity db2 \<and> cartItemIdentity db1 = cartItemIdentity db2
        \<and> fkProductFlavor_Flavor db1 \<and> fkProductFlavor_Flavor db2
        \<and> size_of_account A pS db1 \<and> size_of_account A pS db2 \<longrightarrow>
        fst (spCartItemAdd (Some A) pU pP pF pS pQ obs now db1)
          = fst (spCartItemAdd (Some A) pU pP pF pS pQ obs now db2)
        \<and> agree_on A (snd (spCartItemAdd (Some A) pU pP pF pS pQ obs now db1))
            (snd (spCartItemAdd (Some A) pU pP pF pS pQ obs now db2))"
  proof (intro impI, elim conjE)
    assume h: "cartIdentity db1 = cartIdentity db2" "cartItemIdentity db1 = cartItemIdentity db2"
      "fkProductFlavor_Flavor db1" "fkProductFlavor_Flavor db2"
      "size_of_account A pS db1" "size_of_account A pS db2"
    have "agree_on A db1 db2"
      using assms h(1,2) by (simp add: agree_on_def)
    from spCartItemAdd_agree[OF this h(5,6,3,4)]
    show "fst (spCartItemAdd (Some A) pU pP pF pS pQ obs now db1)
          = fst (spCartItemAdd (Some A) pU pP pF pS pQ obs now db2)
        \<and> agree_on A (snd (spCartItemAdd (Some A) pU pP pF pS pQ obs now db1))
            (snd (spCartItemAdd (Some A) pU pP pF pS pQ obs now db2))" .
  qed
  show ?thesis
    by (rule conjI[OF l1 conjI[OF l2 conjI[OF g1 conjI[OF g2 conjI[OF r1 conjI[OF r2 conjI[OF w c]]]]]]])
qed

text \<open>
  Claim C6 as stated fails for \<open>spCartItemAdd\<close> in two ways. The identifier of a new cart
  comes from the identity counter of the table, which the carts of other accounts move:
  the same call creates cart 2 on \<open>shop\<close> and cart 3 on \<open>shop_c\<close>. And the unit price joins
  table \<open>size\<close> on \<open>idSize\<close> alone: with product 2 offered in size 3 of account 2, the
  call returns and stores 60 on \<open>shop\<close> and 64 on \<open>shop_b\<close>.
\<close>

theorem account_isolation_counterexample:
  "account_rows 1 shop = account_rows 1 shop_c
    \<and> CartItemAdded.idCart (projr (fst
          (spCartItemAdd (Some 1) (Some 2) (Some 1) (Some 1) (Some 2) (Some 3) None 9 shop))) = 2
    \<and> CartItemAdded.idCart (projr (fst
          (spCartItemAdd (Some 1) (Some 2) (Some 1) (Some 1) (Some 2) (Some 3) None 9 shop_c))) = 3
    \<and> account_rows 1 shop = account_rows 1 shop_b
    \<and> fst (spCartItemAdd (Some 1) (Some 2) (Some 2) (Some 2) (Some 3) (Some 3) None 9 shop)
        = Inr \<lparr>CartItemAdded.idCartItem = 2, idCart = 2, quantity = 3, unitPrice = 60000000,
               totalPrice = 180000000, success = True\<rparr>
    \<and> fst (spCartItemAdd (Some 1) (Some 2) (Some 2) (Some 2) (Some 3) (Some 3) None 9 shop_b)
        = Inr \<lparr>CartItemAdded.idCartItem = 2, idCart = 2, quantity = 3, unitPrice = 64000000,
               totalPrice = 192000000, success = True\<rparr>
    \<and> map crtItm.unitPrice (cartItem (account_rows 1 (snd
          (spCartItemAdd (Some 1) (Some 2) (Some 2) (Some 2) (Some 3) (Some 3) None 9 shop))))
        = [60000000, 60000000]
    \<and> map crtItm.unitPrice (cartItem (account_rows 1 (snd
          (spCartItemAdd (Some 1) (Some 2) (Some 2) (Some 2) (Some 3) (Some 3) None 9 shop_b))))
        = [60000000, 64000000]"
  by code_simp

theorem account_isolation_witness:
  "account_rows 1 shop = account_rows 1 shop_b
    \<and> size_tbl shop \<noteq> size_tbl shop_b
    \<and> identity_keys shop
    \<and> size_of_account 1 (Some 2) shop \<and> size_of_account 1 (Some 2) shop_b
    \<and> spProductList server (Some 1) firstPage shop = spProductList server (Some 1) firstPage shop_b
    \<and> spProductGet server (Some 1) (Some 1) shop = spProductGet server (Some 1) (Some 1) shop_b
    \<and> spProductRelated (Some 1) (Some 1) 4 ''sabor'' shop = spProductRelated (Some 1) (Some 1) 4 ''sabor'' shop_b
    \<and> account_rows 2 (snd (spCartItemAdd (Some 1) (Some 2) (Some 1) (Some 1) (Some 2) (Some 3) None 9 shop))
        = account_rows 2 shop
    \<and> fst (spCartItemAdd (Some 1) (Some 2) (Some 1) (Some 1) (Some 2) (Some 3) None 9 shop)
        = fst (spCartItemAdd (Some 1) (Some 2) (Some 1) (Some 1) (Some 2) (Some 3) None 9 shop_b)
    \<and> agree_on 1 (snd (spCartItemAdd (Some 1) (Some 2) (Some 1) (Some 1) (Some 2) (Some 3) None 9 shop))
        (snd (spCartItemAdd (Some 1) (Some 2) (Some 1) (Some 1) (Some 2) (Some 3) None 9 shop_b))"
proof -
  have ag: "account_rows 1 shop = account_rows 1 shop_b"
    by code_simp
  have ne: "size_tbl shop \<noteq> size_tbl shop_b"
    by code_simp
  have k: "identity_keys shop"
    by code_simp
  have s: "size_of_account 1 (Some 2) shop" "size_of_account 1 (Some 2) shop_b"
    by code_simp+
  have f: "fkProductFlavor_Flavor shop" "fkProductFlavor_Flavor shop_b"
    by code_simp+
  have n: "cartIdentity shop = cartIdentity shop_b" "cartItemIdentity shop = cartItemIdentity shop_b"
    by code_simp+
  note t = account_isolation[OF ag, of server firstPage "Some 1" 4 "''sabor''" "Some 2" "Some 1"
      "Some 2" "Some 3" None 9]
  note l = t[THEN conjunct2, THEN conjunct1]
  note g = t[THEN conjunct2, THEN conjunct2, THEN conjunct2, THEN conjunct1]
  note r = t[THEN conjunct2, THEN conjunct2, THEN conjunct2, THEN conjunct2, THEN conjunct2,
      THEN conjunct1]
  note w = t[THEN conjunct2, THEN conjunct2, THEN conjunct2, THEN conjunct2, THEN conjunct2,
      THEN conjunct2, THEN conjunct1, rule_format, OF k, of 2]
  note c = t[THEN conjunct2, THEN conjunct2, THEN conjunct2, THEN conjunct2, THEN conjunct2,
      THEN conjunct2, THEN conjunct2, rule_format]
  have w': "account_rows 2 (snd (spCartItemAdd (Some 1) (Some 2) (Some 1) (Some 1) (Some 2) (Some 3) None 9 shop))
        = account_rows 2 shop"
    by (rule w) simp
  have c': "fst (spCartItemAdd (Some 1) (Some 2) (Some 1) (Some 1) (Some 2) (Some 3) None 9 shop)
        = fst (spCartItemAdd (Some 1) (Some 2) (Some 1) (Some 1) (Some 2) (Some 3) None 9 shop_b)
    \<and> agree_on 1 (snd (spCartItemAdd (Some 1) (Some 2) (Some 1) (Some 1) (Some 2) (Some 3) None 9 shop))
        (snd (spCartItemAdd (Some 1) (Some 2) (Some 1) (Some 1) (Some 2) (Some 3) None 9 shop_b))"
    by (rule c) (intro conjI n f s)
  show ?thesis
    by (intro conjI ag ne k s l g r w' c'[THEN conjunct1] c'[THEN conjunct2])
qed

end
